(* ===== verification/VLan_Prelude.thy ===== *)
theory VLan_Prelude
  imports Main "HOL-Library.Word" "HOL-Library.Sublist" "HOL-Library.Multiset"
begin

text \<open>
  Shared vocabulary of the development: the Python exceptions the controller can raise,
  a writer-and-exception monad for code that sends messages and may raise part way
  through, Python's substring test \<open>sub in s\<close>, and generic lemmas on lists and
  multisets used by the component theories.
\<close>

named_theorems prog_simps "equations that evaluate programs of the writer/exception monad"

section \<open>Python exceptions\<close>

datatype py_exn = AttributeError string

section \<open>Programs that send messages and may raise\<close>

text \<open>
  A program returns a result or the exception it raised, together with the messages it
  sent, in order. Messages sent before an exception stay sent: a raise does not undo a
  \<open>send_msg\<close> already performed.
\<close>

type_synonym ('w, 'a) prog = "(py_exn + 'a) \<times> 'w list"

definition ret :: "'a \<Rightarrow> ('w, 'a) prog" where
  "ret x = (Inr x, [])"

definition raise :: "py_exn \<Rightarrow> ('w, 'a) prog" where
  "raise e = (Inl e, [])"

definition emit :: "'w \<Rightarrow> ('w, unit) prog" where
  "emit w = (Inr (), [w])"

definition bindE :: "('w, 'a) prog \<Rightarrow> ('a \<Rightarrow> ('w, 'b) prog) \<Rightarrow> ('w, 'b) prog" where
  "bindE m f =
     (case m of
        (Inl e, out) \<Rightarrow> (Inl e, out)
      | (Inr x, out) \<Rightarrow> (case f x of (r, out') \<Rightarrow> (r, out @ out')))"

definition sent :: "('w, 'a) prog \<Rightarrow> 'w list" where
  "sent m = snd m"

definition outcome :: "('w, 'a) prog \<Rightarrow> py_exn + 'a" where
  "outcome m = fst m"

lemma bindE_ret [simp, prog_simps]: "bindE (ret x) f = f x"
  by (simp add: bindE_def ret_def split: prod.split)

lemma bindE_ret_right [simp, prog_simps]: "bindE m ret = m"
  by (simp add: bindE_def ret_def split: prod.split sum.split)

lemma bindE_raise [simp, prog_simps]: "bindE (raise e) f = raise e"
  by (simp add: bindE_def raise_def)

lemma bindE_assoc [prog_simps]: "bindE (bindE m f) g = bindE m (\<lambda>x. bindE (f x) g)"
  by (simp add: bindE_def split: prod.split sum.split)

lemma bindE_Inr [simp, prog_simps]:
  "bindE (Inr x, out) f = (outcome (f x), out @ sent (f x))"
  by (simp add: bindE_def outcome_def sent_def split: prod.split)

lemma bindE_Inl [simp, prog_simps]: "bindE (Inl e, out) f = (Inl e, out)"
  by (simp add: bindE_def)

lemma sent_simps [simp, prog_simps]:
  "sent (r, out) = out" "sent (ret x) = []" "sent (raise e) = []" "sent (emit w) = [w]"
  by (simp_all add: sent_def ret_def raise_def emit_def)

lemma outcome_simps [simp, prog_simps]:
  "outcome (r, out) = r" "outcome (ret x) = Inr x" "outcome (raise e) = Inl e"
  "outcome (emit w) = Inr ()"
  by (simp_all add: outcome_def ret_def raise_def emit_def)

lemma prog_eq_iff: "m = m' \<longleftrightarrow> outcome m = outcome m' \<and> sent m = sent m'"
  by (cases m; cases m') (simp add: outcome_def sent_def)

lemma emit_eq [prog_simps]: "emit w = (Inr (), [w])"
  by (simp add: emit_def)

lemma ret_eq [prog_simps]: "ret x = (Inr x, [])"
  by (simp add: ret_def)

lemma raise_eq [prog_simps]: "raise e = (Inl e, [])"
  by (simp add: raise_def)

text \<open>Sequencing a program that succeeds: its messages come first.\<close>

lemma bindE_ok:
  "outcome m = Inr x \<Longrightarrow>
     bindE m f = (outcome (f x), sent m @ sent (f x))"
  by (cases m) (simp add: outcome_def sent_def)

lemma bindE_err:
  "outcome m = Inl e \<Longrightarrow> bindE m f = (Inl e, sent m)"
  by (cases m) (simp add: outcome_def sent_def)

lemma sent_bindE:
  "sent (bindE m f) = sent m @ (case outcome m of Inl e \<Rightarrow> [] | Inr x \<Rightarrow> sent (f x))"
  by (cases m) (simp add: bindE_def outcome_def sent_def split: sum.split prod.split)

lemma outcome_bindE:
  "outcome (bindE m f) = (case outcome m of Inl e \<Rightarrow> Inl e | Inr x \<Rightarrow> outcome (f x))"
  by (cases m) (simp add: bindE_def outcome_def sent_def split: sum.split prod.split)

section \<open>Python's substring test\<close>

text \<open>
  \<open>sub in s\<close> on Python strings: true when \<open>sub\<close> occurs at some position of \<open>s\<close>.
  The executable scan below tries each position in turn, as CPython's search does; it is
  shown equal to the library's contiguous-sublist relation.
\<close>

fun py_contains :: "string \<Rightarrow> string \<Rightarrow> bool" where
  "py_contains sub [] = (sub = [])"
| "py_contains sub (c # s) = (prefix sub (c # s) \<or> py_contains sub s)"

lemma py_contains_sublist: "py_contains sub s \<longleftrightarrow> sublist sub s"
proof (induction s)
  case Nil
  then show ?case by simp
next
  case (Cons c s)
  then show ?case by (simp add: sublist_Cons_right)
qed

section \<open>Lists and multisets\<close>

lemma find_SomeD: "find P xs = Some x \<Longrightarrow> x \<in> set xs \<and> P x"
  by (induction xs) (auto split: if_splits)

lemma find_append:
  "find P (xs @ ys) = (case find P xs of None \<Rightarrow> find P ys | Some x \<Rightarrow> Some x)"
  by (induction xs) simp_all

lemma find_None_iff': "find P xs = None \<longleftrightarrow> (\<forall>x \<in> set xs. \<not> P x)"
  by (induction xs) auto

lemma mset_concat_map_perm:
  "mset xs = mset ys \<Longrightarrow> mset (concat (map f xs)) = mset (concat (map f ys))"
proof -
  have eq: "mset (concat (map f zs)) = sum_mset (image_mset (mset \<circ> f) (mset zs))" for zs
    by (induction zs) auto
  assume "mset xs = mset ys"
  then show ?thesis by (simp only: eq)
qed

lemma distinct_map_filter_le1:
  "distinct (map f xs) \<Longrightarrow> (\<forall>x \<in> set xs. P x \<longrightarrow> f x = c) \<Longrightarrow> length (filter P xs) \<le> 1"
proof (induction xs)
  case Nil
  then show ?case by simp
next
  case (Cons x xs)
  show ?case
  proof (cases "P x")
    case True
    with Cons.prems have "\<forall>y \<in> set xs. \<not> P y"
      by (auto simp: image_iff)
    then show ?thesis by (simp add: filter_empty_conv)
  next
    case False
    with Cons show ?thesis by simp
  qed
qed

end
