(* ===== verification/Config.thy ===== *)
theory Config
  imports VLan_Prelude
begin

text \<open>
  The tenant configuration table of \<open>src/vlan_proactive.py\<close>: the class attribute
  \<open>value_pair\<close> (lines 74--76), a dictionary display from group key to port labels,
  built as Python builds it (\<open>py_dict\<close>) and kept as an association list in insertion
  order. The spec (section 7) requires that no label serves
  two groups; \<open>config_conflict_free\<close> is that check. Because the resolver matches labels as
  substrings of port names, \<open>labels_unambiguous\<close> asks more: no configured label occurs
  inside another one.
\<close>

type_synonym config = "(string \<times> string list) list"

text \<open>
  A Python dict display \<open>{k1: v1, k2: v2, ...}\<close> stores its items left to right, each
  as \<open>d[k] = v\<close>: a new key goes to the end, a repeated key keeps its first position and
  takes the new value. A dictionary is kept as the association list of its items in
  iteration order.
\<close>

fun dict_setitem :: "('k \<times> 'v) list \<Rightarrow> 'k \<Rightarrow> 'v \<Rightarrow> ('k \<times> 'v) list" where
  "dict_setitem [] k v = [(k, v)]"
| "dict_setitem ((k', v') # d) k v = (if k' = k then (k, v) # d else (k', v') # dict_setitem d k v)"

definition py_dict :: "('k \<times> 'v) list \<Rightarrow> ('k \<times> 'v) list" where
  "py_dict items = foldl (\<lambda>d (k, v). dict_setitem d k v) [] items"

definition value_pair :: config where
  "value_pair =
     py_dict [(''tenda1'', [''s1-eth1'', ''s1-eth3'', ''s2-eth2'']),
              (''tenda2'', [''s1-eth2'', ''s2-eth1'', ''s3-eth1'']),
              (''trunk'', [''s1-eth4'', ''s2-eth3'', ''s3-eth2''])]"

fun config_conflict_free :: "config \<Rightarrow> bool" where
  "config_conflict_free [] = True"
| "config_conflict_free ((key, labels) # groups) =
     ((\<forall>(key', labels') \<in> set groups. key \<noteq> key' \<and> set labels \<inter> set labels' = {})
      \<and> config_conflict_free groups)"

definition config_labels :: "config \<Rightarrow> string list" where
  "config_labels vp = concat (map snd vp)"

definition labels_unambiguous :: "config \<Rightarrow> bool" where
  "labels_unambiguous vp =
     (\<forall>l \<in> set (config_labels vp). \<forall>l' \<in> set (config_labels vp). sublist l l' \<longrightarrow> l = l')"

section \<open>Lemmas\<close>

lemma map_of_dict_setitem [simp]: "map_of (dict_setitem d k v) = (map_of d)(k \<mapsto> v)"
  by (induction d) auto

lemma keys_dict_setitem:
  "map fst (dict_setitem d k v) = (if k \<in> set (map fst d) then map fst d else map fst d @ [k])"
  by (induction d) fastforce+

lemma distinct_dict_setitem: "distinct (map fst d) \<Longrightarrow> distinct (map fst (dict_setitem d k v))"
  by (simp add: keys_dict_setitem)

lemma dict_setitem_new: "k \<notin> set (map fst d) \<Longrightarrow> dict_setitem d k v = d @ [(k, v)]"
  by (induction d) auto

lemma py_dict_append: "py_dict (xs @ [(k, v)]) = dict_setitem (py_dict xs) k v"
  by (simp add: py_dict_def)

text \<open>
  The dict display as a map: looking a key up gives the value of its last occurrence;
  the keys are those of the display, each once; a display with distinct keys is kept as
  written.
\<close>

lemma py_dict_map_of: "map_of (py_dict items) = map_of (rev items)"
proof (induction items rule: rev_induct)
  case Nil
  then show ?case by (simp add: py_dict_def)
next
  case (snoc x xs)
  then show ?case by (cases x) (simp add: py_dict_append map_of_append map_add_def fun_eq_iff)
qed

lemma py_dict_keys: "distinct (map fst (py_dict items)) \<and> set (map fst (py_dict items)) = fst ` set items"
proof (induction items rule: rev_induct)
  case Nil
  then show ?case by (simp add: py_dict_def)
next
  case (snoc x xs)
  then show ?case by (cases x) (auto simp: py_dict_append keys_dict_setitem)
qed

lemma py_dict_distinct: "distinct (map fst items) \<Longrightarrow> py_dict items = items"
proof (induction items rule: rev_induct)
  case Nil
  then show ?case by (simp add: py_dict_def)
next
  case (snoc x xs)
  then show ?case by (cases x) (simp add: py_dict_append dict_setitem_new)
qed

lemma value_pair_items:
  "value_pair =
     [(''tenda1'', [''s1-eth1'', ''s1-eth3'', ''s2-eth2'']),
      (''tenda2'', [''s1-eth2'', ''s2-eth1'', ''s3-eth1'']),
      (''trunk'', [''s1-eth4'', ''s2-eth3'', ''s3-eth2''])]"
  unfolding value_pair_def by (rule py_dict_distinct) simp

section \<open>Properties\<close>

text \<open>
  The shipped configuration is conflict-free (spec sections 3 and 8): its keys are
  distinct, no label belongs to two groups, no label is listed twice, and no label occurs
  inside another label, so substring matching cannot confuse two configured labels.
\<close>

theorem value_pair_conflict_free:
  "config_conflict_free value_pair \<and> distinct (config_labels value_pair)
   \<and> labels_unambiguous value_pair"
  by code_simp

end
