(* ===== verification/OpenFlow.thy ===== *)
theory OpenFlow
  imports VLan_Prelude
begin

unbundle bit_operations_syntax

text \<open>
  The part of the Ryu OpenFlow 1.3 interface the controller uses, at the level of the
  objects the Python code builds: ports and datapaths as reported by the switch, the
  \<open>OFPMatch\<close> object with its setters, actions, instructions and the \<open>OFPFlowMod\<close>
  message. \<open>send_msg\<close> appends the message, addressed to the datapath's id, to the
  controller's output. Field widths are those of the OpenFlow 1.3 wire format. The two
  VLAN Ethertype constants are those of \<open>src/vlan_proactive.py\<close>. Output actions and
  goto-table instructions, which the code never builds, are included so that the packet
  semantics can say what the installed rules lack. \<open>flow_mod_wf\<close> collects the checks a
  switch makes before it accepts a flow-add.
\<close>

type_synonym dpid = "64 word"

section \<open>Ports and datapaths\<close>

text \<open>
  A port as Ryu reports it (\<open>OFPPort\<close>): the code reads its number and its name.
  The datapath object of Ryu: the code reads its id (when sending) and the attribute
  \<open>datapath.ofproto.port_no\<close> (in \<open>_get_port_number\<close>). That attribute is looked up on the
  OpenFlow protocol module of the datapath; \<open>None\<close> stands for a module without it, where
  Python raises \<open>AttributeError\<close>.
\<close>

record port =
  port_no :: "32 word"
  name :: string

record datapath =
  dp_id :: dpid
  ofproto_port_no :: "port list option"

section \<open>Matches\<close>

text \<open>
  \<open>OFPMatch()\<close> starts with every field wildcarded; each setter fixes one field. The VLAN
  id is kept as the Python integer passed to \<open>set_vlan_vid\<close>; its 16-bit wire form is
  \<open>oxm_vlan_vid\<close> below.
\<close>

record ofp_match =
  match_in_port :: "32 word option"
  match_dl_type :: "16 word option"
  match_vlan_vid :: "int option"

definition OFPMatch :: ofp_match where
  "OFPMatch = \<lparr>match_in_port = None, match_dl_type = None, match_vlan_vid = None\<rparr>"

definition set_in_port :: "32 word \<Rightarrow> ofp_match \<Rightarrow> ofp_match" where
  "set_in_port p m = m\<lparr>match_in_port := Some p\<rparr>"

definition set_dl_type :: "16 word \<Rightarrow> ofp_match \<Rightarrow> ofp_match" where
  "set_dl_type t m = m\<lparr>match_dl_type := Some t\<rparr>"

definition set_vlan_vid :: "int \<Rightarrow> ofp_match \<Rightarrow> ofp_match" where
  "set_vlan_vid v m = m\<lparr>match_vlan_vid := Some v\<rparr>"

lemmas match_setters = OFPMatch_def set_in_port_def set_dl_type_def set_vlan_vid_def

abbreviation ETH_TYPE_IP :: "16 word" where
  "ETH_TYPE_IP \<equiv> 0x0800"

text \<open>
  On the wire the VLAN-id match field is 16 bits wide: Ryu's \<open>set_vlan_vid\<close> adds the
  \<open>OFPVID_PRESENT\<close> bit (0x1000) to the id, and a switch reads the id from the low 12
  bits.
\<close>

abbreviation OFPVID_PRESENT :: "16 word" where
  "OFPVID_PRESENT \<equiv> 0x1000"

definition oxm_vlan_vid :: "int \<Rightarrow> 16 word" where
  "oxm_vlan_vid v = word_of_int v OR OFPVID_PRESENT"

definition vid_of_oxm :: "16 word \<Rightarrow> int" where
  "vid_of_oxm w = uint (w AND 0x0fff)"

section \<open>Actions, instructions, flow modifications\<close>

datatype oxm_field = OXM_OF_VLAN_VID

datatype match_field = OFPMatchField oxm_field int

datatype ofp_action =
    OFPActionPushVlan "16 word"
  | OFPActionSetField match_field
  | OFPActionOutput "32 word"

datatype instruction_type =
    OFPIT_GOTO_TABLE | OFPIT_WRITE_METADATA | OFPIT_WRITE_ACTIONS | OFPIT_APPLY_ACTIONS
  | OFPIT_CLEAR_ACTIONS | OFPIT_METER

datatype ofp_instruction =
    OFPInstructionActions instruction_type "ofp_action list"
  | OFPInstructionGotoTable "8 word"

datatype flow_mod_command =
    OFPFC_ADD | OFPFC_MODIFY | OFPFC_MODIFY_STRICT | OFPFC_DELETE | OFPFC_DELETE_STRICT

record flow_mod =
  cookie :: "64 word"
  cookie_mask :: "64 word"
  table_id :: "8 word"
  command :: flow_mod_command
  idle_timeout :: "16 word"
  hard_timeout :: "16 word"
  priority :: "16 word"
  buffer_id :: "32 word"
  out_port :: "32 word"
  out_group :: "32 word"
  flags :: "16 word"
  fm_match :: ofp_match
  instructions :: "ofp_instruction list"

abbreviation OFPP_ANY :: "32 word" where
  "OFPP_ANY \<equiv> 0xffffffff"

abbreviation OFPG_ANY :: "32 word" where
  "OFPG_ANY \<equiv> 0xffffffff"

section \<open>Sending\<close>

text \<open>
  The controller's observable effect: messages addressed to a datapath id. The code never
  waits for a reply, so a program of the controller is a writer of such messages that may
  raise.
\<close>

type_synonym out_msg = "dpid \<times> flow_mod"

type_synonym 'a ryu = "(out_msg, 'a) prog"

definition send_msg :: "datapath \<Rightarrow> flow_mod \<Rightarrow> unit ryu" where
  "send_msg dp m = emit (dp_id dp, m)"

section \<open>The VLAN Ethertypes of the controller\<close>

definition VLAN_TAG_802_1Q :: "16 word" where
  "VLAN_TAG_802_1Q = 0x8100"

definition BRIDGE_TAG_802_1AD :: "16 word" where
  "BRIDGE_TAG_802_1AD = 0x88A8"

section \<open>Well-formed flow modifications\<close>

text \<open>
  What an OpenFlow 1.3 switch checks before it accepts a flow-add. Otherwise it answers
  with an error message and installs nothing.
  \<^item> The table id names a flow table (below \<open>OFPTT_MAX\<close>, 0xfe).
  \<^item> An in-port match names a physical port (at most \<open>OFPP_MAX\<close>) or the local port.
    \<open>OFPP_ANY\<close> and the other reserved ports are bad matches.
  \<^item> A VLAN-id match fits the 12 bits of an 802.1Q id.
  \<^item> No instruction type occurs twice (\<open>OFPBIC_DUP_INST\<close>).
  \<^item> An action instruction is apply-, write- or clear-actions.
  \<^item> A push-VLAN action pushes Ethertype 0x8100 or 0x88a8 (\<open>OFPBAC_BAD_ARGUMENT\<close>).
  \<^item> An output action names a port other than \<open>OFPP_ANY\<close>, and a goto-table names a
    flow table after the entry's own (\<open>OFPBIC_BAD_TABLE_ID\<close>).
  \<^item> A VLAN-id set-field value fits 12 bits.
  \<open>valid_port_table\<close> is the matching condition on what a switch reports about its ports.
\<close>

abbreviation OFPP_MAX :: "32 word" where
  "OFPP_MAX \<equiv> 0xffffff00"

abbreviation OFPP_LOCAL :: "32 word" where
  "OFPP_LOCAL \<equiv> 0xfffffffe"

definition port_no_wf :: "32 word \<Rightarrow> bool" where
  "port_no_wf p = (p \<le> OFPP_MAX \<or> p = OFPP_LOCAL)"

fun action_wf :: "ofp_action \<Rightarrow> bool" where
  "action_wf (OFPActionPushVlan t) = (t = 0x8100 \<or> t = 0x88A8)"
| "action_wf (OFPActionSetField (OFPMatchField OXM_OF_VLAN_VID v)) = (0 \<le> v \<and> v < 4096)"
| "action_wf (OFPActionOutput p) = (p \<noteq> OFPP_ANY)"

fun instruction_kind :: "ofp_instruction \<Rightarrow> instruction_type" where
  "instruction_kind (OFPInstructionActions t acts) = t"
| "instruction_kind (OFPInstructionGotoTable t) = OFPIT_GOTO_TABLE"

fun instruction_wf :: "ofp_instruction \<Rightarrow> bool" where
  "instruction_wf (OFPInstructionActions t acts) =
     (t \<in> {OFPIT_APPLY_ACTIONS, OFPIT_WRITE_ACTIONS, OFPIT_CLEAR_ACTIONS} \<and> list_all action_wf acts)"
| "instruction_wf (OFPInstructionGotoTable t) = (t < 0xfe)"

fun goto_after :: "8 word \<Rightarrow> ofp_instruction \<Rightarrow> bool" where
  "goto_after tid (OFPInstructionGotoTable t) = (tid < t)"
| "goto_after tid (OFPInstructionActions ty acts) = True"

definition match_wf :: "ofp_match \<Rightarrow> bool" where
  "match_wf m =
     ((case match_in_port m of None \<Rightarrow> True | Some p \<Rightarrow> port_no_wf p)
      \<and> (case match_vlan_vid m of None \<Rightarrow> True | Some v \<Rightarrow> 0 \<le> v \<and> v < 4096))"

definition flow_mod_wf :: "flow_mod \<Rightarrow> bool" where
  "flow_mod_wf fm =
     (table_id fm < 0xfe \<and> match_wf (fm_match fm)
      \<and> distinct (map instruction_kind (instructions fm)) \<and> list_all instruction_wf (instructions fm)
      \<and> list_all (goto_after (table_id fm)) (instructions fm))"

definition valid_port_table :: "datapath \<Rightarrow> bool" where
  "valid_port_table dp =
     (case ofproto_port_no dp of None \<Rightarrow> True | Some ports \<Rightarrow> list_all (\<lambda>p. port_no_wf (port_no p)) ports)"

section \<open>Lemmas\<close>

lemma VLAN_tags_distinct: "VLAN_TAG_802_1Q \<noteq> BRIDGE_TAG_802_1AD"
  by (simp add: VLAN_TAG_802_1Q_def BRIDGE_TAG_802_1AD_def)

end
