(* ===== verification/Port_Resolver.thy ===== *)
theory Port_Resolver
  imports OpenFlow
begin

text \<open>
  The port resolver of \<open>src/vlan_proactive.py\<close>, \<open>_get_port_number\<close> (lines 146--159)
  with its inner function \<open>is_switch_label\<close>: for a list of port labels, the first
  label that is a substring of some port's name selects the first such port. Each call
  of \<open>is_switch_label\<close> reads \<open>datapath.ofproto.port_no\<close> afresh; when that attribute
  is missing the call raises and the exception leaves \<open>_get_port_number\<close>.
  The reference specification \<open>first_label_match\<close> states the policy as a list
  comprehension over labels, then ports.
\<close>

section \<open>The code\<close>

definition is_switch_label :: "datapath \<Rightarrow> string \<Rightarrow> py_exn + port option" where
  "is_switch_label datapath label =
     (case ofproto_port_no datapath of
        None \<Rightarrow> Inl (AttributeError ''port_no'')
      | Some ports \<Rightarrow> Inr (find (\<lambda>port. py_contains label (name port)) ports))"

fun get_port_number :: "string list \<Rightarrow> datapath \<Rightarrow> py_exn + port option" where
  "get_port_number [] datapath = Inr None"
| "get_port_number (label # labels) datapath =
     (case is_switch_label datapath label of
        Inl e \<Rightarrow> Inl e
      | Inr (Some port) \<Rightarrow> Inr (Some port)
      | Inr None \<Rightarrow> get_port_number labels datapath)"

section \<open>Reference specification\<close>

text \<open>
  Every (label, port) pair in label-major order whose port name contains the label; the
  resolver's answer is the first of them.
\<close>

definition label_matches :: "port list \<Rightarrow> string list \<Rightarrow> port list" where
  "label_matches ports labels =
     [port. label \<leftarrow> labels, port \<leftarrow> ports, sublist label (name port)]"

definition first_label_match :: "port list \<Rightarrow> string list \<Rightarrow> port option" where
  "first_label_match ports labels =
     (case label_matches ports labels of [] \<Rightarrow> None | port # _ \<Rightarrow> Some port)"

section \<open>Lemmas\<close>

lemma is_switch_label_Some [simp]:
  "ofproto_port_no dp = Some ports \<Longrightarrow>
     is_switch_label dp label = Inr (find (\<lambda>q. sublist label (name q)) ports)"
  by (simp add: is_switch_label_def py_contains_sublist)

lemma is_switch_label_None [simp]:
  "ofproto_port_no dp = None \<Longrightarrow> is_switch_label dp label = Inl (AttributeError ''port_no'')"
  by (simp add: is_switch_label_def)

lemma concat_map_if_singleton:
  "concat (map (\<lambda>x. if P x then [x] else []) xs) = filter P xs"
  by (induction xs) auto

lemma label_matches_Nil [simp]: "label_matches ports [] = []"
  by (simp add: label_matches_def)

lemma label_matches_Cons [simp]:
  "label_matches ports (l # ls) = filter (\<lambda>q. sublist l (name q)) ports @ label_matches ports ls"
  by (simp add: label_matches_def concat_map_if_singleton)

lemma hd_filter_append:
  "(case filter P xs @ ys of [] \<Rightarrow> None | z # _ \<Rightarrow> Some z) =
     (case find P xs of None \<Rightarrow> (case ys of [] \<Rightarrow> None | z # _ \<Rightarrow> Some z) | Some z \<Rightarrow> Some z)"
  by (induction xs) auto

lemma first_label_match_simps [simp]:
  "first_label_match ports [] = None"
  "first_label_match ports (l # ls) =
     (case find (\<lambda>q. sublist l (name q)) ports of
        None \<Rightarrow> first_label_match ports ls
      | Some p \<Rightarrow> Some p)"
  by (simp_all add: first_label_match_def hd_filter_append split: option.split)

lemma first_label_match_Some_iff:
  "first_label_match ports labels = Some p \<longleftrightarrow>
    (\<exists>pre l post. labels = pre @ l # post \<and> (\<forall>l' \<in> set pre. \<forall>q \<in> set ports. \<not> sublist l' (name q))
       \<and> find (\<lambda>q. sublist l (name q)) ports = Some p)"
  (is "_ \<longleftrightarrow> ?split labels")
proof (induction labels)
  case Nil
  then show ?case by simp
next
  case (Cons l ls)
  show ?case
  proof (cases "find (\<lambda>q. sublist l (name q)) ports")
    case None
    then have nomatch: "\<forall>q \<in> set ports. \<not> sublist l (name q)" by (simp add: find_None_iff')
    have "?split (l # ls) \<longleftrightarrow> ?split ls"
    proof
      assume "?split (l # ls)"
      then obtain pre l' post where eq: "l # ls = pre @ l' # post"
        and pre: "\<forall>l'' \<in> set pre. \<forall>q \<in> set ports. \<not> sublist l'' (name q)"
        and hit: "find (\<lambda>q. sublist l' (name q)) ports = Some p" by blast
      with None obtain pre' where "pre = l # pre'" "ls = pre' @ l' # post"
        by (cases pre) auto
      with pre hit show "?split ls" by auto
    next
      assume "?split ls"
      then obtain pre l' post where "ls = pre @ l' # post"
        and "\<forall>l'' \<in> set pre. \<forall>q \<in> set ports. \<not> sublist l'' (name q)"
        and "find (\<lambda>q. sublist l' (name q)) ports = Some p" by blast
      with nomatch show "?split (l # ls)"
        by (intro exI [of _ "l # pre"] exI [of _ l'] exI [of _ post]) auto
    qed
    with None Cons.IH show ?thesis by simp
  next
    case (Some p')
    then obtain q where q: "q \<in> set ports" "sublist l (name q)" by (auto dest: find_SomeD)
    have "?split (l # ls) \<longleftrightarrow> p' = p"
    proof
      assume "?split (l # ls)"
      then obtain pre l' post where eq: "l # ls = pre @ l' # post"
        and pre: "\<forall>l'' \<in> set pre. \<forall>q \<in> set ports. \<not> sublist l'' (name q)"
        and hit: "find (\<lambda>q. sublist l' (name q)) ports = Some p" by blast
      from eq pre q have "pre = []" by (cases pre) auto
      with eq hit Some show "p' = p" by simp
    next
      assume "p' = p"
      with Some show "?split (l # ls)"
        by (intro exI [of _ "[]"] exI [of _ l] exI [of _ ls]) simp
    qed
    with Some show ?thesis by simp
  qed
qed

lemma first_label_match_None_iff:
  "first_label_match ports labels = None \<longleftrightarrow> (\<forall>l \<in> set labels. \<forall>q \<in> set ports. \<not> sublist l (name q))"
  by (induction labels) (auto simp: find_None_iff' dest: find_SomeD split: option.split)

lemma first_label_match_SomeD:
  "first_label_match ports labels = Some p \<Longrightarrow> p \<in> set ports \<and> (\<exists>l \<in> set labels. sublist l (name p))"
  by (auto simp: first_label_match_Some_iff dest: find_SomeD)

lemma get_port_number_eq:
  "ofproto_port_no dp = Some ports \<Longrightarrow> get_port_number labels dp = Inr (first_label_match ports labels)"
  by (induction labels) (simp_all split: option.split)

lemma get_port_number_SomeD:
  assumes "get_port_number labels dp = Inr (Some p)"
  obtains ports where "ofproto_port_no dp = Some ports" and "first_label_match ports labels = Some p"
proof (cases "ofproto_port_no dp")
  case None
  with assms show ?thesis by (cases labels) (simp_all add: is_switch_label_def)
next
  case (Some ports)
  with assms that show ?thesis by (simp add: get_port_number_eq)
qed

section \<open>Properties\<close>

text \<open>
  C3. Resolution policy: when the datapath has a port table, the resolver returns a port
  exactly when some label is a substring of a port name; it returns the first port (in
  table order) matching the first label (in label order) that matches any port, and every
  label before that one matches no port.
\<close>

theorem get_port_number_first_label:
  assumes "ofproto_port_no dp = Some ports"
  shows "get_port_number labels dp = Inr (Some p) \<longleftrightarrow>
    (\<exists>pre l post. labels = pre @ l # post
       \<and> (\<forall>l' \<in> set pre. \<forall>q \<in> set ports. \<not> sublist l' (name q))
       \<and> find (\<lambda>q. sublist l (name q)) ports = Some p)"
  using assms by (simp add: get_port_number_eq first_label_match_Some_iff)

text \<open>
  Not found: with a port table, the resolver answers "no port" exactly when no label
  is a substring of any port name; it never raises then.
\<close>

theorem get_port_number_not_found:
  assumes "ofproto_port_no dp = Some ports"
  shows "get_port_number labels dp = Inr None \<longleftrightarrow>
    (\<forall>l \<in> set labels. \<forall>q \<in> set ports. \<not> sublist l (name q))"
  using assms by (simp add: get_port_number_eq first_label_match_None_iff)

text \<open>
  C11. Missing port table: when \<open>datapath.ofproto.port_no\<close> does not exist, the resolver
  raises \<open>AttributeError\<close> at the first label; only an empty label list avoids the lookup.
\<close>

theorem get_port_number_attribute_error:
  assumes "ofproto_port_no dp = None"
  shows "get_port_number labels dp =
    (if labels = [] then Inr None else Inl (AttributeError ''port_no''))"
  using assms by (cases labels) simp_all

end
