(* ===== verification/Rule_Builder.thy ===== *)
theory Rule_Builder
  imports Port_Resolver
begin

text \<open>
  Rule installation and construction in \<open>src/vlan_proactive.py\<close>: \<open>_add_flow\<close>
  (lines 84--95) wraps actions in one apply-actions instruction and sends an \<open>OFPFC_ADD\<close>
  flow modification of fixed priority 0xff to table 0; \<open>build_match\<close> (97--101) matches
  the input port and IPv4; \<open>tag_vlan\<close> (108--116) and \<open>tag_trunk\<close> (131--135) build the
  tenant and trunk rules; \<open>tag_customer_vlan\<close> (119--124) and \<open>tag_trunk_vlan\<close>
  (137--142) resolve a group's labels to a port and tag it when one is found.
  The abstract view \<open>vlan_rule\<close> (a port and the kind of rule) with its encoding
  \<open>rule_flow_mod\<close> is what the dispatcher's specification is stated over.
\<close>

section \<open>Rule installer\<close>

definition add_flow :: "datapath \<Rightarrow> ofp_match \<Rightarrow> ofp_action list \<Rightarrow> unit ryu" where
  "add_flow datapath match actions =
     (let inst = [OFPInstructionActions OFPIT_APPLY_ACTIONS actions];
          flowmod = \<lparr>cookie = 0, cookie_mask = 0, table_id = 0, command = OFPFC_ADD,
                 idle_timeout = 0, hard_timeout = 0, priority = 0xff, buffer_id = 0xffffffff,
                 out_port = OFPP_ANY, out_group = OFPG_ANY, flags = 0,
                 fm_match = match, instructions = inst\<rparr>
      in send_msg datapath flowmod)"

section \<open>Rule builder\<close>

definition build_match :: "datapath \<Rightarrow> 32 word \<Rightarrow> ofp_match" where
  "build_match datapath port = set_dl_type ETH_TYPE_IP (set_in_port port OFPMatch)"

definition tag_vlan :: "32 word \<Rightarrow> int \<Rightarrow> datapath \<Rightarrow> unit ryu" where
  "tag_vlan port vlan_id datapath =
     (let match = set_vlan_vid vlan_id (build_match datapath port);
          field = OFPMatchField OXM_OF_VLAN_VID vlan_id;
          actions = [OFPActionPushVlan VLAN_TAG_802_1Q, OFPActionSetField field]
      in add_flow datapath match actions)"

definition tag_customer_vlan :: "string list \<Rightarrow> int \<Rightarrow> datapath \<Rightarrow> unit ryu" where
  "tag_customer_vlan labels vlan_id datapath =
     (case get_port_number labels datapath of
        Inl e \<Rightarrow> raise e
      | Inr None \<Rightarrow> ret ()
      | Inr (Some port) \<Rightarrow> tag_vlan (port_no port) vlan_id datapath)"

definition tag_trunk :: "32 word \<Rightarrow> int \<Rightarrow> datapath \<Rightarrow> unit ryu" where
  "tag_trunk port trunk_id datapath =
     (let match = build_match datapath port;
          actions = [OFPActionPushVlan BRIDGE_TAG_802_1AD]
      in add_flow datapath match actions)"

definition tag_trunk_vlan :: "string list \<Rightarrow> int \<Rightarrow> datapath \<Rightarrow> unit ryu" where
  "tag_trunk_vlan labels trunk_id datapath =
     (case get_port_number labels datapath of
        Inl e \<Rightarrow> raise e
      | Inr None \<Rightarrow> ret ()
      | Inr (Some port) \<Rightarrow> tag_trunk (port_no port) trunk_id datapath)"

section \<open>Abstract rules and their encoding\<close>

text \<open>
  The rules the controller installs differ only in the input port and in whether they
  are tenant rules (with the tenant's VLAN id) or trunk rules.
\<close>

datatype rule_kind = TenantRule int | TrunkRule

record vlan_rule =
  rule_in_port :: "32 word"
  rule_kind :: rule_kind

fun kind_match :: "rule_kind \<Rightarrow> int option" where
  "kind_match (TenantRule v) = Some v"
| "kind_match TrunkRule = None"

fun kind_actions :: "rule_kind \<Rightarrow> ofp_action list" where
  "kind_actions (TenantRule v) =
     [OFPActionPushVlan VLAN_TAG_802_1Q, OFPActionSetField (OFPMatchField OXM_OF_VLAN_VID v)]"
| "kind_actions TrunkRule = [OFPActionPushVlan BRIDGE_TAG_802_1AD]"

definition rule_flow_mod :: "vlan_rule \<Rightarrow> flow_mod" where
  "rule_flow_mod r =
     \<lparr>cookie = 0, cookie_mask = 0, table_id = 0, command = OFPFC_ADD,
      idle_timeout = 0, hard_timeout = 0, priority = 0xff, buffer_id = 0xffffffff,
      out_port = OFPP_ANY, out_group = OFPG_ANY, flags = 0,
      fm_match = \<lparr>match_in_port = Some (rule_in_port r), match_dl_type = Some ETH_TYPE_IP,
                  match_vlan_vid = kind_match (rule_kind r)\<rparr>,
      instructions = [OFPInstructionActions OFPIT_APPLY_ACTIONS (kind_actions (rule_kind r))]\<rparr>"

text \<open>
  The rules a group yields on a switch with a given port table: one rule on the port its
  labels resolve to, or none; and the messages that carry rules to a datapath.
\<close>

definition group_rules :: "port list \<Rightarrow> rule_kind \<Rightarrow> string list \<Rightarrow> vlan_rule list" where
  "group_rules ports k labels =
     (case first_label_match ports labels of
        None \<Rightarrow> []
      | Some p \<Rightarrow> [\<lparr>rule_in_port = port_no p, rule_kind = k\<rparr>])"

definition to_msgs :: "datapath \<Rightarrow> vlan_rule list \<Rightarrow> out_msg list" where
  "to_msgs dp rs = map (\<lambda>r. (dp_id dp, rule_flow_mod r)) rs"

section \<open>Lemmas\<close>

lemma tag_vlan_eq:
  "tag_vlan port v dp =
     (Inr (), [(dp_id dp, rule_flow_mod \<lparr>rule_in_port = port, rule_kind = TenantRule v\<rparr>)])"
  by (simp add: tag_vlan_def add_flow_def build_match_def match_setters rule_flow_mod_def
      send_msg_def emit_def)

lemma tag_trunk_eq:
  "tag_trunk port t dp =
     (Inr (), [(dp_id dp, rule_flow_mod \<lparr>rule_in_port = port, rule_kind = TrunkRule\<rparr>)])"
  by (simp add: tag_trunk_def add_flow_def build_match_def match_setters rule_flow_mod_def
      send_msg_def emit_def)

lemma tag_customer_vlan_ports:
  "ofproto_port_no dp = Some ports \<Longrightarrow>
     tag_customer_vlan labels v dp = (Inr (), to_msgs dp (group_rules ports (TenantRule v) labels))"
  by (simp add: tag_customer_vlan_def get_port_number_eq group_rules_def to_msgs_def tag_vlan_eq ret_eq
      split: option.split)

lemma tag_trunk_vlan_ports:
  "ofproto_port_no dp = Some ports \<Longrightarrow>
     tag_trunk_vlan labels t dp = (Inr (), to_msgs dp (group_rules ports TrunkRule labels))"
  by (simp add: tag_trunk_vlan_def get_port_number_eq group_rules_def to_msgs_def tag_trunk_eq ret_eq
      split: option.split)

lemma tag_customer_vlan_missing:
  "ofproto_port_no dp = None \<Longrightarrow>
     tag_customer_vlan labels v dp =
       (if labels = [] then (Inr (), []) else (Inl (AttributeError ''port_no''), []))"
  by (cases labels) (simp_all add: tag_customer_vlan_def ret_eq raise_eq)

lemma tag_trunk_vlan_missing:
  "ofproto_port_no dp = None \<Longrightarrow>
     tag_trunk_vlan labels t dp =
       (if labels = [] then (Inr (), []) else (Inl (AttributeError ''port_no''), []))"
  by (cases labels) (simp_all add: tag_trunk_vlan_def ret_eq raise_eq)

lemma to_msgs_append [simp]: "to_msgs dp (rs @ rs') = to_msgs dp rs @ to_msgs dp rs'"
  by (simp add: to_msgs_def)

lemma to_msgs_Nil [simp]: "to_msgs dp [] = []"
  by (simp add: to_msgs_def)

section \<open>Properties\<close>

text \<open>
  C9. Tenant tagging on every branch: without a readable port table it raises
  \<open>AttributeError\<close> (or does nothing for an empty label list); with one, it sends nothing
  when no label resolves, and otherwise exactly one rule on the resolved port that matches
  that port, IPv4 and the tenant's VLAN id, and pushes an 802.1Q tag (0x8100) whose VLAN
  id it sets to the tenant's.
\<close>

theorem tag_customer_vlan_branches:
  "tag_customer_vlan labels v dp =
     (case ofproto_port_no dp of
        None \<Rightarrow> (if labels = [] then (Inr (), []) else (Inl (AttributeError ''port_no''), []))
      | Some ports \<Rightarrow>
          (case first_label_match ports labels of
             None \<Rightarrow> (Inr (), [])
           | Some p \<Rightarrow> (Inr (), [(dp_id dp,
               \<lparr>cookie = 0, cookie_mask = 0, table_id = 0, command = OFPFC_ADD,
                idle_timeout = 0, hard_timeout = 0, priority = 0xff, buffer_id = 0xffffffff,
                out_port = OFPP_ANY, out_group = OFPG_ANY, flags = 0,
                fm_match = \<lparr>match_in_port = Some (port_no p), match_dl_type = Some ETH_TYPE_IP,
                            match_vlan_vid = Some v\<rparr>,
                instructions = [OFPInstructionActions OFPIT_APPLY_ACTIONS
                  [OFPActionPushVlan 0x8100, OFPActionSetField (OFPMatchField OXM_OF_VLAN_VID v)]]\<rparr>)])))"
proof (cases "ofproto_port_no dp")
  case None
  then show ?thesis by (simp add: tag_customer_vlan_missing)
next
  case (Some ports)
  then show ?thesis
    by (simp add: tag_customer_vlan_ports group_rules_def to_msgs_def rule_flow_mod_def
        VLAN_TAG_802_1Q_def split: option.split)
qed

text \<open>
  C10. The trunk id is never used: trunk tagging sends the same messages, with the same
  outcome, whatever trunk id it is passed; the trunk rule pushes an 802.1ad tag (0x88a8) and
  sets no VLAN id.
\<close>

theorem tag_trunk_vlan_ignores_trunk_id:
  "tag_trunk_vlan labels t dp = tag_trunk_vlan labels t' dp
   \<and> (\<forall>m \<in> set (sent (tag_trunk_vlan labels t dp)).
        match_vlan_vid (fm_match (snd m)) = None
        \<and> instructions (snd m) = [OFPInstructionActions OFPIT_APPLY_ACTIONS [OFPActionPushVlan 0x88A8]])"
proof (cases "ofproto_port_no dp")
  case None
  then show ?thesis by (simp add: tag_trunk_vlan_missing)
next
  case (Some ports)
  then show ?thesis
    by (auto simp: tag_trunk_vlan_ports group_rules_def to_msgs_def rule_flow_mod_def
        BRIDGE_TAG_802_1AD_def split: option.split)
qed

end
