(* ===== verification/Dispatcher.thy ===== *)
theory Dispatcher
  imports Config Rule_Builder
begin

text \<open>
  The attach-event dispatcher of \<open>src/vlan_proactive.py\<close>: \<open>install_vpn_flow\<close>
  (lines 161--176) walks the configuration in reverse dictionary order, dispatches each
  key on the substrings \<open>tenda1\<close>, \<open>tenda2\<close> and \<open>trunk\<close> (in that order), tags tenant
  groups with VLAN ids 1 and 2 and trunk groups with a counter that starts at 1 and is
  incremented before each use; \<open>handler_datapath\<close> (184--189) runs it for the datapath
  of a switch-features event. The application object holds the configuration
  (\<open>self.value_pair\<close>).

  The abstract specification \<open>expected_rules\<close> lists, group by group, the rule the
  spec's section 4 prescribes: a group whose labels resolve to a port gets one rule on
  that port, tenant or trunk by its key; other groups get none. \<open>vpn_calls\<close> is the
  sequence of tagging calls the loop makes, with the arguments it passes.
\<close>

section \<open>The code\<close>

record vlan_app =
  app_value_pair :: config

definition VLan_Proactive :: vlan_app where
  "VLan_Proactive = \<lparr>app_value_pair = value_pair\<rparr>"

record switch_features_event =
  ev_msg_datapath :: datapath

fun install_loop :: "datapath \<Rightarrow> int \<Rightarrow> config \<Rightarrow> unit ryu" where
  "install_loop datapath trunk_id [] = ret ()"
| "install_loop datapath trunk_id ((key, labels) # items) =
     (if py_contains ''tenda1'' key then
        bindE (tag_customer_vlan labels 1 datapath) (\<lambda>_. install_loop datapath trunk_id items)
      else if py_contains ''tenda2'' key then
        bindE (tag_customer_vlan labels 2 datapath) (\<lambda>_. install_loop datapath trunk_id items)
      else if py_contains ''trunk'' key then
        bindE (tag_trunk_vlan labels (trunk_id + 1) datapath)
          (\<lambda>_. install_loop datapath (trunk_id + 1) items)
      else install_loop datapath trunk_id items)"

definition install_vpn_flow :: "vlan_app \<Rightarrow> datapath \<Rightarrow> unit ryu" where
  "install_vpn_flow self datapath = install_loop datapath 1 (rev (app_value_pair self))"

definition handler_datapath :: "vlan_app \<Rightarrow> switch_features_event \<Rightarrow> unit ryu" where
  "handler_datapath self event = install_vpn_flow self (ev_msg_datapath event)"

section \<open>Specification\<close>

text \<open>The role of a group, decided from its key as the code's \<open>if\<close>/\<open>elif\<close> chain does.\<close>

definition key_kind :: "string \<Rightarrow> rule_kind option" where
  "key_kind key =
     (if sublist ''tenda1'' key then Some (TenantRule 1)
      else if sublist ''tenda2'' key then Some (TenantRule 2)
      else if sublist ''trunk'' key then Some TrunkRule
      else None)"

fun expected_rules :: "port list \<Rightarrow> config \<Rightarrow> vlan_rule list" where
  "expected_rules ports [] = []"
| "expected_rules ports ((key, labels) # items) =
     (case key_kind key of None \<Rightarrow> [] | Some k \<Rightarrow> group_rules ports k labels)
     @ expected_rules ports items"

text \<open>
  The tagging calls the loop makes, in order, with the VLAN id or trunk id it passes.
\<close>

datatype tag_call = CustomerCall "string list" int | TrunkCall "string list" int

fun vpn_calls :: "int \<Rightarrow> config \<Rightarrow> tag_call list" where
  "vpn_calls trunk_id [] = []"
| "vpn_calls trunk_id ((key, labels) # items) =
     (if py_contains ''tenda1'' key then CustomerCall labels 1 # vpn_calls trunk_id items
      else if py_contains ''tenda2'' key then CustomerCall labels 2 # vpn_calls trunk_id items
      else if py_contains ''trunk'' key then
        TrunkCall labels (trunk_id + 1) # vpn_calls (trunk_id + 1) items
      else vpn_calls trunk_id items)"

fun run_call :: "datapath \<Rightarrow> tag_call \<Rightarrow> unit ryu" where
  "run_call dp (CustomerCall labels v) = tag_customer_vlan labels v dp"
| "run_call dp (TrunkCall labels t) = tag_trunk_vlan labels t dp"

fun run_calls :: "datapath \<Rightarrow> tag_call list \<Rightarrow> unit ryu" where
  "run_calls dp [] = ret ()"
| "run_calls dp (c # cs) = bindE (run_call dp c) (\<lambda>_. run_calls dp cs)"

fun trunk_ids :: "tag_call list \<Rightarrow> int list" where
  "trunk_ids [] = []"
| "trunk_ids (CustomerCall labels v # cs) = trunk_ids cs"
| "trunk_ids (TrunkCall labels t # cs) = t # trunk_ids cs"

definition trunk_groups :: "config \<Rightarrow> nat" where
  "trunk_groups items = length (filter (\<lambda>(key, labels). key_kind key = Some TrunkRule) items)"

text \<open>
  A group claims a port when one of its labels occurs in the port's name. Rules installed
  on a switch cannot overlap when its port numbers are distinct and each port is claimed
  by at most one group.
\<close>

definition claims_port :: "port \<Rightarrow> string \<times> string list \<Rightarrow> bool" where
  "claims_port p g = (\<exists>l \<in> set (snd g). sublist l (name p))"

definition ports_unambiguous :: "port list \<Rightarrow> config \<Rightarrow> bool" where
  "ports_unambiguous ports vp = (\<forall>p \<in> set ports. length (filter (claims_port p) vp) \<le> 1)"

section \<open>Lemmas\<close>

lemma install_loop_ports:
  "ofproto_port_no dp = Some ports \<Longrightarrow>
     install_loop dp t items = (Inr (), to_msgs dp (expected_rules ports items))"
proof (induction dp t items rule: install_loop.induct)
  case (1 datapath trunk_id)
  then show ?case by (simp add: ret_eq)
next
  case (2 datapath trunk_id key labels items)
  then show ?case
    by (simp add: key_kind_def py_contains_sublist tag_customer_vlan_ports tag_trunk_vlan_ports)
qed

lemma install_loop_missing:
  "ofproto_port_no dp = None \<Longrightarrow>
     install_loop dp t items =
       (if \<exists>(key, labels) \<in> set items. key_kind key \<noteq> None \<and> labels \<noteq> []
        then Inl (AttributeError ''port_no'') else Inr (), [])"
proof (induction dp t items rule: install_loop.induct)
  case (1 datapath trunk_id)
  then show ?case by (simp add: ret_eq)
next
  case (2 datapath trunk_id key labels items)
  then show ?case
    by (simp add: key_kind_def py_contains_sublist tag_customer_vlan_missing
        tag_trunk_vlan_missing)
qed

lemma install_vpn_flow_ports:
  "ofproto_port_no dp = Some ports \<Longrightarrow>
     install_vpn_flow self dp = (Inr (), to_msgs dp (expected_rules ports (rev (app_value_pair self))))"
  by (simp add: install_vpn_flow_def install_loop_ports)

lemma install_vpn_flow_missing:
  "ofproto_port_no dp = None \<Longrightarrow>
     install_vpn_flow self dp =
       (if \<exists>(key, labels) \<in> set (app_value_pair self). key_kind key \<noteq> None \<and> labels \<noteq> []
        then Inl (AttributeError ''port_no'') else Inr (), [])"
  by (simp add: install_vpn_flow_def install_loop_missing)

lemma expected_rules_kind:
  "r \<in> set (expected_rules ports items) \<Longrightarrow> rule_kind r \<in> {TenantRule 1, TenantRule 2, TrunkRule}"
  by (induction ports items rule: expected_rules.induct)
     (auto simp: key_kind_def group_rules_def split: option.splits if_splits)

lemma expected_rules_concat:
  "expected_rules ports items =
     concat (map (\<lambda>(key, labels). case key_kind key of None \<Rightarrow> [] | Some k \<Rightarrow> group_rules ports k labels) items)"
  by (induction ports items rule: expected_rules.induct) simp_all

lemma install_loop_calls: "install_loop dp t items = run_calls dp (vpn_calls t items)"
  by (induction dp t items rule: install_loop.induct) simp_all

lemma trunk_ids_vpn_calls:
  "trunk_ids (vpn_calls t items) = [t + 1 .. t + int (trunk_groups items)]"
proof (induction t items rule: vpn_calls.induct)
  case (1 trunk_id)
  then show ?case by (simp add: trunk_groups_def)
next
  case (2 trunk_id key labels items)
  show ?case
  proof (cases "key_kind key = Some TrunkRule")
    case True
    then have k: "\<not> py_contains ''tenda1'' key" "\<not> py_contains ''tenda2'' key"
        "py_contains ''trunk'' key"
      by (auto simp: key_kind_def py_contains_sublist split: if_splits)
    let ?n = "int (trunk_groups items)"
    from "2.IH"(3) k have ih: "trunk_ids (vpn_calls (trunk_id + 1) items) = [trunk_id + 2 .. trunk_id + 1 + ?n]"
      by (simp add: add.commute add.left_commute)
    have up: "[trunk_id + 1 .. trunk_id + 1 + ?n] = (trunk_id + 1) # [trunk_id + 2 .. trunk_id + 1 + ?n]"
      by (subst upto_rec1) (simp_all add: add.commute)
    from True have "trunk_groups ((key, labels) # items) = Suc (trunk_groups items)"
      by (simp add: trunk_groups_def)
    with k ih up show ?thesis by (simp add: add.assoc)
  next
    case False
    with "2.IH" show ?thesis
      by (auto simp: py_contains_sublist trunk_groups_def key_kind_def)
  qed
qed

lemma expected_rules_key:
  "r \<in> set (expected_rules ports items) \<Longrightarrow>
     \<exists>(key, labels) \<in> set items. key_kind key = Some (rule_kind r)
       \<and> r \<in> set (group_rules ports (rule_kind r) labels)"
  by (induction ports items rule: expected_rules.induct)
    (auto simp: group_rules_def split: option.splits)

lemma expected_rules_member:
  "(key, labels) \<in> set items \<Longrightarrow> key_kind key = Some k \<Longrightarrow> first_label_match ports labels = Some p \<Longrightarrow>
     \<lparr>rule_in_port = port_no p, rule_kind = k\<rparr> \<in> set (expected_rules ports items)"
  by (induction ports items rule: expected_rules.induct) (auto simp: group_rules_def)

lemma expected_rules_length:
  "length (expected_rules ports items) \<le> length (filter (\<lambda>(key, labels). key_kind key \<noteq> None) items)"
  by (induction ports items rule: expected_rules.induct)
     (auto simp: group_rules_def split: option.split)

lemma group_rules_port:
  "r \<in> set (group_rules ports k labels) \<Longrightarrow>
     \<exists>p \<in> set ports. rule_in_port r = port_no p \<and> (\<exists>l \<in> set labels. sublist l (name p))"
  by (cases "first_label_match ports labels") (auto simp: group_rules_def dest: first_label_match_SomeD)

lemma expected_rules_port:
  "r \<in> set (expected_rules ports items) \<Longrightarrow>
     \<exists>g \<in> set items. \<exists>p \<in> set ports. rule_in_port r = port_no p \<and> claims_port p g"
  by (induction ports items rule: expected_rules.induct)
     (fastforce simp: claims_port_def split: option.splits dest: group_rules_port)+

lemma ports_unambiguous_Cons:
  "ports_unambiguous ports (g # items) \<Longrightarrow> ports_unambiguous ports items"
  by (auto simp: ports_unambiguous_def split: if_splits)

lemma expected_rules_distinct:
  assumes "distinct (map port_no ports)" and "ports_unambiguous ports items"
  shows "distinct (map rule_in_port (expected_rules ports items))"
  using assms(2)
proof (induction items)
  case Nil
  then show ?case by simp
next
  case (Cons g items)
  obtain key labels where g_eq: "g = (key, labels)" by fastforce
  from Cons.prems have prems: "ports_unambiguous ports ((key, labels) # items)" by (simp add: g_eq)
  then have tail: "ports_unambiguous ports items" by (rule ports_unambiguous_Cons)
  show ?case
  proof (cases "\<exists>k. key_kind key = Some k \<and> first_label_match ports labels \<noteq> None")
    case False
    with Cons.IH tail show ?thesis by (auto simp: g_eq group_rules_def split: option.splits)
  next
    case True
    then obtain k p where k: "key_kind key = Some k" and p: "first_label_match ports labels = Some p"
      by blast
    from p have pin: "p \<in> set ports" and claim: "claims_port p (key, labels)"
      by (auto simp: claims_port_def dest: first_label_match_SomeD)
    have "port_no p \<notin> rule_in_port ` set (expected_rules ports items)"
    proof
      assume "port_no p \<in> rule_in_port ` set (expected_rules ports items)"
      then obtain g q where g: "g \<in> set items" and q: "q \<in> set ports" "port_no q = port_no p"
          and cq: "claims_port q g"
        by (auto dest: expected_rules_port)
      from assms(1) have "inj_on port_no (set ports)" unfolding distinct_map by (rule conjunct2)
      from inj_onD [OF this q(2) q(1) pin] have "q = p" .
      with cq g have "filter (claims_port p) items \<noteq> []" by (auto simp: filter_empty_conv)
      with claim have "2 \<le> length (filter (claims_port p) ((key, labels) # items))"
        by (cases "filter (claims_port p) items") auto
      with prems pin show False by (auto simp: ports_unambiguous_def)
    qed
    with Cons.IH tail k p show ?thesis by (simp add: g_eq group_rules_def)
  qed
qed

lemma ports_unambiguous_rev [simp]:
  "ports_unambiguous ports (rev vp) = ports_unambiguous ports vp"
  by (simp add: ports_unambiguous_def rev_filter [symmetric])

lemma handler_datapath_match_ports:
  "ofproto_port_no (ev_msg_datapath ev) = Some ports \<Longrightarrow>
     map (\<lambda>m. match_in_port (fm_match (snd m))) (sent (handler_datapath self ev))
       = map (\<lambda>r. Some (rule_in_port r)) (expected_rules ports (rev (app_value_pair self)))"
  by (simp add: handler_datapath_def install_vpn_flow_ports to_msgs_def rule_flow_mod_def)

lemma handler_datapath_sent_rule:
  assumes "m \<in> set (sent (handler_datapath self ev))"
  obtains ports r where "ofproto_port_no (ev_msg_datapath ev) = Some ports"
    and "r \<in> set (expected_rules ports (rev (app_value_pair self)))"
    and "m = (dp_id (ev_msg_datapath ev), rule_flow_mod r)"
proof (cases "ofproto_port_no (ev_msg_datapath ev)")
  case None
  with assms show ?thesis
    by (simp add: handler_datapath_def install_vpn_flow_missing)
next
  case (Some ports)
  with assms that show ?thesis
    by (auto simp: handler_datapath_def install_vpn_flow_ports to_msgs_def)
qed

section \<open>Properties\<close>

text \<open>
  C1. Refinement of the attach handler: when the switch's port table can be read, handling
  its features event succeeds and sends to that switch exactly the rules of the abstract
  specification, for the groups in reverse configuration order: per group, one rule on the
  port its labels resolve to (a tenant rule with the VLAN id chosen by the key, or a trunk
  rule), and nothing for a group whose labels match no port or whose key is not recognised.
\<close>

theorem handler_datapath_refines:
  assumes "ofproto_port_no (ev_msg_datapath ev) = Some ports"
  shows "handler_datapath self ev =
     (Inr (), to_msgs (ev_msg_datapath ev) (expected_rules ports (rev (app_value_pair self))))"
  using assms by (simp add: handler_datapath_def install_vpn_flow_ports)

text \<open>
  C2. No overlapping rules: when the switch's port numbers are distinct and each port is
  claimed by the labels of at most one group, the rules sent on one attach event have
  pairwise distinct input ports, so rules of equal priority never match the same packet.
\<close>

theorem handler_datapath_distinct_ports:
  assumes "ofproto_port_no (ev_msg_datapath ev) = Some ports"
    and "distinct (map port_no ports)"
    and "ports_unambiguous ports (app_value_pair self)"
  shows "distinct (map (\<lambda>m. match_in_port (fm_match (snd m))) (sent (handler_datapath self ev)))"
proof -
  from assms(3) have "ports_unambiguous ports (rev (app_value_pair self))" by simp
  with assms(2) have "distinct (map rule_in_port (expected_rules ports (rev (app_value_pair self))))"
    by (rule expected_rules_distinct)
  with assms(1) show ?thesis by (simp add: handler_datapath_match_ports distinct_map inj_on_def)
qed

text \<open>
  C4. Error path: when the switch's port table cannot be read (\<open>datapath.ofproto.port_no\<close>
  is missing), the handler sends no rule at all; it raises \<open>AttributeError\<close> exactly when
  some recognised group has a non-empty label list, and otherwise returns normally.
\<close>

theorem handler_datapath_attribute_error:
  assumes "ofproto_port_no (ev_msg_datapath ev) = None"
  shows "handler_datapath self ev =
     (if \<exists>(key, labels) \<in> set (app_value_pair self). key_kind key \<noteq> None \<and> labels \<noteq> []
      then Inl (AttributeError ''port_no'') else Inr (), [])"
  using assms by (simp add: handler_datapath_def install_vpn_flow_missing)

text \<open>
  C6. Dictionary order does not matter: for two configurations that are permutations of
  each other (Python 2 iterates a dictionary in hash order), the handler has the same
  outcome and sends the same multiset of messages.
\<close>

theorem handler_datapath_order_independent:
  assumes "mset vp = mset vp'"
  shows "outcome (handler_datapath \<lparr>app_value_pair = vp\<rparr> ev) = outcome (handler_datapath \<lparr>app_value_pair = vp'\<rparr> ev)
    \<and> mset (sent (handler_datapath \<lparr>app_value_pair = vp\<rparr> ev)) = mset (sent (handler_datapath \<lparr>app_value_pair = vp'\<rparr> ev))"
proof (cases "ofproto_port_no (ev_msg_datapath ev)")
  case None
  from assms have "set vp = set vp'" by (rule mset_eq_setD)
  with None show ?thesis by (simp add: handler_datapath_def install_vpn_flow_missing)
next
  case (Some ports)
  from assms have "mset (rev vp) = mset (rev vp')" by simp
  then have "mset (expected_rules ports (rev vp)) = mset (expected_rules ports (rev vp'))"
    unfolding expected_rules_concat by (rule mset_concat_map_perm)
  with Some show ?thesis
    by (simp add: handler_datapath_def install_vpn_flow_ports to_msgs_def)
qed

text \<open>
  Bounded output: one attach event makes the handler send at most one rule per
  recognised group of the configuration, that is, per group whose key contains
  \<open>tenda1\<close>, \<open>tenda2\<close> or \<open>trunk\<close>. This holds whatever the switch, and whether or not its
  port table can be read.
\<close>

theorem handler_datapath_sent_bound:
  "length (sent (handler_datapath self ev))
     \<le> length (filter (\<lambda>(key, labels). key_kind key \<noteq> None) (app_value_pair self))"
proof (cases "ofproto_port_no (ev_msg_datapath ev)")
  case None
  then show ?thesis by (simp add: handler_datapath_def install_vpn_flow_missing)
next
  case (Some ports)
  have "length (expected_rules ports (rev (app_value_pair self)))
      \<le> length (filter (\<lambda>(key, labels). key_kind key \<noteq> None) (rev (app_value_pair self)))"
    by (rule expected_rules_length)
  with Some show ?thesis
    by (simp add: handler_datapath_def install_vpn_flow_ports to_msgs_def rev_filter [symmetric])
qed

end
