(* ===== verification/Controller.thy ===== *)
theory Controller
  imports Dispatcher
begin

text \<open>
  The controller as a state machine. The decorator of \<open>handler_datapath\<close>
  (\<open>src/vlan_proactive.py\<close> line 184) registers it for Ryu's switch-features event in the
  configuration phase; Ryu's event loop calls it once per such event and, when the handler
  raises, logs the exception and goes on with the next event. The state is what the
  controller has done so far: the application object (never written by the handler), the
  messages sent and the exceptions logged. Which switch attaches next is up to the
  network: \<open>reachable\<close> allows any switch of the network to attach, any number of times.
  Two invariants hold in every reachable state: rules stay on their own switch, and every
  message sent is a well-formed OpenFlow 1.3 flow-add.
\<close>

section \<open>State and steps\<close>

record ctrl_state =
  ctrl_app :: vlan_app
  ctrl_sent :: "out_msg list"
  ctrl_errors :: "(dpid \<times> py_exn) list"

definition ctrl_init :: "vlan_app \<Rightarrow> ctrl_state" where
  "ctrl_init app = \<lparr>ctrl_app = app, ctrl_sent = [], ctrl_errors = []\<rparr>"

definition dispatch :: "ctrl_state \<Rightarrow> switch_features_event \<Rightarrow> ctrl_state" where
  "dispatch s ev =
     (case handler_datapath (ctrl_app s) ev of
        (Inl e, out) \<Rightarrow>
          s\<lparr>ctrl_sent := ctrl_sent s @ out,
            ctrl_errors := ctrl_errors s @ [(dp_id (ev_msg_datapath ev), e)]\<rparr>
      | (Inr _, out) \<Rightarrow> s\<lparr>ctrl_sent := ctrl_sent s @ out\<rparr>)"

definition run_events :: "ctrl_state \<Rightarrow> switch_features_event list \<Rightarrow> ctrl_state" where
  "run_events s evs = foldl dispatch s evs"

inductive reachable :: "datapath list \<Rightarrow> vlan_app \<Rightarrow> ctrl_state \<Rightarrow> bool"
  for net :: "datapath list" and app :: vlan_app where
  init: "reachable net app (ctrl_init app)"
| attach: "reachable net app s \<Longrightarrow> dp \<in> set net \<Longrightarrow>
     reachable net app (dispatch s \<lparr>ev_msg_datapath = dp\<rparr>)"

text \<open>A message targets a port of the switch it is sent to.\<close>

definition on_own_port :: "datapath \<Rightarrow> flow_mod \<Rightarrow> bool" where
  "on_own_port dp fm =
     (\<exists>ports. ofproto_port_no dp = Some ports \<and> match_in_port (fm_match fm) \<in> Some ` port_no ` set ports)"

definition ctrl_inv :: "datapath list \<Rightarrow> vlan_app \<Rightarrow> ctrl_state \<Rightarrow> bool" where
  "ctrl_inv net app s =
     (ctrl_app s = app \<and> (\<forall>m \<in> set (ctrl_sent s). \<exists>dp \<in> set net. dp_id dp = fst m \<and> on_own_port dp (snd m)))"

section \<open>Lemmas\<close>

lemma dispatch_app [simp]: "ctrl_app (dispatch s ev) = ctrl_app s"
  by (simp add: dispatch_def split: prod.split sum.split)

lemma dispatch_sent [simp]:
  "ctrl_sent (dispatch s ev) = ctrl_sent s @ sent (handler_datapath (ctrl_app s) ev)"
  by (simp add: dispatch_def split: prod.split sum.split)

lemma handler_datapath_sent:
  assumes "m \<in> set (sent (handler_datapath app ev))"
  shows "fst m = dp_id (ev_msg_datapath ev) \<and> on_own_port (ev_msg_datapath ev) (snd m)"
proof -
  from assms obtain ports r where ports: "ofproto_port_no (ev_msg_datapath ev) = Some ports"
      and r: "r \<in> set (expected_rules ports (rev (app_value_pair app)))"
      and m: "m = (dp_id (ev_msg_datapath ev), rule_flow_mod r)"
    by (rule handler_datapath_sent_rule)
  from r obtain p where "p \<in> set ports" "rule_in_port r = port_no p"
    by (auto dest: expected_rules_port)
  with ports m show ?thesis by (auto simp: on_own_port_def rule_flow_mod_def)
qed

lemma filter_sent_handler:
  "filter (\<lambda>m. fst m = d) (sent (handler_datapath app ev)) =
     (if dp_id (ev_msg_datapath ev) = d then sent (handler_datapath app ev) else [])"
  by (auto simp: filter_id_conv filter_empty_conv dest: handler_datapath_sent)

lemma run_events_app [simp]: "ctrl_app (run_events s evs) = ctrl_app s"
  by (induction evs arbitrary: s) (simp_all add: run_events_def)

lemma run_events_Cons [simp]: "run_events s (ev # evs) = run_events (dispatch s ev) evs"
  by (simp add: run_events_def)

lemma run_events_Nil [simp]: "run_events s [] = s"
  by (simp add: run_events_def)

lemma handler_datapath_sent_wf:
  assumes "m \<in> set (sent (handler_datapath app ev))" and "valid_port_table (ev_msg_datapath ev)"
  shows "flow_mod_wf (snd m)"
proof -
  from assms(1) obtain ports r where ports: "ofproto_port_no (ev_msg_datapath ev) = Some ports"
      and r: "r \<in> set (expected_rules ports (rev (app_value_pair app)))"
      and m: "m = (dp_id (ev_msg_datapath ev), rule_flow_mod r)"
    by (rule handler_datapath_sent_rule)
  from r obtain p where "p \<in> set ports" "rule_in_port r = port_no p"
    by (auto dest: expected_rules_port)
  with assms(2) ports have pwf: "port_no_wf (rule_in_port r)"
    by (auto simp: valid_port_table_def list_all_iff)
  from r have "rule_kind r \<in> {TenantRule 1, TenantRule 2, TrunkRule}"
    by (rule expected_rules_kind)
  with pwf m show ?thesis
    by (auto simp: flow_mod_wf_def match_wf_def rule_flow_mod_def VLAN_TAG_802_1Q_def
        BRIDGE_TAG_802_1AD_def)
qed

lemma reachable_ctrl_inv: "reachable net app s \<Longrightarrow> ctrl_inv net app s"
proof (induction rule: reachable.induct)
  case init
  show ?case by (simp add: ctrl_inv_def ctrl_init_def)
next
  case (attach s dp)
  have "\<exists>dp' \<in> set net. dp_id dp' = fst m \<and> on_own_port dp' (snd m)"
    if "m \<in> set (sent (handler_datapath app \<lparr>ev_msg_datapath = dp\<rparr>))" for m
    using handler_datapath_sent [OF that] attach.hyps(2) by auto
  with attach.IH show ?case by (auto simp: ctrl_inv_def)
qed

section \<open>Properties\<close>

text \<open>
  C7. Rules stay on their switch: in every reachable state of a network whose switches have
  distinct datapath ids, every message sent to a switch matches an input port of that
  switch's own port table.
\<close>

theorem reachable_sent_own_port:
  assumes "reachable net app s" and "distinct (map dp_id net)"
    and "m \<in> set (ctrl_sent s)" and "dp \<in> set net" and "dp_id dp = fst m"
  shows "on_own_port dp (snd m)"
proof -
  from assms(1) have "ctrl_inv net app s" by (rule reachable_ctrl_inv)
  with assms(3) obtain dp' where dp': "dp' \<in> set net" "dp_id dp' = fst m" "on_own_port dp' (snd m)"
    by (auto simp: ctrl_inv_def)
  from assms(2) have "inj_on dp_id (set net)" unfolding distinct_map by (rule conjunct2)
  from inj_onD [OF this _ dp'(1) assms(4)] dp'(2) assms(5) have "dp' = dp" by simp
  with dp'(3) show ?thesis by simp
qed

text \<open>
  C8. Switches do not interfere: after any sequence of attach events, the messages sent to
  one switch are those sent to it before, followed by the handler's messages for that
  switch's own events, in order; events of other switches contribute nothing.
\<close>

theorem run_events_per_switch:
  "filter (\<lambda>m. fst m = d) (ctrl_sent (run_events s evs)) =
     filter (\<lambda>m. fst m = d) (ctrl_sent s)
     @ concat (map (\<lambda>ev. sent (handler_datapath (ctrl_app s) ev))
                 (filter (\<lambda>ev. dp_id (ev_msg_datapath ev) = d) evs))"
proof (induction evs arbitrary: s)
  case Nil
  then show ?case by simp
next
  case (Cons ev evs)
  show ?case
    by (simp add: Cons.IH filter_sent_handler)
qed

text \<open>
  C23. Type invariant of the controller state. Take a network whose switches report only
  physical or local port numbers. In every reachable state, every message the controller
  has sent is a flow-add an OpenFlow 1.3 switch accepts:
  \<^item> a real table;
  \<^item> an in-port match on a valid port and a VLAN-id match within 12 bits;
  \<^item> a single apply-actions instruction;
  \<^item> push-VLAN Ethertypes 0x8100 or 0x88a8;
  \<^item> VLAN-id set-field values within 12 bits.
\<close>

theorem reachable_sent_wf:
  assumes "reachable net app s" and "list_all valid_port_table net"
  shows "list_all (\<lambda>m. flow_mod_wf (snd m)) (ctrl_sent s)"
  using assms(1)
proof (induction rule: reachable.induct)
  case init
  show ?case by (simp add: ctrl_init_def)
next
  case (attach s dp)
  from attach.hyps(2) assms(2) have "valid_port_table dp" by (simp add: list_all_iff)
  with attach.IH show ?case
    by (auto simp: list_all_iff dest: handler_datapath_sent_wf)
qed

end
