(* ===== verification/Connection.thy ===== *)
theory Connection
  imports Controller
begin

text \<open>
  Why the handler runs once per attach. \<open>handler_datapath\<close> is registered with
  \<open>set_ev_cls(ofp_event.EventOFPSwitchFeatures, CONFIG_DISPATCHER)\<close>
  (\<open>src/vlan_proactive.py\<close> line 184). Ryu puts a new connection in the configuration phase
  after the hello exchange. It delivers the features reply there and then moves the
  datapath to the main phase, so a features reply outside the configuration phase reaches
  no handler of this application. With OpenFlow 1.3, Ryu first requests the port
  descriptions and moves the datapath to the main phase only on their reply; the model
  merges the two replies into the one step \<open>features\<close>. This application handles neither
  the port-description reply nor any event in between, so the merge changes no run of the
  handler. A disconnect ends the connection; the switch may connect again.

  The hello exchange fixes the protocol version. The application declares the versions it
  speaks in \<open>OFP_VERSIONS\<close> (line 73, OpenFlow 1.3 only). Ryu elects the highest version
  that both the controller and the switch's hello bitmap list. When there is none, Ryu
  answers with a hello-failed error and closes the connection, so the switch never reaches
  the configuration phase. \<open>negotiate_version\<close> is this election, for switches that send
  a version bitmap (OpenFlow 1.3 and later).

  \<open>conn_step\<close> is this protocol as an inductive step relation over the controller state.
  The state holds each datapath's phase (\<open>None\<close> before its first connection) and, as a
  ghost counter, how many times the handler ran in the current connection. The spec's
  per-switch machine (Unprovisioned to Provisioned, exactly once) is the abstraction
  \<open>provisioned\<close>.
\<close>

section \<open>Phases and steps\<close>

datatype dp_phase = CONFIG_DISPATCHER | MAIN_DISPATCHER | DEAD_DISPATCHER

abbreviation OFP_VERSION_1_3 :: "8 word" where
  "OFP_VERSION_1_3 \<equiv> 0x04"

definition OFP_VERSIONS :: "8 word list" where
  "OFP_VERSIONS = [OFP_VERSION_1_3]"

definition negotiate_version :: "8 word list \<Rightarrow> 8 word list \<Rightarrow> 8 word option" where
  "negotiate_version ours theirs =
     (case filter (\<lambda>v. v \<in> set theirs) ours of [] \<Rightarrow> None | v # vs \<Rightarrow> Some (fold max vs v))"

record conn_state =
  phase :: "dpid \<Rightarrow> dp_phase option"
  version :: "dpid \<Rightarrow> 8 word option"
  runs :: "dpid \<Rightarrow> nat"
  ctrl :: ctrl_state

datatype net_event = Connect datapath "8 word list" | FeaturesReply datapath | Disconnect datapath

definition conn_init :: "vlan_app \<Rightarrow> conn_state" where
  "conn_init app = \<lparr>phase = (\<lambda>_. None), version = (\<lambda>_. None), runs = (\<lambda>_. 0), ctrl = ctrl_init app\<rparr>"

inductive conn_step :: "conn_state \<Rightarrow> net_event \<Rightarrow> conn_state \<Rightarrow> bool" where
  connect: "phase s (dp_id dp) \<in> {None, Some DEAD_DISPATCHER} \<Longrightarrow>
     negotiate_version OFP_VERSIONS vs = Some v \<Longrightarrow>
     conn_step s (Connect dp vs)
       (s\<lparr>phase := (phase s)(dp_id dp \<mapsto> CONFIG_DISPATCHER), version := (version s)(dp_id dp \<mapsto> v),
          runs := (runs s)(dp_id dp := 0)\<rparr>)"
| hello_failed: "phase s (dp_id dp) \<in> {None, Some DEAD_DISPATCHER} \<Longrightarrow>
     negotiate_version OFP_VERSIONS vs = None \<Longrightarrow> conn_step s (Connect dp vs) s"
| features: "phase s (dp_id dp) = Some CONFIG_DISPATCHER \<Longrightarrow>
     conn_step s (FeaturesReply dp)
       (s\<lparr>phase := (phase s)(dp_id dp \<mapsto> MAIN_DISPATCHER),
          runs := (runs s)(dp_id dp := Suc (runs s (dp_id dp))),
          ctrl := dispatch (ctrl s) \<lparr>ev_msg_datapath = dp\<rparr>\<rparr>)"
| features_ignored: "phase s (dp_id dp) \<noteq> Some CONFIG_DISPATCHER \<Longrightarrow>
     conn_step s (FeaturesReply dp) s"
| disconnect: "phase s (dp_id dp) \<in> {Some CONFIG_DISPATCHER, Some MAIN_DISPATCHER} \<Longrightarrow>
     conn_step s (Disconnect dp) (s\<lparr>phase := (phase s)(dp_id dp \<mapsto> DEAD_DISPATCHER)\<rparr>)"

inductive conn_reachable :: "vlan_app \<Rightarrow> conn_state \<Rightarrow> bool" for app :: vlan_app where
  init: "conn_reachable app (conn_init app)"
| step: "conn_reachable app s \<Longrightarrow> conn_step s e t \<Longrightarrow> conn_reachable app t"

inductive_cases conn_step_FeaturesE: "conn_step s (FeaturesReply dp) t"

inductive_cases conn_step_ConnectE: "conn_step s (Connect dp vs) t"

section \<open>The spec's per-switch machine\<close>

text \<open>
  A switch is provisioned in its current connection when the handler has run since it
  connected. The invariant ties the ghost counter to the phase: it is 0 in the
  configuration phase and never exceeds 1. A switch in the configuration or main phase
  speaks a version the application declared.
\<close>

definition provisioned :: "conn_state \<Rightarrow> dpid \<Rightarrow> bool" where
  "provisioned s d = (runs s d = 1)"

definition conn_inv :: "conn_state \<Rightarrow> bool" where
  "conn_inv s =
     (\<forall>d. runs s d \<le> 1 \<and> (phase s d = Some CONFIG_DISPATCHER \<longrightarrow> runs s d = 0)
          \<and> (phase s d = None \<longrightarrow> runs s d = 0)
          \<and> (phase s d \<in> {Some CONFIG_DISPATCHER, Some MAIN_DISPATCHER} \<longrightarrow>
               version s d \<in> Some ` set OFP_VERSIONS))"

section \<open>Lemmas\<close>

lemma fold_max_in: "fold max vs v \<in> set (v # vs)"
proof (induction vs arbitrary: v)
  case Nil
  then show ?case by simp
next
  case (Cons x xs)
  from Cons.IH [of "max x v"] show ?case by (auto simp: max_def split: if_splits)
qed

lemma negotiate_version_SomeD:
  "negotiate_version ours theirs = Some v \<Longrightarrow> v \<in> set ours \<and> v \<in> set theirs"
proof (cases "filter (\<lambda>v. v \<in> set theirs) ours")
  case Nil
  then show "negotiate_version ours theirs = Some v \<Longrightarrow> ?thesis" by (simp add: negotiate_version_def)
next
  case (Cons w ws)
  have "set (w # ws) = {x \<in> set ours. x \<in> set theirs}"
    unfolding Cons [symmetric] by (rule set_filter)
  moreover assume "negotiate_version ours theirs = Some v"
  with Cons have "v \<in> set (w # ws)" using fold_max_in [of ws w] by (simp add: negotiate_version_def)
  ultimately show ?thesis by blast
qed

lemma conn_step_inv: "conn_step s e t \<Longrightarrow> conn_inv s \<Longrightarrow> conn_inv t"
  by (induction rule: conn_step.induct) (auto simp: conn_inv_def dest: negotiate_version_SomeD)

lemma conn_reachable_inv: "conn_reachable app s \<Longrightarrow> conn_inv s"
proof (induction rule: conn_reachable.induct)
  case init
  show ?case by (simp add: conn_inv_def conn_init_def)
next
  case (step s e t)
  then show ?case by (blast intro: conn_step_inv)
qed

lemma conn_step_ctrl_app: "conn_step s e t \<Longrightarrow> ctrl_app (ctrl t) = ctrl_app (ctrl s)"
  by (induction rule: conn_step.induct) simp_all

lemma conn_reachable_app: "conn_reachable app s \<Longrightarrow> ctrl_app (ctrl s) = app"
  by (induction rule: conn_reachable.induct) (simp_all add: conn_init_def ctrl_init_def conn_step_ctrl_app)

section \<open>Properties\<close>

text \<open>
  C17. Provisioning happens at most once per connection: in every reachable state, a
  features reply leaves the switch's run counter at most 1. For a switch already
  provisioned in its current connection, a features reply changes nothing and sends
  nothing.
\<close>

theorem provision_once_per_connection:
  assumes "conn_reachable app s" and "conn_step s (FeaturesReply dp) t"
  shows "runs t (dp_id dp) \<le> 1 \<and> (provisioned s (dp_id dp) \<longrightarrow> t = s)"
proof -
  from assms(1) have inv: "conn_inv s" by (rule conn_reachable_inv)
  from assms(2) inv have "conn_inv t" by (rule conn_step_inv)
  then have "runs t (dp_id dp) \<le> 1" by (simp add: conn_inv_def)
  moreover have "t = s" if "provisioned s (dp_id dp)"
  proof -
    from that inv have "phase s (dp_id dp) \<noteq> Some CONFIG_DISPATCHER"
      by (auto simp: provisioned_def conn_inv_def)
    with assms(2) show ?thesis by (auto elim: conn_step_FeaturesE)
  qed
  ultimately show ?thesis by blast
qed

text \<open>
  C18. Refinement of the spec's per-switch machine: every step of the connection protocol
  that sends messages is a features reply for a switch not yet provisioned in its current
  connection. That step makes the switch provisioned and sends exactly the handler's
  messages for it. All other steps are invisible stutter steps of the spec's machine.
\<close>

theorem conn_step_sends_only_when_provisioning:
  assumes "conn_reachable app s" and "conn_step s e t"
    and "ctrl_sent (ctrl t) \<noteq> ctrl_sent (ctrl s)"
  shows "\<exists>dp. e = FeaturesReply dp \<and> \<not> provisioned s (dp_id dp) \<and> provisioned t (dp_id dp)
     \<and> ctrl_sent (ctrl t) = ctrl_sent (ctrl s) @ sent (handler_datapath app \<lparr>ev_msg_datapath = dp\<rparr>)"
  using assms(2,3,1)
proof (induction rule: conn_step.induct)
  case (features s dp)
  from features.prems(2) have "conn_inv s" by (rule conn_reachable_inv)
  with features.hyps have "runs s (dp_id dp) = 0" by (simp add: conn_inv_def)
  moreover from features.prems(2) have "ctrl_app (ctrl s) = app" by (rule conn_reachable_app)
  ultimately show ?case by (simp add: provisioned_def)
qed simp_all

text \<open>
  C19. Progress: in every reachable state, a switch in the configuration phase can take its
  features reply. That step provisions it and sends the handler's messages for it, so a
  connected switch whose features reply arrives is provisioned.
\<close>

theorem features_reply_provisions:
  assumes "conn_reachable app s" and "phase s (dp_id dp) = Some CONFIG_DISPATCHER"
  shows "\<exists>t. conn_step s (FeaturesReply dp) t \<and> provisioned t (dp_id dp)
     \<and> ctrl_sent (ctrl t) = ctrl_sent (ctrl s) @ sent (handler_datapath app \<lparr>ev_msg_datapath = dp\<rparr>)"
proof -
  from assms(1) have "conn_inv s" by (rule conn_reachable_inv)
  with assms(2) have runs0: "runs s (dp_id dp) = 0" by (simp add: conn_inv_def)
  from assms(1) have app: "ctrl_app (ctrl s) = app" by (rule conn_reachable_app)
  from assms(2) have "conn_step s (FeaturesReply dp)
      (s\<lparr>phase := (phase s)(dp_id dp \<mapsto> MAIN_DISPATCHER),
         runs := (runs s)(dp_id dp := Suc (runs s (dp_id dp))),
         ctrl := dispatch (ctrl s) \<lparr>ev_msg_datapath = dp\<rparr>\<rparr>)"
    by (rule conn_step.features)
  with runs0 app show ?thesis by (auto simp: provisioned_def)
qed

text \<open>
  C24. Only OpenFlow 1.3 connections are provisioned. In every reachable state, a switch
  in the configuration or main phase has negotiated OpenFlow 1.3, the only version in
  \<open>OFP_VERSIONS\<close>. So every features reply the handler processes, and every message it
  sends, belongs to a 1.3 connection. A switch whose hello does not offer 1.3 is refused:
  its connect event changes nothing.
\<close>

theorem connected_only_1_3:
  assumes "conn_reachable app s"
  shows "(phase s d = Some CONFIG_DISPATCHER \<or> phase s d = Some MAIN_DISPATCHER
            \<longrightarrow> version s d = Some OFP_VERSION_1_3)
    \<and> (OFP_VERSION_1_3 \<notin> set vs \<longrightarrow> conn_step s (Connect dp vs) t \<longrightarrow> t = s)"
proof -
  from assms have "conn_inv s" by (rule conn_reachable_inv)
  then have "phase s d = Some CONFIG_DISPATCHER \<or> phase s d = Some MAIN_DISPATCHER
      \<longrightarrow> version s d = Some OFP_VERSION_1_3"
    by (auto simp: conn_inv_def OFP_VERSIONS_def)
  moreover have "t = s" if "OFP_VERSION_1_3 \<notin> set vs" and "conn_step s (Connect dp vs) t"
  proof -
    from that(1) have "negotiate_version OFP_VERSIONS vs = None"
      by (simp add: OFP_VERSIONS_def negotiate_version_def)
    with that(2) show ?thesis by (auto elim: conn_step_ConnectE)
  qed
  ultimately show ?thesis by blast
qed

end
