(* ===== verification/Topology.thy ===== *)
theory Topology
  imports Dispatcher
begin

text \<open>
  The test topology of \<open>src/topo.py\<close>: \<open>MyTopo.__init__\<close> (lines 21--50) adds six
  hosts, three switches and eight links, in this order. Mininet names the interface of a
  node's \<open>n\<close>-th link \<open><node>-eth<n>\<close>, numbering switch ports from 1 in the order the
  links are added; Open vSwitch also reports the switch's local port, named after the
  switch, with number \<open>OFPP_LOCAL\<close>. \<open>topo_datapath\<close> is the datapath such a switch
  presents to the controller, with its port table readable. The parsers \<open>nat_of_str\<close> and
  \<open>parse_intf\<close> invert the naming. With them, the resolver is shown to give back each
  interface from its name (C20), and the handler never to install overlapping rules on a
  Mininet switch with fewer than ten links (C26).
\<close>

section \<open>Building the topology\<close>

record topo =
  topo_hosts :: "string list"
  topo_switches :: "string list"
  topo_links :: "(string \<times> string) list"

datatype topo_op = AddHost string | AddSwitch string | AddLink string string

definition Topo_init :: topo where
  "Topo_init = \<lparr>topo_hosts = [], topo_switches = [], topo_links = []\<rparr>"

fun topo_apply :: "topo \<Rightarrow> topo_op \<Rightarrow> topo" where
  "topo_apply t (AddHost h) = t\<lparr>topo_hosts := topo_hosts t @ [h]\<rparr>"
| "topo_apply t (AddSwitch s) = t\<lparr>topo_switches := topo_switches t @ [s]\<rparr>"
| "topo_apply t (AddLink a b) = t\<lparr>topo_links := topo_links t @ [(a, b)]\<rparr>"

definition MyTopo :: topo where
  "MyTopo = foldl topo_apply Topo_init
     [AddHost ''h1'', AddHost ''h2'', AddHost ''h3'', AddHost ''h4'', AddHost ''h5'',
      AddHost ''h6'',
      AddSwitch ''s1'', AddSwitch ''s2'', AddSwitch ''s3'',
      AddLink ''h1'' ''s1'', AddLink ''h2'' ''s1'', AddLink ''h3'' ''s1'',
      AddLink ''h4'' ''s2'', AddLink ''h5'' ''s2'',
      AddLink ''h6'' ''s3'',
      AddLink ''s1'' ''s2'', AddLink ''s2'' ''s3'']"

text \<open>The dictionary by which Mininet's \<open>--topo=mytopo\<close> option finds the topology (line 53).\<close>

definition topos :: "(string \<times> topo) list" where
  "topos = [(''mytopo'', MyTopo)]"

section \<open>Interface names and port tables\<close>

fun nat_str :: "nat \<Rightarrow> string" where
  "nat_str n = (if n < 10 then [char_of (48 + n)] else nat_str (n div 10) @ [char_of (48 + n mod 10)])"

declare nat_str.simps [simp del]

text \<open>
  Reading an interface number back: \<open>nat_of_str\<close> is the decimal parser, the inverse of
  \<open>nat_str\<close> (lemma \<open>nat_of_str_nat_str\<close>). It is used to show that Mininet's port names
  are not prefixes of one another in the way that matters to the resolver.
\<close>

definition nat_of_str :: "string \<Rightarrow> nat" where
  "nat_of_str s = foldl (\<lambda>n c. 10 * n + (of_char c - 48)) 0 s"

definition node_peers :: "topo \<Rightarrow> string \<Rightarrow> string list" where
  "node_peers t x = [if a = x then b else a. (a, b) \<leftarrow> topo_links t, a = x \<or> b = x]"

definition switch_port_table :: "topo \<Rightarrow> string \<Rightarrow> port list" where
  "switch_port_table t sw =
     [\<lparr>port_no = of_nat i, name = sw @ ''-eth'' @ nat_str i\<rparr>. i \<leftarrow> [1 ..< Suc (length (node_peers t sw))]]
     @ [\<lparr>port_no = OFPP_LOCAL, name = sw\<rparr>]"

definition topo_datapath :: "topo \<Rightarrow> string \<Rightarrow> dpid \<Rightarrow> datapath" where
  "topo_datapath t sw d = \<lparr>dp_id = d, ofproto_port_no = Some (switch_port_table t sw)\<rparr>"

definition port_peer :: "topo \<Rightarrow> string \<Rightarrow> string \<Rightarrow> string option" where
  "port_peer t sw label =
     (case [i \<leftarrow> [1 ..< Suc (length (node_peers t sw))]. sw @ ''-eth'' @ nat_str i = label] of
        [] \<Rightarrow> None
      | i # _ \<Rightarrow> Some (node_peers t sw ! (i - 1)))"

text \<open>
  Mininet-style labels. \<open>parse_intf\<close> splits an interface name \<open><switch>-eth<n>\<close> into
  the switch name and the number, accepting only the canonical decimal form.
  \<open>mininet_config_for sw vp\<close> holds when every label of the configuration has that form
  and names either switch \<open>sw\<close> or a switch whose name is not a suffix of \<open>sw\<close>'s (which
  holds between any two of Mininet's names \<open>s1\<close>, \<open>s2\<close>, and so on).
\<close>

definition parse_intf :: "string \<Rightarrow> (string \<times> nat) option" where
  "parse_intf l =
     (let sw = takeWhile (\<lambda>c. c \<noteq> CHR ''-'') l; rest = dropWhile (\<lambda>c. c \<noteq> CHR ''-'') l;
          ds = drop 4 rest
      in if take 4 rest = ''-eth'' \<and> ds \<noteq> [] \<and> nat_str (nat_of_str ds) = ds
         then Some (sw, nat_of_str ds) else None)"

definition mininet_config_for :: "string \<Rightarrow> config \<Rightarrow> bool" where
  "mininet_config_for sw vp =
     list_all (\<lambda>(key, labels). list_all (\<lambda>l.
        case parse_intf l of None \<Rightarrow> False | Some (sw', k) \<Rightarrow> sw' = sw \<or> \<not> suffix sw' sw) labels) vp"

section \<open>Lemmas\<close>

lemma foldl_decimal:
  "foldl (\<lambda>n c. 10 * n + (of_char c - 48)) a ys
     = a * 10 ^ length ys + foldl (\<lambda>n c. 10 * n + (of_char c - 48)) 0 ys"
proof (induction ys arbitrary: a)
  case Nil
  then show ?case by simp
next
  case (Cons y ys)
  show ?case
    by (simp only: foldl_Cons Cons.IH [of "10 * a + (of_char y - 48)"] Cons.IH [of "10 * 0 + (of_char y - 48)"])
       (simp add: algebra_simps)
qed

lemma nat_of_str_append:
  "nat_of_str (xs @ ys) = nat_of_str xs * 10 ^ length ys + nat_of_str ys"
  by (simp add: nat_of_str_def foldl_decimal [of "foldl _ 0 xs"])

lemma nat_of_str_digit: "n < 10 \<Longrightarrow> nat_of_str [char_of (48 + n)] = n"
  by (simp add: nat_of_str_def)

lemma nat_of_str_nat_str: "nat_of_str (nat_str n) = n"
proof (induction n rule: nat_str.induct)
  case (1 n)
  show ?case
  proof (cases "n < 10")
    case True
    then show ?thesis by (simp add: nat_str.simps nat_of_str_digit)
  next
    case False
    then have "nat_of_str (nat_str n) = nat_of_str (nat_str (n div 10)) * 10 + n mod 10"
      by (simp add: nat_str.simps nat_of_str_append nat_of_str_digit)
    with "1.IH" False show ?thesis by simp
  qed
qed

lemma nat_str_one: "nat_str 1 = ''1''"
  by code_simp

lemma nat_str_digits: "c \<in> set (nat_str n) \<Longrightarrow> 48 \<le> (of_char c :: nat) \<and> of_char c < (58 :: nat)"
proof (induction n rule: nat_str.induct)
  case (1 n)
  then show ?case by (subst (asm) nat_str.simps) (auto split: if_splits)
qed

lemma dash_notin_nat_str: "CHR ''-'' \<notin> set (nat_str n)"
  using nat_str_digits [of "CHR ''-''" n] by auto

lemma nat_str_prefix_le: "prefix (nat_str i) (nat_str j) \<Longrightarrow> i \<le> j"
proof -
  assume "prefix (nat_str i) (nat_str j)"
  then obtain s where "nat_str j = nat_str i @ s" by (auto simp: prefix_def)
  then have "j = i * 10 ^ length s + nat_of_str s"
    by (metis nat_of_str_append nat_of_str_nat_str)
  moreover have "i * 1 \<le> i * 10 ^ length s" by (rule mult_le_mono2) simp
  ultimately show "i \<le> j" by linarith
qed


lemma dash_filter_empty: "CHR ''-'' \<notin> set xs \<Longrightarrow> filter (\<lambda>c. c = CHR ''-'') xs = []"
  by (auto simp: filter_empty_conv)

lemma nat_str_nonempty: "nat_str n \<noteq> []"
  by (subst nat_str.simps) simp

lemma nat_str_small: "n < 10 \<Longrightarrow> nat_str n = [char_of (48 + n)]"
  by (simp add: nat_str.simps)

lemma nat_str_inj: "nat_str i = nat_str j \<Longrightarrow> i = j"
  by (metis nat_of_str_nat_str)

lemma nat_str_prefix_small: "j < 10 \<Longrightarrow> prefix (nat_str k) (nat_str j) \<Longrightarrow> k = j"
proof -
  assume j: "j < 10" and p: "prefix (nat_str k) (nat_str j)"
  from p have "length (nat_str k) \<le> 1" using j by (auto simp: nat_str_small dest: prefix_length_le)
  with p j nat_str_nonempty [of k] have "nat_str k = nat_str j"
    by (cases "nat_str k") (auto simp: nat_str_small)
  then show "k = j" by (rule nat_str_inj)
qed

lemma mininet_name_sublist:
  assumes "CHR ''-'' \<notin> set sw" and "CHR ''-'' \<notin> set sw'"
    and "sublist (sw' @ ''-eth'' @ nat_str k) (sw @ ''-eth'' @ nat_str j)"
  shows "suffix sw' sw \<and> prefix (nat_str k) (nat_str j)"
proof -
  from assms(3) obtain ps ss where eq: "sw @ ''-eth'' @ nat_str j = ps @ (sw' @ ''-eth'' @ nat_str k) @ ss"
    by (auto simp: sublist_def)
  have "length (filter (\<lambda>c. c = CHR ''-'') (sw @ ''-eth'' @ nat_str j))
      = length (filter (\<lambda>c. c = CHR ''-'') (ps @ (sw' @ ''-eth'' @ nat_str k) @ ss))"
    by (simp only: eq)
  with assms(1,2) have "filter (\<lambda>c. c = CHR ''-'') ps = []"
    by (simp add: dash_filter_empty dash_notin_nat_str)
  then have ps: "CHR ''-'' \<notin> set ps" by (force simp: filter_empty_conv)
  from eq have "sw @ CHR ''-'' # (''eth'' @ nat_str j) = (ps @ sw') @ CHR ''-'' # (''eth'' @ nat_str k @ ss)"
    by simp
  with assms(1,2) ps have "sw = ps @ sw' \<and> nat_str j = nat_str k @ ss"
    by (subst (asm) append_Cons_eq_iff) (auto simp: dash_notin_nat_str)
  then show ?thesis by (auto simp: suffix_def prefix_def)
qed

lemma parse_intf_SomeD:
  assumes "parse_intf l = Some (sw, k)"
  shows "l = sw @ ''-eth'' @ nat_str k \<and> CHR ''-'' \<notin> set sw"
proof -
  let ?P = "\<lambda>c. c \<noteq> CHR ''-''"
  let ?rest = "dropWhile ?P l"
  from assms have t: "take 4 ?rest = ''-eth''" and d: "nat_str k = drop 4 ?rest"
      and s: "sw = takeWhile ?P l"
    by (auto simp: parse_intf_def Let_def split: if_splits)
  have "l = takeWhile ?P l @ take 4 ?rest @ drop 4 ?rest" by simp
  with t d s have "l = sw @ ''-eth'' @ nat_str k" by simp
  moreover from s have "CHR ''-'' \<notin> set sw" by (auto dest: set_takeWhileD)
  ultimately show ?thesis ..
qed

lemma parse_intf_mininet:
  assumes "CHR ''-'' \<notin> set sw"
  shows "parse_intf (sw @ ''-eth'' @ nat_str k) = Some (sw, k)"
proof -
  from assms have "takeWhile (\<lambda>c. c \<noteq> CHR ''-'') (sw @ ''-eth'' @ nat_str k) = sw"
    by (subst takeWhile_append2) auto
  moreover from assms have "dropWhile (\<lambda>c. c \<noteq> CHR ''-'') (sw @ ''-eth'' @ nat_str k) = ''-eth'' @ nat_str k"
    by (subst dropWhile_append2) auto
  ultimately show ?thesis by (simp add: parse_intf_def nat_str_nonempty nat_of_str_nat_str)
qed

lemma conflict_free_filter_le1:
  "config_conflict_free vp \<Longrightarrow> length (filter (\<lambda>g. l \<in> set (snd g)) vp) \<le> 1"
proof (induction vp rule: config_conflict_free.induct)
  case 1
  then show ?case by simp
next
  case (2 key labels groups)
  show ?case
  proof (cases "l \<in> set labels")
    case True
    have "l \<notin> set b" if "(a, b) \<in> set groups" for a b
      using "2.prems" True that by fastforce
    then have "filter (\<lambda>g. l \<in> set (snd g)) groups = []"
      by (auto simp: filter_empty_conv)
    then show ?thesis by simp
  next
    case False
    with "2.IH" "2.prems" show ?thesis by simp
  qed
qed

lemma mininet_label_sublist:
  assumes "CHR ''-'' \<notin> set sw" and "sublist (sw @ ''-eth'' @ nat_str i) (sw @ ''-eth'' @ nat_str j)"
  shows "i \<le> j"
  using mininet_name_sublist [OF assms(1) assms(1,2)] by (blast intro: nat_str_prefix_le)

lemma mininet_claims_port:
  assumes "CHR ''-'' \<notin> set sw" and "j < 10" and "mininet_config_for sw vp" and "g \<in> set vp"
  shows "claims_port \<lparr>port_no = x, name = sw @ ''-eth'' @ nat_str j\<rparr> g
           \<longleftrightarrow> sw @ ''-eth'' @ nat_str j \<in> set (snd g)"
proof
  assume "claims_port \<lparr>port_no = x, name = sw @ ''-eth'' @ nat_str j\<rparr> g"
  then obtain l where l: "l \<in> set (snd g)" and sub: "sublist l (sw @ ''-eth'' @ nat_str j)"
    by (auto simp: claims_port_def)
  from assms(3,4) l obtain sw' k where pk: "parse_intf l = Some (sw', k)"
      and sfx: "sw' = sw \<or> \<not> suffix sw' sw"
    by (cases g) (fastforce simp: mininet_config_for_def list_all_iff split: option.splits)
  from pk have leq: "l = sw' @ ''-eth'' @ nat_str k" and sw': "CHR ''-'' \<notin> set sw'"
    by (blast dest: parse_intf_SomeD)+
  from mininet_name_sublist [OF assms(1) sw'] sub leq
  have "suffix sw' sw" and "prefix (nat_str k) (nat_str j)" by auto
  with sfx assms(2) have "sw' = sw" and "k = j" by (auto dest: nat_str_prefix_small)
  with l leq show "sw @ ''-eth'' @ nat_str j \<in> set (snd g)" by simp
next
  assume "sw @ ''-eth'' @ nat_str j \<in> set (snd g)"
  then show "claims_port \<lparr>port_no = x, name = sw @ ''-eth'' @ nat_str j\<rparr> g"
    by (auto simp: claims_port_def)
qed

lemma mininet_claims_local:
  assumes "CHR ''-'' \<notin> set sw" and "mininet_config_for sw vp" and "g \<in> set vp"
  shows "\<not> claims_port \<lparr>port_no = x, name = sw\<rparr> g"
proof
  assume "claims_port \<lparr>port_no = x, name = sw\<rparr> g"
  then obtain l where l: "l \<in> set (snd g)" and sub: "sublist l sw"
    by (auto simp: claims_port_def)
  from assms(2,3) l obtain sw' k where "parse_intf l = Some (sw', k)"
    by (cases g) (fastforce simp: mininet_config_for_def list_all_iff split: option.splits)
  then have "CHR ''-'' \<in> set l" by (auto dest: parse_intf_SomeD)
  with sub have "CHR ''-'' \<in> set sw" by (auto dest: set_mono_sublist)
  with assms(1) show False ..
qed

lemma mininet_ports_unambiguous:
  assumes "CHR ''-'' \<notin> set sw" and "length (node_peers t sw) < 10"
    and "mininet_config_for sw vp" and "config_conflict_free vp"
  shows "ports_unambiguous (switch_port_table t sw) vp"
  unfolding ports_unambiguous_def
proof
  fix p assume "p \<in> set (switch_port_table t sw)"
  then consider (eth) j where "1 \<le> j" "j \<le> length (node_peers t sw)"
      "p = \<lparr>port_no = of_nat j, name = sw @ ''-eth'' @ nat_str j\<rparr>"
    | (local) "p = \<lparr>port_no = OFPP_LOCAL, name = sw\<rparr>"
    by (auto simp: switch_port_table_def)
  then show "length (filter (claims_port p) vp) \<le> 1"
  proof cases
    case (eth j)
    with assms(2) have "j < 10" by simp
    then have "filter (claims_port p) vp = filter (\<lambda>g. sw @ ''-eth'' @ nat_str j \<in> set (snd g)) vp"
      using eth(3) mininet_claims_port [OF assms(1) _ assms(3)] by (intro filter_cong) auto
    moreover have "length (filter (\<lambda>g. sw @ ''-eth'' @ nat_str j \<in> set (snd g)) vp) \<le> 1"
      using assms(4) by (rule conflict_free_filter_le1)
    ultimately show ?thesis by simp
  next
    case local
    with mininet_claims_local [OF assms(1,3)] have "filter (claims_port p) vp = []"
      by (auto simp: filter_empty_conv)
    then show ?thesis by simp
  qed
qed

lemma mininet_port_numbers_distinct:
  assumes "length (node_peers t sw) < 10"
  shows "distinct (map port_no (switch_port_table t sw))"
proof -
  have inj: "inj_on (of_nat :: nat \<Rightarrow> 32 word) {..<10}"
    by (rule inj_onI) (simp add: word_of_nat_eq_iff take_bit_nat_eq_self)
  have loc: "(of_nat j :: 32 word) \<noteq> OFPP_LOCAL" if "j < 10" for j
  proof
    assume "(of_nat j :: 32 word) = OFPP_LOCAL"
    then have "unat (of_nat j :: 32 word) = unat (OFPP_LOCAL :: 32 word)" by simp
    with that show False by (simp add: unat_of_nat)
  qed
  let ?n = "length (node_peers t sw)"
  from assms have "set [1 ..< Suc ?n] \<subseteq> {..<10}" by auto
  with inj have "inj_on (of_nat :: nat \<Rightarrow> 32 word) (set [1 ..< Suc ?n])"
    by (rule inj_on_subset)
  then have "distinct (map (of_nat :: nat \<Rightarrow> 32 word) [1 ..< Suc ?n])"
    by (simp add: distinct_map)
  moreover from assms loc have "OFPP_LOCAL \<notin> set (map (of_nat :: nat \<Rightarrow> 32 word) [1 ..< Suc ?n])"
    by auto
  moreover have "map port_no (switch_port_table t sw) = map of_nat [1 ..< Suc ?n] @ [OFPP_LOCAL]"
    by (simp add: switch_port_table_def comp_def)
  ultimately show ?thesis by simp
qed

lemma switch_port_table_split:
  assumes "1 \<le> i" and "i \<le> length (node_peers t sw)"
  shows "switch_port_table t sw =
     [\<lparr>port_no = of_nat j, name = sw @ ''-eth'' @ nat_str j\<rparr>. j \<leftarrow> [1 ..< i]]
     @ \<lparr>port_no = of_nat i, name = sw @ ''-eth'' @ nat_str i\<rparr>
     # [\<lparr>port_no = of_nat j, name = sw @ ''-eth'' @ nat_str j\<rparr>. j \<leftarrow> [Suc i ..< Suc (length (node_peers t sw))]]
     @ [\<lparr>port_no = OFPP_LOCAL, name = sw\<rparr>]"
proof -
  let ?n = "length (node_peers t sw)"
  from assms have "[1 ..< Suc ?n] = [1 ..< i] @ [i ..< Suc ?n]"
    using upt_add_eq_append [of 1 i "Suc ?n - i"] by simp
  also from assms have "[i ..< Suc ?n] = i # [Suc i ..< Suc ?n]" by (simp add: upt_conv_Cons)
  finally have "[1 ..< Suc ?n] = [1 ..< i] @ i # [Suc i ..< Suc ?n]" .
  then show ?thesis by (simp add: switch_port_table_def)
qed

section \<open>Properties\<close>

text \<open>
  C20. Round trip of Mininet's interface names through the resolver. Take the port table
  of a switch whose name has no dash, and an interface number i with
  1 \<open>\<le>\<close> i \<open>\<le>\<close> number of links. Resolving the name of the switch's i-th
  interface gives back that interface, with port number i. This holds even with ten or
  more ports: \<open>s1-eth1\<close> is a substring of \<open>s1-eth10\<close>, but port 1 comes first. The
  switch's local port does not round trip. Its name, the switch name, occurs in the name of
  interface 1, so resolving it returns interface 1.
\<close>

theorem mininet_label_resolves:
  assumes "CHR ''-'' \<notin> set sw" and "1 \<le> i" and "i \<le> length (node_peers t sw)"
  shows "get_port_number [sw @ ''-eth'' @ nat_str i] (topo_datapath t sw d)
           = Inr (Some \<lparr>port_no = of_nat i, name = sw @ ''-eth'' @ nat_str i\<rparr>)
    \<and> get_port_number [sw] (topo_datapath t sw d)
           = Inr (Some \<lparr>port_no = 1, name = sw @ ''-eth1''\<rparr>)"
proof -
  have none: "\<not> sublist (sw @ ''-eth'' @ nat_str i) (sw @ ''-eth'' @ nat_str j)" if "j < i" for j
    using mininet_label_sublist [OF assms(1), of i j] that by linarith
  let ?port = "\<lambda>j. \<lparr>port_no = of_nat j, name = sw @ ''-eth'' @ nat_str j\<rparr>"
  have pre: "find (\<lambda>p. sublist (sw @ ''-eth'' @ nat_str i) (name p)) (map ?port [1 ..< i]) = None"
    using none by (auto simp: find_None_iff')
  have "find (\<lambda>p. py_contains (sw @ ''-eth'' @ nat_str i) (name p)) (switch_port_table t sw) = Some (?port i)"
    unfolding py_contains_sublist switch_port_table_split [OF assms(2,3)]
    by (simp only: find_append pre option.case) simp
  then have own: "get_port_number [sw @ ''-eth'' @ nat_str i] (topo_datapath t sw d) = Inr (Some (?port i))"
    by (simp add: topo_datapath_def is_switch_label_def)
  from assms(2,3) have n1: "1 \<le> length (node_peers t sw)" by simp
  have "find (\<lambda>p. py_contains sw (name p)) (switch_port_table t sw) = Some (?port 1)"
    unfolding py_contains_sublist switch_port_table_split [OF order_refl n1] by simp
  then have "get_port_number [sw] (topo_datapath t sw d) = Inr (Some (?port 1))"
    by (simp add: topo_datapath_def is_switch_label_def)
  moreover have "?port 1 = \<lparr>port_no = 1, name = sw @ ''-eth1''\<rparr>"
    by (simp only: nat_str_one of_nat_1 append.simps)
  ultimately show ?thesis using own by (simp only:)
qed

text \<open>
  C26. No overlapping rules on any Mininet network: for any topology and any configuration
  meeting these conditions (the shipped network and configuration among them):
  \<^item> the switch's name has no dash;
  \<^item> the switch has fewer than ten links (with ten, \<open>s1-eth1\<close> would also claim
    \<open>s1-eth10\<close>);
  \<^item> every configured label is a Mininet interface name of this switch or of a switch
    whose name is not a suffix of this one's;
  \<^item> no label serves two groups (the spec's conflict check).
  Then the rules the handler sends when the switch attaches have pairwise distinct input
  ports.
\<close>

theorem mininet_handler_distinct_ports:
  assumes "CHR ''-'' \<notin> set sw" and "length (node_peers t sw) < 10"
    and "mininet_config_for sw (app_value_pair self)" and "config_conflict_free (app_value_pair self)"
  shows "distinct (map (\<lambda>m. match_in_port (fm_match (snd m)))
           (sent (handler_datapath self \<lparr>ev_msg_datapath = topo_datapath t sw d\<rparr>)))"
proof -
  from assms have "ports_unambiguous (switch_port_table t sw) (rev (app_value_pair self))"
    by (simp add: mininet_ports_unambiguous)
  with mininet_port_numbers_distinct [OF assms(2)]
  have "distinct (map rule_in_port (expected_rules (switch_port_table t sw) (rev (app_value_pair self))))"
    by (rule expected_rules_distinct)
  then show ?thesis by (simp add: handler_datapath_match_ports topo_datapath_def distinct_map inj_on_def)
qed

end
