(* ===== verification/Packet_Semantics.thy ===== *)
theory Packet_Semantics
  imports Rule_Builder
begin

text \<open>
  What a switch does with a packet under one of the controller's flow entries, following
  OpenFlow 1.3. A packet has an input port, a payload Ethertype and a stack of VLAN tags,
  outermost first. \<open>eth_type\<close> matches the Ethertype after the VLAN tags. A VLAN-id match
  needs an outermost tag with that id (Ryu adds \<open>OFPVID_PRESENT\<close> to the match). A push copies
  the VLAN id of the current outermost tag, or uses 0 on an untagged packet. A VLAN-id
  set-field rewrites the outermost tag. Instructions go through the action set of one flow
  table, and \<open>flow_fate\<close> says where a matching packet goes: out of some ports, which
  means dropped when there are none, or on to a later table. This is the environment of the
  controller, not code of the repository: it gives the installed rules their meaning.
\<close>

section \<open>Packets and rule application\<close>

record vlan_tag =
  tpid :: "16 word"
  vid :: "12 word"

record packet =
  pkt_in_port :: "32 word"
  pkt_eth_type :: "16 word"
  pkt_tags :: "vlan_tag list"

definition match_packet :: "ofp_match \<Rightarrow> packet \<Rightarrow> bool" where
  "match_packet m pkt =
     ((case match_in_port m of None \<Rightarrow> True | Some p \<Rightarrow> pkt_in_port pkt = p)
      \<and> (case match_dl_type m of None \<Rightarrow> True | Some t \<Rightarrow> pkt_eth_type pkt = t)
      \<and> (case match_vlan_vid m of
           None \<Rightarrow> True
         | Some v \<Rightarrow> (case pkt_tags pkt of [] \<Rightarrow> False | tg # _ \<Rightarrow> uint (vid tg) = v)))"

fun apply_action :: "packet \<Rightarrow> ofp_action \<Rightarrow> packet" where
  "apply_action pkt (OFPActionPushVlan t) =
     pkt\<lparr>pkt_tags := \<lparr>tpid = t, vid = (case pkt_tags pkt of [] \<Rightarrow> 0 | tg # _ \<Rightarrow> vid tg)\<rparr>
                    # pkt_tags pkt\<rparr>"
| "apply_action pkt (OFPActionSetField (OFPMatchField OXM_OF_VLAN_VID v)) =
     pkt\<lparr>pkt_tags := (case pkt_tags pkt of [] \<Rightarrow> [] | tg # r \<Rightarrow> tg\<lparr>vid := word_of_int v\<rparr> # r)\<rparr>"
| "apply_action pkt (OFPActionOutput p) = pkt"

text \<open>
  Running an action list gives the packet as the actions leave it and the copies sent out,
  in order. Each copy is the port it goes to and the packet as it was when the output
  action ran.
\<close>

fun exec_actions :: "packet \<Rightarrow> ofp_action list \<Rightarrow> packet \<times> (32 word \<times> packet) list" where
  "exec_actions pkt [] = (pkt, [])"
| "exec_actions pkt (OFPActionOutput p # acts) =
     (case exec_actions pkt acts of (q, outs) \<Rightarrow> (q, (p, pkt) # outs))"
| "exec_actions pkt (a # acts) = exec_actions (apply_action pkt a) acts"

text \<open>
  Instructions run in order on the packet, the action set and the copies sent so far
  (OpenFlow 1.3, sections 5.9 and 5.10).
  \<^item> Apply-actions runs its action list at once.
  \<^item> Write-actions merges its actions into the action set. The set holds at most one
    action of each type, so a written action replaces the one of its type already there.
  \<^item> Clear-actions empties the set.
  \<^item> Goto-table sends the packet on to a later table, with its action set.
  Without a goto-table, the action set runs after the last instruction, in the order the
  specification fixes: push-VLAN, then set-field, then output. A packet that no output
  action sends out is dropped.
\<close>

datatype ofp_action_type = OFPAT_PUSH_VLAN | OFPAT_SET_FIELD oxm_field | OFPAT_OUTPUT

fun action_type :: "ofp_action \<Rightarrow> ofp_action_type" where
  "action_type (OFPActionPushVlan t) = OFPAT_PUSH_VLAN"
| "action_type (OFPActionSetField (OFPMatchField f v)) = OFPAT_SET_FIELD f"
| "action_type (OFPActionOutput p) = OFPAT_OUTPUT"

fun action_rank :: "ofp_action_type \<Rightarrow> nat" where
  "action_rank OFPAT_PUSH_VLAN = 0"
| "action_rank (OFPAT_SET_FIELD f) = 1"
| "action_rank OFPAT_OUTPUT = 2"

definition write_action :: "ofp_action list \<Rightarrow> ofp_action \<Rightarrow> ofp_action list" where
  "write_action aset a = filter (\<lambda>b. action_type b \<noteq> action_type a) aset @ [a]"

definition action_set_order :: "ofp_action list \<Rightarrow> ofp_action list" where
  "action_set_order aset =
     concat (map (\<lambda>k. filter (\<lambda>a. action_rank (action_type a) = k) aset) [0, 1, 2])"

fun apply_instruction ::
  "packet \<times> ofp_action list \<times> (32 word \<times> packet) list \<Rightarrow> ofp_instruction
     \<Rightarrow> packet \<times> ofp_action list \<times> (32 word \<times> packet) list" where
  "apply_instruction (pkt, aset, outs) (OFPInstructionActions OFPIT_APPLY_ACTIONS acts) =
     (case exec_actions pkt acts of (q, outs') \<Rightarrow> (q, aset, outs @ outs'))"
| "apply_instruction (pkt, aset, outs) (OFPInstructionActions OFPIT_WRITE_ACTIONS acts) =
     (pkt, foldl write_action aset acts, outs)"
| "apply_instruction (pkt, aset, outs) (OFPInstructionActions OFPIT_CLEAR_ACTIONS acts) = (pkt, [], outs)"
| "apply_instruction st ins = st"

fun goto_of :: "ofp_instruction list \<Rightarrow> 8 word option" where
  "goto_of [] = None"
| "goto_of (OFPInstructionGotoTable t # ins) = Some t"
| "goto_of (i # ins) = goto_of ins"

datatype packet_fate =
    Emitted "(32 word \<times> packet) list"
  | NextTable "8 word" packet "ofp_action list" "(32 word \<times> packet) list"

definition flow_fate :: "flow_mod \<Rightarrow> packet \<Rightarrow> packet_fate option" where
  "flow_fate fm pkt =
     (if match_packet (fm_match fm) pkt then
        Some (case foldl apply_instruction (pkt, [], []) (instructions fm) of
                (q, aset, outs) \<Rightarrow>
                  (case goto_of (instructions fm) of
                     Some t \<Rightarrow> NextTable t q aset outs
                   | None \<Rightarrow> Emitted (outs @ snd (exec_actions q (action_set_order aset)))))
      else None)"

text \<open>The packet as a flow entry's instructions and action set leave it.\<close>

definition run_instructions :: "packet \<Rightarrow> ofp_instruction list \<Rightarrow> packet" where
  "run_instructions pkt ins =
     (case foldl apply_instruction (pkt, [], []) ins of
        (p, aset, outs) \<Rightarrow> fst (exec_actions p (action_set_order aset)))"

definition flow_apply :: "flow_mod \<Rightarrow> packet \<Rightarrow> packet option" where
  "flow_apply fm pkt =
     (if match_packet (fm_match fm) pkt then Some (run_instructions pkt (instructions fm)) else None)"

section \<open>Lemmas\<close>

lemma match_rule_flow_mod:
  "match_packet (fm_match (rule_flow_mod r)) pkt \<longleftrightarrow>
     pkt_in_port pkt = rule_in_port r \<and> pkt_eth_type pkt = ETH_TYPE_IP
     \<and> (case kind_match (rule_kind r) of
          None \<Rightarrow> True
        | Some v \<Rightarrow> (case pkt_tags pkt of [] \<Rightarrow> False | tg # _ \<Rightarrow> uint (vid tg) = v))"
  by (simp add: match_packet_def rule_flow_mod_def)

lemma flow_apply_tenant:
  "flow_apply (rule_flow_mod \<lparr>rule_in_port = p, rule_kind = TenantRule v\<rparr>) pkt =
     (if pkt_in_port pkt = p \<and> pkt_eth_type pkt = ETH_TYPE_IP \<and> pkt_tags pkt \<noteq> []
         \<and> uint (vid (hd (pkt_tags pkt))) = v
      then Some (pkt\<lparr>pkt_tags := \<lparr>tpid = VLAN_TAG_802_1Q, vid = word_of_int v\<rparr> # pkt_tags pkt\<rparr>)
      else None)"
  by (cases "pkt_tags pkt")
     (auto simp: flow_apply_def match_packet_def rule_flow_mod_def run_instructions_def action_set_order_def)

lemma flow_apply_trunk:
  "flow_apply (rule_flow_mod \<lparr>rule_in_port = p, rule_kind = TrunkRule\<rparr>) pkt =
     (if pkt_in_port pkt = p \<and> pkt_eth_type pkt = ETH_TYPE_IP
      then Some (pkt\<lparr>pkt_tags := \<lparr>tpid = BRIDGE_TAG_802_1AD,
                                     vid = (case pkt_tags pkt of [] \<Rightarrow> 0 | tg # _ \<Rightarrow> vid tg)\<rparr>
                                 # pkt_tags pkt\<rparr>)
      else None)"
  by (simp add: flow_apply_def match_packet_def rule_flow_mod_def run_instructions_def action_set_order_def)

end
