(* ===== verification/Forwarding.thy ===== *)
theory Forwarding
  imports Packet_Semantics Dispatcher
begin

text \<open>
  The rules the attach handler installs, read through the OpenFlow packet semantics of
  \<open>Packet_Semantics\<close>: what happens to customer traffic on tenant ports and on trunk
  ports, that at most one installed rule applies to any packet, and that no installed rule
  sends a packet anywhere.
\<close>

section \<open>Lemmas\<close>

lemma expected_rules_match_port:
  "r \<in> set rs \<Longrightarrow> flow_apply (rule_flow_mod r) pkt \<noteq> None \<Longrightarrow> rule_in_port r = pkt_in_port pkt"
  by (simp add: flow_apply_def match_rule_flow_mod split: if_splits)

lemma flow_fate_rule:
  "flow_fate (rule_flow_mod r) pkt =
     (if match_packet (fm_match (rule_flow_mod r)) pkt then Some (Emitted []) else None)"
  by (cases "rule_kind r") (simp_all add: flow_fate_def rule_flow_mod_def action_set_order_def)

section \<open>Properties\<close>

text \<open>
  C14. Untagged customer traffic is never tagged with a tenant VLAN: whatever rule of the
  attach handler applies to an untagged packet, the result carries exactly one tag, the
  802.1ad service tag with VLAN id 0 pushed by a trunk rule. Tenant rules match only packets
  that already carry the tenant's VLAN id, so they never apply to the plain customer
  traffic that spec section 4.2 says they stamp.
\<close>

theorem handler_untagged_only_trunk:
  assumes "m \<in> set (sent (handler_datapath self ev))" and "pkt_tags pkt = []"
    and "flow_apply (snd m) pkt = Some pkt'"
  shows "pkt_tags pkt' = [\<lparr>tpid = BRIDGE_TAG_802_1AD, vid = 0\<rparr>]"
proof -
  from assms(1) obtain ports r where r: "r \<in> set (expected_rules ports (rev (app_value_pair self)))"
      and m: "m = (dp_id (ev_msg_datapath ev), rule_flow_mod r)"
    by (rule handler_datapath_sent_rule)
  from r have kind: "rule_kind r \<in> {TenantRule 1, TenantRule 2, TrunkRule}"
    by (rule expected_rules_kind)
  obtain p k where rk: "r = \<lparr>rule_in_port = p, rule_kind = k\<rparr>"
    by (cases r) simp
  from kind rk assms(2,3) m show ?thesis
    by (auto simp: flow_apply_tenant flow_apply_trunk split: if_splits)
qed

text \<open>
  C15. What a tenant rule does: the rule \<open>tag_vlan\<close> sends applies exactly to IPv4 packets
  on its port whose outermost tag has the tenant's VLAN id, and pushes one more 802.1Q tag
  (Ethertype 0x8100) with the same VLAN id; no 802.1ad service tag is involved.
\<close>

theorem tag_vlan_packet_effect:
  assumes "m \<in> set (sent (tag_vlan port v dp))"
  shows "flow_apply (snd m) pkt =
    (if pkt_in_port pkt = port \<and> pkt_eth_type pkt = 0x0800 \<and> pkt_tags pkt \<noteq> []
        \<and> uint (vid (hd (pkt_tags pkt))) = v
     then Some (pkt\<lparr>pkt_tags := \<lparr>tpid = 0x8100, vid = word_of_int v\<rparr> # pkt_tags pkt\<rparr>)
     else None)"
  using assms by (simp add: tag_vlan_eq flow_apply_tenant VLAN_TAG_802_1Q_def)

text \<open>
  C16. Forwarding is determined: when the switch's port numbers are distinct and each port
  is claimed by at most one group, at most one of the rules sent on an attach event applies
  to any packet, so the equal priorities of the rules never leave the switch's choice
  undefined.
\<close>

theorem handler_rules_deterministic:
  assumes "ofproto_port_no (ev_msg_datapath ev) = Some ports"
    and "distinct (map port_no ports)"
    and "ports_unambiguous ports (app_value_pair self)"
  shows "length (filter (\<lambda>m. flow_apply (snd m) pkt \<noteq> None) (sent (handler_datapath self ev))) \<le> 1"
proof -
  let ?rs = "expected_rules ports (rev (app_value_pair self))"
  from assms(3) have "ports_unambiguous ports (rev (app_value_pair self))"
    by simp
  with assms(2) have "distinct (map rule_in_port ?rs)"
    by (rule expected_rules_distinct)
  then have "length (filter (\<lambda>r. flow_apply (rule_flow_mod r) pkt \<noteq> None) ?rs) \<le> 1"
    by (rule distinct_map_filter_le1) (blast intro: expected_rules_match_port)
  with assms(1) show ?thesis
    by (simp add: handler_datapath_def install_vpn_flow_ports to_msgs_def
        filter_map comp_def)
qed

text \<open>
  C12. Configuration conflicts are neither rejected nor harmless. Spec section 7 asks to
  reject, at load time, a configuration in which one port serves two groups. Suppose a
  tenant group and the trunk group each resolve, through \<open>_get_port_number\<close>, to the same
  port \<open>p\<close> of the attaching switch. Then the handler completes without an error and sends
  two different rules of equal priority, and both apply to an IPv4 packet on \<open>p\<close> whose
  outer tag carries the tenant's VLAN id. OpenFlow leaves the choice between overlapping
  entries of equal priority undefined. This is why C16 needs its \<open>ports_unambiguous\<close>
  hypothesis.
\<close>

theorem handler_conflict_overlap:
  assumes "(key1, labels1) \<in> set (app_value_pair self)" and "key_kind key1 = Some (TenantRule v)"
    and "(key2, labels2) \<in> set (app_value_pair self)" and "key_kind key2 = Some TrunkRule"
    and "get_port_number labels1 (ev_msg_datapath ev) = Inr (Some p)"
    and "get_port_number labels2 (ev_msg_datapath ev) = Inr (Some p)"
    and "pkt_in_port pkt = port_no p" and "pkt_eth_type pkt = ETH_TYPE_IP"
    and "pkt_tags pkt \<noteq> []" and "uint (vid (hd (pkt_tags pkt))) = v"
  shows "outcome (handler_datapath self ev) = Inr ()
    \<and> (\<exists>m1 m2. m1 \<in> set (sent (handler_datapath self ev)) \<and> m2 \<in> set (sent (handler_datapath self ev))
        \<and> m1 \<noteq> m2 \<and> priority (snd m1) = priority (snd m2)
        \<and> flow_apply (snd m1) pkt \<noteq> None \<and> flow_apply (snd m2) pkt \<noteq> None)"
proof -
  from assms(5) obtain ports where pt: "ofproto_port_no (ev_msg_datapath ev) = Some ports"
      and f1: "first_label_match ports labels1 = Some p"
    by (rule get_port_number_SomeD)
  from assms(6) pt have f2: "first_label_match ports labels2 = Some p"
    by (simp add: get_port_number_eq)
  let ?rs = "expected_rules ports (rev (app_value_pair self))"
  have t: "\<lparr>rule_in_port = port_no p, rule_kind = TenantRule v\<rparr> \<in> set ?rs"
    using assms(1,2) f1 by (intro expected_rules_member) simp_all
  have k: "\<lparr>rule_in_port = port_no p, rule_kind = TrunkRule\<rparr> \<in> set ?rs"
    using assms(3,4) f2 by (intro expected_rules_member) simp_all
  have h: "handler_datapath self ev = (Inr (), to_msgs (ev_msg_datapath ev) ?rs)"
    using pt by (simp add: handler_datapath_def install_vpn_flow_ports)
  let ?m1 = "(dp_id (ev_msg_datapath ev), rule_flow_mod \<lparr>rule_in_port = port_no p, rule_kind = TenantRule v\<rparr>)"
  let ?m2 = "(dp_id (ev_msg_datapath ev), rule_flow_mod \<lparr>rule_in_port = port_no p, rule_kind = TrunkRule\<rparr>)"
  have m: "?m1 \<in> set (sent (handler_datapath self ev))" "?m2 \<in> set (sent (handler_datapath self ev))"
    using h t k by (auto simp: to_msgs_def)
  have d: "?m1 \<noteq> ?m2" "priority (snd ?m1) = priority (snd ?m2)"
    by (simp_all add: rule_flow_mod_def)
  have a: "flow_apply (snd ?m1) pkt \<noteq> None" "flow_apply (snd ?m2) pkt \<noteq> None"
    using assms(7-10) by (simp_all add: flow_apply_tenant flow_apply_trunk)
  from h m d a show ?thesis by (intro conjI exI[of _ ?m1] exI[of _ ?m2]) simp_all
qed

text \<open>
  C25. The installed rules forward nothing. A rule the handler sends has neither an
  output action nor a goto-table instruction. So an OpenFlow 1.3 switch tags a packet the
  rule matches, emits it on no port, and drops it. The spec describes a rule's actions as
  applied "before further processing". No further processing follows, so IPv4 traffic
  entering a configured port is black-holed instead of being carried over the trunks.
\<close>

theorem handler_rules_drop:
  assumes "m \<in> set (sent (handler_datapath self ev))" and "match_packet (fm_match (snd m)) pkt"
  shows "flow_fate (snd m) pkt = Some (Emitted [])"
proof -
  from assms(1) obtain ports r where "m = (dp_id (ev_msg_datapath ev), rule_flow_mod r)"
    by (rule handler_datapath_sent_rule)
  with assms(2) show ?thesis by (simp add: flow_fate_rule)
qed

end
