(* ===== verification/Requirement.thy ===== *)
theory Requirement
  imports Packet_Semantics Dispatcher
begin

text \<open>
  The requirement the program states for itself: the pseudocode of the module docstring
  of \<open>src/vlan_proactive.py\<close> (lines 1--52). Its table \<open>value_pair\<close> (lines 14--19) has
  three customer groups and one trunk group. Its loop (lines 20--52) visits every key in
  order and tests two independent conditions. A key like \<open>cust\<close> gets a
  write-actions instruction whose action list pushes 0x88a8 and then 0x8100 (lines 22--35).
  A key like \<open>trunk\<close> gets an apply-actions instruction that pushes 0x88a8 (lines 38--51).
  In each block, the lines marked \<open>-\<close> (clear-actions, write-metadata, goto-table) are
  instructions left out. The docstring does not spell out the match; "like" is read as
  substring containment, the test the code itself uses for keys.

  This theory compares the code with that requirement and, under the packet semantics of
  \<open>Packet_Semantics\<close>, checks what the requirement itself would do to a packet.
\<close>

section \<open>The pseudocode\<close>

definition req_value_pair :: config where
  "req_value_pair =
     [(''cust1'', [''s1-eth1'', ''s1-eth2'', ''s3-eth3'']),
      (''cust2'', [''s2-eth1'', ''s2-eth2'', ''s1-eth3'']),
      (''cust3'', [''s3-eth1'', ''s3_eth2'', ''s2-eth3'']),
      (''trunk'', [''s1-eth4'', ''s2-eth4'', ''s3-eth4''])]"

definition req_cust_actions :: "ofp_action list" where
  "req_cust_actions = [OFPActionPushVlan BRIDGE_TAG_802_1AD, OFPActionPushVlan VLAN_TAG_802_1Q]"

definition req_cust_instructions :: "ofp_instruction list" where
  "req_cust_instructions = [OFPInstructionActions OFPIT_WRITE_ACTIONS req_cust_actions]"

definition req_trunk_instructions :: "ofp_instruction list" where
  "req_trunk_instructions =
     [OFPInstructionActions OFPIT_APPLY_ACTIONS [OFPActionPushVlan BRIDGE_TAG_802_1AD]]"

definition req_key_instructions :: "string \<Rightarrow> ofp_instruction list list" where
  "req_key_instructions key =
     (if sublist ''cust'' key then [req_cust_instructions] else [])
     @ (if sublist ''trunk'' key then [req_trunk_instructions] else [])"

definition req_install :: "config \<Rightarrow> (string list \<times> ofp_instruction list) list" where
  "req_install vp = concat (map (\<lambda>(key, labels). map (\<lambda>ins. (labels, ins)) (req_key_instructions key)) vp)"

section \<open>Lemmas\<close>

lemma req_key_instructions_cases:
  "ins \<in> set (req_key_instructions key) \<Longrightarrow> ins = req_cust_instructions \<or> ins = req_trunk_instructions"
  by (auto simp: req_key_instructions_def split: if_splits)

section \<open>Properties\<close>

text \<open>
  C21. The code against its own requirement. A trunk rule the handler sends carries
  exactly the instructions the pseudocode prescribes for a trunk key. A tenant rule carries
  instructions the pseudocode prescribes for no key at all. It uses apply-actions, not
  write-actions, and pushes 0x8100 and sets the VLAN id instead of pushing 0x88a8 and
  0x8100.
\<close>

theorem handler_vs_requirement:
  assumes "m \<in> set (sent (handler_datapath self ev))"
  shows "(match_vlan_vid (fm_match (snd m)) = None \<longrightarrow> instructions (snd m) = req_trunk_instructions)
    \<and> (match_vlan_vid (fm_match (snd m)) \<noteq> None \<longrightarrow>
         (\<forall>key. instructions (snd m) \<notin> set (req_key_instructions key)))"
proof -
  from assms obtain ports r where r: "r \<in> set (expected_rules ports (rev (app_value_pair self)))"
      and m: "m = (dp_id (ev_msg_datapath ev), rule_flow_mod r)"
    by (rule handler_datapath_sent_rule)
  from r have "rule_kind r \<in> {TenantRule 1, TenantRule 2, TrunkRule}"
    by (rule expected_rules_kind)
  with m show ?thesis
    by (auto simp: rule_flow_mod_def req_trunk_instructions_def req_cust_instructions_def
        req_cust_actions_def dest!: req_key_instructions_cases)
qed

text \<open>
  The requirement's customer action list cannot build a Q-in-Q stack. As written,
  in a write-actions instruction, the action set keeps only the last push-VLAN, so a
  switch pushes a single 802.1Q tag (0x8100). Even run at once as an apply-actions list,
  the two pushes leave the 802.1Q tag outside the 802.1ad tag. That is the reverse of
  802.1ad stacking, where the service tag (0x88a8) is outermost.
\<close>

theorem requirement_cust_single_tag:
  "run_instructions pkt req_cust_instructions =
     pkt\<lparr>pkt_tags := \<lparr>tpid = 0x8100, vid = (case pkt_tags pkt of [] \<Rightarrow> 0 | tg # _ \<Rightarrow> vid tg)\<rparr>
                    # pkt_tags pkt\<rparr>
   \<and> run_instructions pkt
       [OFPInstructionActions OFPIT_APPLY_ACTIONS req_cust_actions] =
     pkt\<lparr>pkt_tags := \<lparr>tpid = 0x8100, vid = (case pkt_tags pkt of [] \<Rightarrow> 0 | tg # _ \<Rightarrow> vid tg)\<rparr>
                    # \<lparr>tpid = 0x88A8, vid = (case pkt_tags pkt of [] \<Rightarrow> 0 | tg # _ \<Rightarrow> vid tg)\<rparr>
                    # pkt_tags pkt\<rparr>"
  by (simp add: run_instructions_def action_set_order_def req_cust_instructions_def req_cust_actions_def
      write_action_def
      VLAN_TAG_802_1Q_def BRIDGE_TAG_802_1AD_def)

end
