(* ===== verification/Switch_Table.thy ===== *)
theory Switch_Table
  imports Packet_Semantics Controller
begin

text \<open>
  The switch side of rule installation, following OpenFlow 1.3. A switch keeps its flow
  entries in tables numbered from 0 and applies the flow modifications it receives in order
  (sections 5 and 6.4).
  \<^item> A flow-add that fails the switch's checks (\<open>flow_mod_wf\<close>) is answered with an error
    and changes nothing.
  \<^item> An accepted flow-add first clears an entry with the same table, priority and match,
    then adds the new entry.
  \<^item> The controller sends no other command (C9). Other commands are outside this
    model and leave the table as it is.
  A packet enters table 0 with an empty action set. In each table the matching entry of
  highest priority runs its instructions. Ties are undefined in the specification; the
  model takes the first. A goto-table sends the packet, with its action set, on to a later
  table. Without one, the action set runs. A table with no matching entry and no table-miss
  entry drops the packet. \<open>pipeline\<close> is this walk, as a \<open>partial_function (option)\<close>. It
  returns on every table a switch can build, because each accepted goto-table names a
  later table (lemma \<open>pipeline_total\<close>).

  \<open>switch_table msgs d\<close> is the table of switch \<open>d\<close> after it has received, in order, the
  messages of \<open>msgs\<close> addressed to it, starting from an empty table.
\<close>

section \<open>Flow entries and flow modifications\<close>

record flow_entry =
  fe_table :: "8 word"
  fe_priority :: "16 word"
  fe_match :: ofp_match
  fe_instructions :: "ofp_instruction list"
  fe_cookie :: "64 word"

type_synonym flow_table = "flow_entry list"

definition entry_of :: "flow_mod \<Rightarrow> flow_entry" where
  "entry_of fm =
     \<lparr>fe_table = table_id fm, fe_priority = priority fm, fe_match = fm_match fm,
      fe_instructions = instructions fm, fe_cookie = cookie fm\<rparr>"

definition same_entry_key :: "flow_entry \<Rightarrow> flow_entry \<Rightarrow> bool" where
  "same_entry_key e e' =
     (fe_table e = fe_table e' \<and> fe_priority e = fe_priority e' \<and> fe_match e = fe_match e')"

definition flow_add_accepted :: "flow_mod \<Rightarrow> bool" where
  "flow_add_accepted fm = (command fm = OFPFC_ADD \<and> flow_mod_wf fm)"

definition switch_flow_mod :: "flow_table \<Rightarrow> flow_mod \<Rightarrow> flow_table" where
  "switch_flow_mod tbl fm =
     (if flow_add_accepted fm
      then filter (\<lambda>e. \<not> same_entry_key e (entry_of fm)) tbl @ [entry_of fm]
      else tbl)"

definition switch_table :: "out_msg list \<Rightarrow> dpid \<Rightarrow> flow_table" where
  "switch_table msgs d = foldl switch_flow_mod [] (map snd (filter (\<lambda>m. fst m = d) msgs))"

section \<open>Lookup and the pipeline\<close>

fun best_entry :: "flow_entry \<Rightarrow> flow_entry list \<Rightarrow> flow_entry" where
  "best_entry e [] = e"
| "best_entry e (e' # es) = best_entry (if fe_priority e < fe_priority e' then e' else e) es"

definition table_lookup :: "flow_table \<Rightarrow> 8 word \<Rightarrow> packet \<Rightarrow> flow_entry option" where
  "table_lookup tbl tid pkt =
     (case filter (\<lambda>e. fe_table e = tid \<and> match_packet (fe_match e) pkt) tbl of
        [] \<Rightarrow> None
      | e # es \<Rightarrow> Some (best_entry e es))"

partial_function (option) pipeline ::
  "flow_table \<Rightarrow> 8 word \<Rightarrow> packet \<Rightarrow> ofp_action list \<Rightarrow> (32 word \<times> packet) list option" where
  "pipeline tbl tid pkt aset =
     (case table_lookup tbl tid pkt of
        None \<Rightarrow> Some []
      | Some e \<Rightarrow>
          (case foldl apply_instruction (pkt, aset, []) (fe_instructions e) of
             (q, aset', outs) \<Rightarrow>
               (case goto_of (fe_instructions e) of
                  None \<Rightarrow> Some (outs @ snd (exec_actions q (action_set_order aset')))
                | Some t \<Rightarrow> Option.bind (pipeline tbl t q aset') (\<lambda>outs'. Some (outs @ outs')))))"

definition goto_forward :: "flow_entry \<Rightarrow> bool" where
  "goto_forward e = (case goto_of (fe_instructions e) of None \<Rightarrow> True | Some t \<Rightarrow> fe_table e < t)"

section \<open>Lemmas\<close>

lemma best_entry_in: "best_entry e es \<in> set (e # es)"
  by (induction e es rule: best_entry.induct) auto

lemma table_lookup_SomeD:
  "table_lookup tbl tid pkt = Some e \<Longrightarrow> e \<in> set tbl \<and> fe_table e = tid \<and> match_packet (fe_match e) pkt"
proof -
  assume l: "table_lookup tbl tid pkt = Some e"
  then obtain e0 es where f: "filter (\<lambda>e. fe_table e = tid \<and> match_packet (fe_match e) pkt) tbl = e0 # es"
      and e: "e = best_entry e0 es"
    by (auto simp: table_lookup_def split: list.splits)
  from e have "e \<in> set (e0 # es)" using best_entry_in by simp
  then have "e \<in> set (filter (\<lambda>e. fe_table e = tid \<and> match_packet (fe_match e) pkt) tbl)"
    by (simp only: f)
  then show ?thesis by simp
qed

lemma goto_of_SomeD: "goto_of ins = Some t \<Longrightarrow> OFPInstructionGotoTable t \<in> set ins"
  by (induction ins rule: goto_of.induct) auto

lemma goto_forward_entry_of: "flow_add_accepted fm \<Longrightarrow> goto_forward (entry_of fm)"
  by (auto simp: goto_forward_def entry_of_def flow_add_accepted_def flow_mod_wf_def list_all_iff
      split: option.split dest!: goto_of_SomeD)

lemma switch_flow_mod_goto_forward:
  "list_all goto_forward tbl \<Longrightarrow> list_all goto_forward (switch_flow_mod tbl fm)"
  by (auto simp: switch_flow_mod_def goto_forward_entry_of list_all_iff)

lemma switch_flow_mods_goto_forward:
  "list_all goto_forward tbl \<Longrightarrow> list_all goto_forward (foldl switch_flow_mod tbl fms)"
  by (induction fms arbitrary: tbl) (simp_all add: switch_flow_mod_goto_forward)

lemma pipeline_total:
  assumes "list_all goto_forward tbl"
  shows "\<exists>outs. pipeline tbl tid pkt aset = Some outs"
proof (induction "256 - unat tid" arbitrary: tid pkt aset rule: less_induct)
  case less
  show ?case
  proof (cases "table_lookup tbl tid pkt")
    case None
    then show ?thesis by (simp add: pipeline.simps)
  next
    case (Some e)
    then have e: "e \<in> set tbl" "fe_table e = tid" by (auto dest: table_lookup_SomeD)
    obtain q aset' outs where run: "foldl apply_instruction (pkt, aset, []) (fe_instructions e) = (q, aset', outs)"
      by (cases "foldl apply_instruction (pkt, aset, []) (fe_instructions e)") auto
    show ?thesis
    proof (cases "goto_of (fe_instructions e)")
      case None
      with Some run show ?thesis by (simp add: pipeline.simps)
    next
      case (Some t)
      from assms e Some have "tid < t" by (auto simp: list_all_iff goto_forward_def)
      then have "256 - unat t < 256 - unat tid"
        using unsigned_less [of t, where 'a = nat] by (simp add: word_less_nat_alt)
      then obtain outs' where "pipeline tbl t q aset' = Some outs'" using less by blast
      with \<open>table_lookup tbl tid pkt = Some e\<close> run Some show ?thesis by (simp add: pipeline.simps)
    qed
  qed
qed

lemma switch_flow_mods_split:
  "foldl switch_flow_mod t ms =
     filter (\<lambda>e. \<forall>m \<in> set ms. flow_add_accepted m \<longrightarrow> \<not> same_entry_key e (entry_of m)) t
     @ foldl switch_flow_mod [] ms"
proof (induction ms rule: rev_induct)
  case Nil
  then show ?case by simp
next
  case (snoc m ms)
  then show ?case by (simp add: switch_flow_mod_def) (auto intro!: filter_cong)
qed

lemma switch_flow_mods_entries:
  "e \<in> set (foldl switch_flow_mod [] ms) \<Longrightarrow> \<exists>m \<in> set ms. flow_add_accepted m \<and> e = entry_of m"
proof (induction ms arbitrary: e rule: rev_induct)
  case Nil
  then show ?case by simp
next
  case (snoc m ms)
  then show ?case by (auto simp: switch_flow_mod_def split: if_splits)
qed

lemma switch_flow_mods_idem:
  "foldl switch_flow_mod (foldl switch_flow_mod t ms) ms = foldl switch_flow_mod t ms"
proof -
  let ?keep = "\<lambda>e. \<forall>m \<in> set ms. flow_add_accepted m \<longrightarrow> \<not> same_entry_key e (entry_of m)"
  have none: "filter ?keep (foldl switch_flow_mod [] ms) = []"
    by (auto simp: filter_empty_conv same_entry_key_def dest!: switch_flow_mods_entries)
  have "foldl switch_flow_mod (foldl switch_flow_mod t ms) ms
      = filter ?keep (foldl switch_flow_mod t ms) @ foldl switch_flow_mod [] ms"
    by (rule switch_flow_mods_split)
  also have "\<dots> = filter ?keep (filter ?keep t @ foldl switch_flow_mod [] ms) @ foldl switch_flow_mod [] ms"
    by (subst switch_flow_mods_split [of t]) (rule refl)
  also have "\<dots> = filter ?keep t @ foldl switch_flow_mod [] ms"
    by (simp add: none)
  also have "\<dots> = foldl switch_flow_mod t ms"
    by (rule switch_flow_mods_split [symmetric])
  finally show ?thesis .
qed

lemma switch_flow_mods_replicate:
  "foldl switch_flow_mod t (concat (replicate (Suc k) ms)) = foldl switch_flow_mod t ms"
proof (induction k arbitrary: t)
  case 0
  then show ?case by simp
next
  case (Suc k)
  have "foldl switch_flow_mod t (concat (replicate (Suc (Suc k)) ms))
      = foldl switch_flow_mod (foldl switch_flow_mod t ms) (concat (replicate (Suc k) ms))"
    by simp
  also have "\<dots> = foldl switch_flow_mod (foldl switch_flow_mod t ms) ms"
    by (rule Suc.IH)
  also have "\<dots> = foldl switch_flow_mod t ms" by (rule switch_flow_mods_idem)
  finally show ?case .
qed

lemma reachable_msgs_replicate:
  assumes "reachable net app s" and "distinct (map dp_id net)" and "dp \<in> set net"
  shows "\<exists>k. filter (\<lambda>m. fst m = dp_id dp) (ctrl_sent s)
           = concat (replicate k (sent (handler_datapath app \<lparr>ev_msg_datapath = dp\<rparr>)))"
  using assms(1)
proof (induction rule: reachable.induct)
  case init
  show ?case by (rule exI [of _ 0]) (simp add: ctrl_init_def)
next
  case (attach s dp')
  then obtain k where k: "filter (\<lambda>m. fst m = dp_id dp) (ctrl_sent s)
      = concat (replicate k (sent (handler_datapath app \<lparr>ev_msg_datapath = dp\<rparr>)))" by blast
  from attach.hyps(1) have app: "ctrl_app s = app" by (auto dest: reachable_ctrl_inv simp: ctrl_inv_def)
  show ?case
  proof (cases "dp_id dp' = dp_id dp")
    case True
    from assms(2) have "inj_on dp_id (set net)" unfolding distinct_map by (rule conjunct2)
    from inj_onD [OF this True attach.hyps(2) assms(3)] have "dp' = dp" .
    with k app show ?thesis
      by (intro exI [of _ "Suc k"]) (simp add: filter_sent_handler replicate_append_same [symmetric])
  next
    case False
    with k app show ?thesis by (intro exI [of _ k]) (simp add: filter_sent_handler)
  qed
qed


lemma same_entry_key_entry_of:
  "same_entry_key (entry_of a) (entry_of b) \<longleftrightarrow>
     (table_id a, priority a, fm_match a) = (table_id b, priority b, fm_match b)"
  by (auto simp: same_entry_key_def entry_of_def)

lemma switch_flow_mods_distinct:
  assumes "\<forall>m \<in> set ms. flow_add_accepted m"
    and "distinct (map (\<lambda>m. (table_id m, priority m, fm_match m)) ms)"
  shows "foldl switch_flow_mod [] ms = map entry_of ms"
  using assms
proof (induction ms rule: rev_induct)
  case Nil
  then show ?case by simp
next
  case (snoc m ms)
  then have "filter (\<lambda>e. \<not> same_entry_key e (entry_of m)) (map entry_of ms) = map entry_of ms"
    by (force simp: filter_id_conv same_entry_key_entry_of image_iff)
  with snoc show ?case by (simp add: switch_flow_mod_def)
qed

lemma reachable_sent_rule:
  "reachable net app s \<Longrightarrow> m \<in> set (ctrl_sent s) \<Longrightarrow> \<exists>r. snd m = rule_flow_mod r"
proof (induction rule: reachable.induct)
  case init
  then show ?case by (simp add: ctrl_init_def)
next
  case (attach s dp)
  show ?case
  proof (cases "m \<in> set (ctrl_sent s)")
    case True
    with attach.IH show ?thesis by blast
  next
    case False
    with attach.prems have "m \<in> set (sent (handler_datapath (ctrl_app s) \<lparr>ev_msg_datapath = dp\<rparr>))"
      by simp
    then obtain ports r where "m = (dp_id (ev_msg_datapath \<lparr>ev_msg_datapath = dp\<rparr>), rule_flow_mod r)"
      by (rule handler_datapath_sent_rule)
    then show ?thesis by auto
  qed
qed

lemma pipeline_rule_entries:
  assumes "\<forall>e \<in> set tbl. \<exists>r. e = entry_of (rule_flow_mod r)"
  shows "pipeline tbl tid pkt [] = Some []"
proof (cases "table_lookup tbl tid pkt")
  case None
  then show ?thesis by (simp add: pipeline.simps)
next
  case (Some e)
  with assms obtain r where "e = entry_of (rule_flow_mod r)" by (blast dest: table_lookup_SomeD)
  with Some show ?thesis
    by (cases "rule_kind r")
       (simp_all add: pipeline.simps entry_of_def rule_flow_mod_def action_set_order_def)
qed

lemma switch_table_handler:
  assumes "ofproto_port_no dp = Some ports"
  shows "switch_table (sent (handler_datapath app \<lparr>ev_msg_datapath = dp\<rparr>)) (dp_id dp)
           = foldl switch_flow_mod [] (map rule_flow_mod (expected_rules ports (rev (app_value_pair app))))"
  using assms by (simp add: switch_table_def handler_datapath_def install_vpn_flow_ports
      to_msgs_def comp_def)

lemma switch_table_reachable:
  assumes "reachable net app s" and "distinct (map dp_id net)" and "dp \<in> set net"
  shows "switch_table (ctrl_sent s) (dp_id dp) = []
    \<or> switch_table (ctrl_sent s) (dp_id dp) = switch_table (sent (handler_datapath app \<lparr>ev_msg_datapath = dp\<rparr>)) (dp_id dp)"
proof -
  let ?H = "sent (handler_datapath app \<lparr>ev_msg_datapath = dp\<rparr>)"
  from reachable_msgs_replicate [OF assms] obtain k
    where k: "filter (\<lambda>m. fst m = dp_id dp) (ctrl_sent s) = concat (replicate k ?H)" by blast
  have H: "filter (\<lambda>m. fst m = dp_id dp) ?H = ?H" by (simp add: filter_sent_handler)
  show ?thesis
  proof (cases k)
    case 0
    with k show ?thesis by (simp add: switch_table_def)
  next
    case (Suc k')
    with k have "switch_table (ctrl_sent s) (dp_id dp) = foldl switch_flow_mod [] (concat (replicate (Suc k') (map snd ?H)))"
      by (simp add: switch_table_def map_concat)
    also have "\<dots> = foldl switch_flow_mod [] (map snd ?H)" by (rule switch_flow_mods_replicate)
    finally show ?thesis using H by (simp add: switch_table_def)
  qed
qed

section \<open>Properties\<close>

text \<open>
  C28. What every switch holds and does, in every reachable state of the controller. Take
  a network with distinct datapath ids, and a switch of it with a readable port table
  listing only physical or local ports, distinct port numbers, and ports each claimed by at
  most one group.
  \<^item> Its flow table is empty before its first attach. After that it holds exactly one
    entry per rule of the specification \<open>expected_rules\<close>, however often it re-attached:
    the controller resends every rule on each attach, but each flow-add replaces the entry
    with the same table, priority and match, so messages are additive and flow entries are
    not (spec sections 4.3 and 8).
  \<^item> Whatever that table holds, every packet entering the switch is dropped. No entry
    outputs or continues to another table (C25), and a table miss drops.
\<close>

theorem reachable_switch_tables:
  assumes "reachable net app s" and "distinct (map dp_id net)" and "dp \<in> set net"
    and "ofproto_port_no dp = Some ports" and "valid_port_table dp"
    and "distinct (map port_no ports)" and "ports_unambiguous ports (app_value_pair app)"
  shows "(switch_table (ctrl_sent s) (dp_id dp) = []
          \<or> switch_table (ctrl_sent s) (dp_id dp)
              = map (entry_of \<circ> rule_flow_mod) (expected_rules ports (rev (app_value_pair app))))
    \<and> pipeline (switch_table (ctrl_sent s) (dp_id dp)) 0 pkt [] = Some []"
proof
  let ?rs = "expected_rules ports (rev (app_value_pair app))"
  have acc: "\<forall>m \<in> set (map rule_flow_mod ?rs). flow_add_accepted m"
  proof
    fix fm assume fm: "fm \<in> set (map rule_flow_mod ?rs)"
    then have "(dp_id dp, fm) \<in> set (sent (handler_datapath app \<lparr>ev_msg_datapath = dp\<rparr>))"
      using assms(4) by (auto simp: handler_datapath_def install_vpn_flow_ports to_msgs_def)
    with assms(5) have "flow_mod_wf fm" by (auto dest: handler_datapath_sent_wf)
    moreover from fm have "command fm = OFPFC_ADD" by (auto simp: rule_flow_mod_def)
    ultimately show "flow_add_accepted fm" by (simp add: flow_add_accepted_def)
  qed
  from assms(7) have "ports_unambiguous ports (rev (app_value_pair app))" by simp
  with assms(6) have "distinct (map rule_in_port ?rs)" by (rule expected_rules_distinct)
  then have "distinct (map (\<lambda>m. (table_id m, priority m, fm_match m)) (map rule_flow_mod ?rs))"
    by (auto simp: distinct_map inj_on_def rule_flow_mod_def)
  with acc have "foldl switch_flow_mod [] (map rule_flow_mod ?rs) = map entry_of (map rule_flow_mod ?rs)"
    by (rule switch_flow_mods_distinct)
  with switch_table_reachable [OF assms(1-3)] switch_table_handler [OF assms(4)]
  show "switch_table (ctrl_sent s) (dp_id dp) = []
      \<or> switch_table (ctrl_sent s) (dp_id dp) = map (entry_of \<circ> rule_flow_mod) ?rs"
    by simp
next
  have "\<forall>e \<in> set (switch_table (ctrl_sent s) (dp_id dp)). \<exists>r. e = entry_of (rule_flow_mod r)"
    using assms(1) by (fastforce simp: switch_table_def dest!: switch_flow_mods_entries dest: reachable_sent_rule)
  then show "pipeline (switch_table (ctrl_sent s) (dp_id dp)) 0 pkt [] = Some []"
    by (rule pipeline_rule_entries)
qed

end
