(* ===== verification/Logging.thy ===== *)
theory Logging
  imports Dispatcher Topology
begin

text \<open>
  The logging of \<open>src/vlan_proactive.py\<close>. The module logger (line 64) receives a debug
  record for every port that is tagged (lines 122--123 and 140--141), an info banner when
  the handler starts (line 187) and an empty info record when the loop ends (line 176).
  The handler's observable behaviour is therefore one trace in which log records and
  \<open>send_msg\<close> calls are interleaved in program order. The definitions below are those of
  \<open>Rule_Builder\<close> and \<open>Dispatcher\<close> with their logging calls put back; the lemmas show
  that erasing the log records gives the send-only model back, so every theorem about
  the latter holds of the program with logging.

  Python's logging levels are numbers (DEBUG 10, INFO 20, WARNING 30, ERROR 40,
  CRITICAL 50) and a record reaches the output when its level is at least the logger's
  effective level; \<open>log_level\<close> is ordered by that number.
\<close>

section \<open>Log records and the trace\<close>

datatype log_level = DEBUG | INFO | WARNING | ERROR | CRITICAL

fun level_no :: "log_level \<Rightarrow> nat" where
  "level_no DEBUG = 10"
| "level_no INFO = 20"
| "level_no WARNING = 30"
| "level_no ERROR = 40"
| "level_no CRITICAL = 50"

instantiation log_level :: linorder
begin

definition less_eq_log_level :: "log_level \<Rightarrow> log_level \<Rightarrow> bool" where
  "less_eq_log_level a b = (level_no a \<le> level_no b)"

definition less_log_level :: "log_level \<Rightarrow> log_level \<Rightarrow> bool" where
  "less_log_level a b = (level_no a < level_no b)"

instance
proof
  fix x y z :: log_level
  show "x < y \<longleftrightarrow> x \<le> y \<and> \<not> y \<le> x"
    by (auto simp: less_eq_log_level_def less_log_level_def)
  show "x \<le> x"
    by (simp add: less_eq_log_level_def)
  show "x \<le> y \<Longrightarrow> y \<le> z \<Longrightarrow> x \<le> z"
    by (simp add: less_eq_log_level_def)
  show "x \<le> y \<Longrightarrow> y \<le> x \<Longrightarrow> x = y"
    by (cases x; cases y) (simp_all add: less_eq_log_level_def)
  show "x \<le> y \<or> y \<le> x"
    by (auto simp: less_eq_log_level_def)
qed

end

datatype io_event = LogRecord log_level string | Send out_msg

type_synonym 'a ryu_io = "(io_event, 'a) prog"

definition logger_debug :: "string \<Rightarrow> unit ryu_io" where
  "logger_debug msg = emit (LogRecord DEBUG msg)"

definition logger_info :: "string \<Rightarrow> unit ryu_io" where
  "logger_info msg = emit (LogRecord INFO msg)"

text \<open>A program of the send-only model, its \<open>send_msg\<close> calls seen in the trace.\<close>

definition lift_io :: "'a ryu \<Rightarrow> 'a ryu_io" where
  "lift_io m = (outcome m, map Send (sent m))"

text \<open>\<open>%s\<close> of a Python \<open>int\<close>: its decimal digits.\<close>

definition py_str_int :: "int \<Rightarrow> string" where
  "py_str_int i = (if i < 0 then ''-'' @ nat_str (nat (- i)) else nat_str (nat i))"

section \<open>The code, with its logging\<close>

definition customer_tag_msg :: "port \<Rightarrow> int \<Rightarrow> string" where
  "customer_tag_msg port vlan_id =
     ''--- Tagging port=> '' @ nat_str (unat (port_no port)) @ '' with VLAN ID => ''
     @ py_str_int vlan_id @ '' with Label => '' @ name port"

definition tag_customer_vlan_io :: "string list \<Rightarrow> int \<Rightarrow> datapath \<Rightarrow> unit ryu_io" where
  "tag_customer_vlan_io labels vlan_id datapath =
     (case get_port_number labels datapath of
        Inl e \<Rightarrow> raise e
      | Inr None \<Rightarrow> ret ()
      | Inr (Some port) \<Rightarrow>
          bindE (logger_debug (customer_tag_msg port vlan_id))
            (\<lambda>_. lift_io (tag_vlan (port_no port) vlan_id datapath)))"

definition trunk_tag_msg :: "port \<Rightarrow> int \<Rightarrow> string" where
  "trunk_tag_msg port trunk_id =
     ''--- Tagging port=> '' @ nat_str (unat (port_no port)) @ '' with TRUNK_ID => ''
     @ py_str_int trunk_id @ '' with Label => '' @ name port"

definition tag_trunk_vlan_io :: "string list \<Rightarrow> int \<Rightarrow> datapath \<Rightarrow> unit ryu_io" where
  "tag_trunk_vlan_io labels trunk_id datapath =
     (case get_port_number labels datapath of
        Inl e \<Rightarrow> raise e
      | Inr None \<Rightarrow> ret ()
      | Inr (Some port) \<Rightarrow>
          bindE (logger_debug (trunk_tag_msg port trunk_id))
            (\<lambda>_. lift_io (tag_trunk (port_no port) trunk_id datapath)))"

fun install_loop_io :: "datapath \<Rightarrow> int \<Rightarrow> config \<Rightarrow> unit ryu_io" where
  "install_loop_io datapath trunk_id [] = ret ()"
| "install_loop_io datapath trunk_id ((key, labels) # items) =
     (if py_contains ''tenda1'' key then
        bindE (tag_customer_vlan_io labels 1 datapath) (\<lambda>_. install_loop_io datapath trunk_id items)
      else if py_contains ''tenda2'' key then
        bindE (tag_customer_vlan_io labels 2 datapath) (\<lambda>_. install_loop_io datapath trunk_id items)
      else if py_contains ''trunk'' key then
        bindE (tag_trunk_vlan_io labels (trunk_id + 1) datapath)
          (\<lambda>_. install_loop_io datapath (trunk_id + 1) items)
      else install_loop_io datapath trunk_id items)"

definition install_vpn_flow_io :: "vlan_app \<Rightarrow> datapath \<Rightarrow> unit ryu_io" where
  "install_vpn_flow_io self datapath =
     bindE (install_loop_io datapath 1 (rev (app_value_pair self))) (\<lambda>_. logger_info '''')"

definition handler_datapath_io :: "vlan_app \<Rightarrow> switch_features_event \<Rightarrow> unit ryu_io" where
  "handler_datapath_io self event =
     bindE (logger_info ''++++++ Installing VLAN ++++++'')
       (\<lambda>_. install_vpn_flow_io self (ev_msg_datapath event))"

text \<open>
  The tagging calls of \<open>Dispatcher.vpn_calls\<close>, run with their logging. A trunk call's
  debug record prints the trunk id it is given, so unlike the send-only model this one
  shows which ids the loop passes.
\<close>

fun run_call_io :: "datapath \<Rightarrow> tag_call \<Rightarrow> unit ryu_io" where
  "run_call_io dp (CustomerCall labels v) = tag_customer_vlan_io labels v dp"
| "run_call_io dp (TrunkCall labels t) = tag_trunk_vlan_io labels t dp"

fun run_calls_io :: "datapath \<Rightarrow> tag_call list \<Rightarrow> unit ryu_io" where
  "run_calls_io dp [] = ret ()"
| "run_calls_io dp (c # cs) = bindE (run_call_io dp c) (\<lambda>_. run_calls_io dp cs)"

section \<open>Reading the trace\<close>

text \<open>The messages of a trace, and the log output at a threshold level.\<close>

fun sends_of :: "io_event list \<Rightarrow> out_msg list" where
  "sends_of [] = []"
| "sends_of (Send m # es) = m # sends_of es"
| "sends_of (LogRecord l msg # es) = sends_of es"

definition strip_log :: "'a ryu_io \<Rightarrow> 'a ryu" where
  "strip_log m = (outcome m, sends_of (sent m))"

fun log_output :: "log_level \<Rightarrow> io_event list \<Rightarrow> string list" where
  "log_output thr [] = []"
| "log_output thr (Send m # es) = log_output thr es"
| "log_output thr (LogRecord l msg # es) = (if thr \<le> l then msg # log_output thr es else log_output thr es)"

text \<open>
  A tagging record announces a message when it names the input port the message's rule
  matches. A trace is announced when it is a sequence of debug records each followed
  at once by the message it announces.
\<close>

definition announces :: "string \<Rightarrow> out_msg \<Rightarrow> bool" where
  "announces msg m =
     (\<exists>p. match_in_port (fm_match (snd m)) = Some p
          \<and> prefix (''--- Tagging port=> '' @ nat_str (unat p) @ '' with '') msg)"

fun announced :: "io_event list \<Rightarrow> bool" where
  "announced [] = True"
| "announced (LogRecord DEBUG msg # Send m # es) = (announces msg m \<and> announced es)"
| "announced es = False"

section \<open>Lemmas\<close>

named_theorems io_simps "equations that evaluate traced programs"

lemma sends_of_append [simp]: "sends_of (xs @ ys) = sends_of xs @ sends_of ys"
  by (induction xs rule: sends_of.induct) simp_all

lemma sends_of_map_Send [simp]: "sends_of (map Send ms) = ms"
  by (induction ms) simp_all

lemma log_output_append [simp]: "log_output thr (xs @ ys) = log_output thr xs @ log_output thr ys"
  by (induction thr xs rule: log_output.induct) simp_all

lemma strip_log_bindE: "strip_log (bindE m f) = bindE (strip_log m) (\<lambda>x. strip_log (f x))"
  by (cases m) (simp add: strip_log_def bindE_def outcome_def sent_def split: sum.split prod.split)

lemma strip_log_simps [simp, io_simps]:
  "strip_log (lift_io m) = m" "strip_log (ret x) = ret x" "strip_log (raise e) = raise e"
  "strip_log (logger_debug msg) = ret ()" "strip_log (logger_info msg) = ret ()"
  by (simp_all add: strip_log_def lift_io_def logger_debug_def logger_info_def prog_eq_iff prog_simps)

lemma outcome_lift_io [simp]: "outcome (lift_io m) = outcome m"
  and sent_lift_io [simp]: "sent (lift_io m) = map Send (sent m)"
  by (simp_all add: lift_io_def)

lemma logger_simps [io_simps]:
  "logger_debug msg = (Inr (), [LogRecord DEBUG msg])"
  "logger_info msg = (Inr (), [LogRecord INFO msg])"
  by (simp_all add: logger_debug_def logger_info_def emit_eq)

lemma strip_log_pair [simp]: "strip_log (r, out) = (r, sends_of out)"
  by (simp add: strip_log_def)

lemma outcome_sent_collapse [simp]: "(outcome m, sent m) = m"
  by (simp add: outcome_def sent_def)

lemma outcome_strip_log [simp]: "outcome (strip_log m) = outcome m"
  by (simp add: strip_log_def)

lemma tag_customer_vlan_io_strip:
  "strip_log (tag_customer_vlan_io labels v dp) = tag_customer_vlan labels v dp"
  by (simp add: tag_customer_vlan_io_def tag_customer_vlan_def strip_log_bindE
      split: sum.split option.split)

lemma tag_trunk_vlan_io_strip:
  "strip_log (tag_trunk_vlan_io labels t dp) = tag_trunk_vlan labels t dp"
  by (simp add: tag_trunk_vlan_io_def tag_trunk_vlan_def strip_log_bindE
      split: sum.split option.split)

lemma install_loop_io_strip: "strip_log (install_loop_io dp t items) = install_loop dp t items"
  by (induction dp t items rule: install_loop_io.induct)
    (simp_all add: strip_log_bindE tag_customer_vlan_io_strip tag_trunk_vlan_io_strip)

lemma install_loop_io_calls: "install_loop_io dp t items = run_calls_io dp (vpn_calls t items)"
  by (induction dp t items rule: install_loop_io.induct) simp_all

lemma announced_append [intro]: "announced xs \<Longrightarrow> announced ys \<Longrightarrow> announced (xs @ ys)"
  by (induction xs rule: announced.induct) simp_all

lemma customer_tag_msg_announces [simp]:
  "announces (customer_tag_msg p v) (d, rule_flow_mod \<lparr>rule_in_port = port_no p, rule_kind = k\<rparr>)"
  by (simp add: announces_def rule_flow_mod_def customer_tag_msg_def)

lemma trunk_tag_msg_announces [simp]:
  "announces (trunk_tag_msg p t) (d, rule_flow_mod \<lparr>rule_in_port = port_no p, rule_kind = k\<rparr>)"
  by (simp add: announces_def rule_flow_mod_def trunk_tag_msg_def)

lemma tag_customer_vlan_io_announced: "announced (sent (tag_customer_vlan_io labels v dp))"
  by (simp add: tag_customer_vlan_io_def tag_vlan_eq logger_simps split: sum.split option.split)

lemma tag_trunk_vlan_io_announced: "announced (sent (tag_trunk_vlan_io labels t dp))"
  by (simp add: tag_trunk_vlan_io_def tag_trunk_eq logger_simps split: sum.split option.split)

lemma install_loop_io_announced: "announced (sent (install_loop_io dp t items))"
  by (induction dp t items rule: install_loop_io.induct)
    (auto simp: sent_bindE tag_customer_vlan_io_announced tag_trunk_vlan_io_announced
      split: sum.split)

lemma install_loop_io_outcome:
  "outcome (install_loop_io dp t items) = outcome (install_loop dp t items)"
  by (metis install_loop_io_strip outcome_strip_log)

lemma install_vpn_flow_io_strip: "strip_log (install_vpn_flow_io self dp) = install_vpn_flow self dp"
  by (simp add: install_vpn_flow_io_def install_vpn_flow_def strip_log_bindE install_loop_io_strip)

lemma handler_datapath_io_sent:
  "sent (handler_datapath_io self ev) =
     LogRecord INFO ''++++++ Installing VLAN ++++++''
     # sent (install_loop_io (ev_msg_datapath ev) 1 (rev (app_value_pair self)))
     @ (if outcome (handler_datapath self ev) = Inr () then [LogRecord INFO ''''] else [])"
  by (simp add: handler_datapath_io_def install_vpn_flow_io_def handler_datapath_def
      install_vpn_flow_def sent_bindE install_loop_io_outcome logger_simps split: sum.split)

lemma announced_sends_of:
  "sends_of (sent (install_loop_io dp t items)) = sent (install_loop dp t items)"
  by (metis install_loop_io_strip strip_log_def sent_simps(1))

lemma announced_log_output:
  "announced es \<Longrightarrow> DEBUG < thr \<Longrightarrow> log_output thr es = []"
  by (induction es rule: announced.induct) (auto simp: less_eq_log_level_def less_log_level_def)

section \<open>Properties\<close>

text \<open>
  C5. The trunk counter, as the log shows it. The loop makes exactly the tagging calls of
  \<open>vpn_calls\<close>, and the trunk ids it passes are \<open>t + 1, t + 2, \<dots>\<close>, one per trunk group in
  processing order. Each id is printed in the call's debug record (\<open>TRUNK_ID => \<dots>\<close>),
  though no rule carries it (C10). From the initial value 1, the first trunk group gets
  id 2.
\<close>

theorem install_loop_io_trunk_ids:
  "install_loop_io dp t items = run_calls_io dp (vpn_calls t items)
   \<and> trunk_ids (vpn_calls t items) = [t + 1 .. t + int (trunk_groups items)]"
  by (simp add: install_loop_io_calls trunk_ids_vpn_calls)

text \<open>
  Logging does not change what the handler does to the network: erasing the log
  records from the handler's trace leaves exactly the outcome and the messages of the
  send-only model of \<open>handler_datapath\<close>, so every property proved of that model holds of
  the program with its logging calls.
\<close>

theorem handler_datapath_io_refines:
  "strip_log (handler_datapath_io self ev) = handler_datapath self ev"
  by (simp add: handler_datapath_io_def handler_datapath_def strip_log_bindE
      install_vpn_flow_io_strip)

text \<open>
  C27. The shape of the handler's trace, on every path. It opens with the info banner.
  Then each message sent is preceded immediately by a debug record naming the input port
  of the rule it carries, and no other record is made: a group whose labels resolve to
  no port leaves no trace in the log. The closing empty info record is made exactly when
  the handler does not raise.
\<close>

theorem handler_datapath_io_trace:
  "\<exists>body. sent (handler_datapath_io self ev) =
       LogRecord INFO ''++++++ Installing VLAN ++++++'' # body
       @ (if outcome (handler_datapath self ev) = Inr () then [LogRecord INFO ''''] else [])
     \<and> announced body \<and> sends_of body = sent (handler_datapath self ev)"
  by (simp add: handler_datapath_io_sent install_loop_io_announced announced_sends_of
      handler_datapath_def install_vpn_flow_def)

text \<open>
  The log at any threshold above DEBUG (Python's default levels included). Up to
  INFO it holds the banner, followed by the empty record when provisioning succeeds and
  by nothing when it raised; above INFO it is empty. Which ports were tagged, and which
  groups found no port, are logged only at DEBUG.
\<close>

theorem handler_datapath_io_log_output:
  assumes "DEBUG < thr"
  shows "log_output thr (sent (handler_datapath_io self ev)) =
     (if thr \<le> INFO then
        ''++++++ Installing VLAN ++++++'' # (if outcome (handler_datapath self ev) = Inr () then [''''] else [])
      else [])"
  using assms
  by (simp add: handler_datapath_io_sent announced_log_output install_loop_io_announced)

end
