(* ===== verification/Spec2Isabelle.thy ===== *)
theory Spec2Isabelle
  imports Connection Topology Forwarding Requirement Switch_Table Logging
begin

text \<open>
  \<^bold>\<open>Proactive Q-in-Q VLAN controller: a verification library.\<close>

  \<^bold>\<open>The program.\<close> \<open>src/vlan_proactive.py\<close> is a Ryu application. When a switch
  attaches (Ryu's \<open>EventOFPSwitchFeatures\<close>), \<open>handler_datapath\<close> runs
  \<open>install_vpn_flow\<close>. That walks the configuration dictionary \<open>value_pair\<close> in reverse order
  and, for each tenant or trunk group, resolves the group's port labels to one port of the
  switch (\<open>_get_port_number\<close>). It then builds a tenant rule (\<open>tag_vlan\<close>) or a trunk rule
  (\<open>tag_trunk\<close>) and sends it as an \<open>OFPFlowMod\<close> (\<open>_add_flow\<close>). The module docstring
  (lines 1--52) states the requirement as pseudocode. \<open>src/topo.py\<close> is the Mininet test
  network. The flow of control is dispatcher, then resolver, then builder, then installer,
  then the switch. Rules are never removed, and nothing is shared between attach events.

  \<^bold>\<open>Theories.\<close>
  \<^item> \<open>VLan_Prelude\<close>: Python's \<open>AttributeError\<close>. A writer/exception monad (\<open>ret\<close>,
    \<open>raise\<close>, \<open>emit\<close>, \<open>bindE\<close>) for code that sends messages and may raise half way: messages
    sent before an exception stay sent. Python's \<open>in\<close> on strings (\<open>py_contains\<close>),
    proved equal to \<open>sublist\<close>. Generic lemmas on \<open>find\<close> and \<open>mset\<close>.
  \<^item> \<open>OpenFlow\<close>: the Ryu objects the code builds.
    \<^item> \<open>port\<close> and \<open>datapath\<close>: the datapath's id and the attribute
      \<open>datapath.ofproto.port_no\<close>, \<open>None\<close> when missing.
    \<^item> \<open>OFPMatch\<close> and its setters, and the 16-bit VLAN-id wire form.
    \<^item> Actions and instructions: output and goto-table too, which the code never uses.
    \<^item> The \<open>flow_mod\<close> record, with OpenFlow 1.3 field widths as words; \<open>send_msg\<close>.
    \<^item> The two VLAN Ethertypes of lines 67--68.
    \<^item> \<open>flow_mod_wf\<close>, the checks an OpenFlow 1.3 switch makes before accepting a flow-add.
  \<^item> \<open>Port_Resolver\<close>: \<open>is_switch_label\<close> and \<open>get_port_number\<close> (lines 146--159) and the
    reference specification \<open>first_label_match\<close> (label-major list comprehension). The
    refinement lemma \<open>get_port_number_eq\<close> and the claims C3 and C11.
  \<^item> \<open>Config\<close>: \<open>value_pair\<close> (lines 74--76), built as Python builds a dict display
    (\<open>py_dict\<close>), and the spec's conflict checks.
  \<^item> \<open>Rule_Builder\<close>: \<open>add_flow\<close>, \<open>build_match\<close>, \<open>tag_vlan\<close>, \<open>tag_customer_vlan\<close>,
    \<open>tag_trunk\<close>, \<open>tag_trunk_vlan\<close> (lines 84--142). The abstract rule \<open>vlan_rule\<close> and its
    encoding \<open>rule_flow_mod\<close>, and \<open>group_rules\<close>. Claims C9 and C10.
  \<^item> \<open>Dispatcher\<close>: the application record, \<open>install_loop\<close> (the loop of
    \<open>install_vpn_flow\<close>, lines 164--174), \<open>install_vpn_flow\<close> and \<open>handler_datapath\<close>
    (161--189). The abstract specification \<open>expected_rules\<close>, the call-sequence view
    \<open>vpn_calls\<close>, and the no-overlap condition \<open>ports_unambiguous\<close>. Claims C1, C2 and
    C4--C6.
  \<^item> \<open>Controller\<close>: Ryu's event loop as a step function \<open>dispatch\<close> on a state of sent
    messages and logged exceptions, runs of events, and the inductive \<open>reachable\<close> states
    of a network. The invariants \<open>ctrl_inv\<close> and well-formedness are proved by rule
    induction. Claims C7, C8 and C23.
  \<^item> \<open>Connection\<close>: Ryu's connection protocol as the inductive relation \<open>conn_step\<close>.
    \<^item> Its steps are connect, with the hello-time election of a version from
      \<open>OFP_VERSIONS\<close> (line 73), features reply and disconnect.
    \<^item> The handler is registered for the configuration phase only (line 184).
    \<^item> A ghost counter records handler runs per connection, and \<open>provisioned\<close>
      abstracts the state to the spec's per-switch machine.
    \<^item> Claims C17--C19 and C24.
  \<^item> \<open>Topology\<close>: \<open>MyTopo\<close> (topo.py lines 18--50) as its sequence of add calls, and the
    \<open>topos\<close> dictionary (line 53).
    \<^item> Mininet interface naming gives each switch's port table and \<open>topo_datapath\<close>.
    \<^item> The decimal parser \<open>nat_of_str\<close> and the name parser \<open>parse_intf\<close> are inverse to
      the naming.
    \<^item> Claims C20 and C26.
  \<^item> \<open>Packet_Semantics\<close>: the switch side, which is environment and not repository code.
    It gives the installed rules their meaning.
    \<^item> OpenFlow 1.3 matching of in-port, payload Ethertype and VLAN id on a stack of VLAN
      tags.
    \<^item> \<open>push_vlan\<close>, VLAN-id \<open>set_field\<close> and output as functions on packets.
    \<^item> Apply-, write- and clear-actions with the one-action-per-type action set.
    \<^item> Goto-table, and the fate of a packet: \<open>Emitted\<close> on a list of ports, which is
      dropped when the list is empty, or sent on to a next table.
  \<^item> \<open>Forwarding\<close>: what the installed rules do to traffic. Claims C12, C14--C16 and
    C25.
  \<^item> \<open>Switch_Table\<close>: the switch's flow tables, again environment.
    \<^item> Flow-adds are accepted when well-formed and replace the entry with the same table,
      priority and match.
    \<^item> \<open>switch_table\<close> is the table a switch builds from the controller's messages.
    \<^item> Lookup takes the highest-priority entry.
    \<^item> \<open>pipeline\<close> walks the tables as a \<open>partial_function (option)\<close>.
    \<^item> Claim C28.
  \<^item> \<open>Requirement\<close>: the docstring pseudocode. This covers its table \<open>req_value_pair\<close>
    and its per-key instructions (\<open>req_cust_instructions\<close> with write-actions
    [push 0x88a8, push 0x8100], and \<open>req_trunk_instructions\<close>). It holds the claim C21,
    which compares the code with the requirement, and runs the requirement itself.
  \<^item> \<open>Logging\<close>: the handler with its \<open>logger\<close> calls (lines 64, 122--123, 140--141, 176,
    187).
    \<^item> One trace of \<open>io_event\<close>s interleaves log records and sent messages in program
      order. The \<open>_io\<close> definitions are the code's functions with their logging put back.
    \<^item> Python's levels are ordered by number (an \<open>instantiation\<close> of \<open>linorder\<close>), and
      \<open>log_output\<close> is what a logger at a given threshold prints.
    \<^item> \<open>strip_log\<close> erases the records. It commutes with \<open>bindE\<close>, and gives back the
      send-only model.
    \<^item> Claims C5 and C27.
  \<^item> this theory: the cross-component claims C13 and C22, the provisioning and the
    DEBUG log of the test network, and the witnesses.

  \<^bold>\<open>Correspondence.\<close> Each Python method is one HOL definition of the same name
  (\<open>_add_flow\<close> is \<open>add_flow\<close>, \<open>_get_port_number\<close> is \<open>get_port_number\<close>). It takes the
  same arguments in the same order and returns a \<open>unit ryu\<close> program where the code sends or
  may raise. \<open>self\<close> is the record \<open>vlan_app\<close>, whose only attribute the code reads is
  \<open>value_pair\<close>. The dictionary is iterated as Python 3.8+ does: \<open>reversed\<close> insertion
  order. Under CPython 2.7 these three keys iterate the other way (\<open>tenda1\<close>,
  \<open>tenda2\<close>, \<open>trunk\<close>), so the message order of C1 holds for Python 3.8+ only; C6 shows
  that the outcome and the installed multiset do not depend on the order. The Python
  integers \<open>vlan_id\<close> and \<open>trunk_id\<close> are \<open>int\<close>. Port numbers, priorities and other
  OpenFlow fields are words of their wire width.

  \<^bold>\<open>What is proved.\<close>
  \<^item> The handler and its specification.
    \<^item> The handler refines the specification \<open>expected_rules\<close> (C1).
    \<^item> Rules on one switch never share an input port when the configuration is
      unambiguous for that switch (C2).
    \<^item> This holds on every Mininet switch with fewer than ten links, for any
      conflict-free configuration of Mininet labels (C26).
  \<^item> The resolver.
    \<^item> It follows the first-label, first-port policy (C3) and has exact error
      behaviour (C11).
    \<^item> On Mininet port tables, an interface's name resolves back to that interface. The
      switch's local port is the exception (C20).
  \<^item> Errors, counters, shapes and order.
    \<^item> A missing \<open>datapath.ofproto.port_no\<close> makes the handler send nothing and raise
      (C4).
    \<^item> The trunk counter passes 2, 3, and so on, as the debug log shows (C5), but the id
      never reaches the switch (C10).
    \<^item> Tenant rules have the shape shown in C9.
    \<^item> VLAN ids are 1 or 2 whatever the configuration, decided by the key, not by the
      position of the group; they survive the wire encoding (C13).
    \<^item> Dictionary order is irrelevant to the installed set (C6).
  \<^item> Across any run of the controller.
    \<^item> Rules stay on their own switch (C7), and switches do not interfere (C8).
    \<^item> Every message sent is a flow-add an OpenFlow 1.3 switch accepts (C23).
  \<^item> Configuration conflicts are not rejected: a port shared by a tenant group and the
    trunk gets two overlapping rules of equal priority (C12).
  \<^item> Under the OpenFlow packet semantics.
    \<^item> No tenant rule ever applies to untagged customer traffic (C14).
    \<^item> A tenant rule pushes a second 802.1Q tag, not an 802.1ad service tag (C15).
    \<^item> At most one installed rule applies to any packet (C16).
    \<^item> No installed rule outputs or continues to another table, so matching traffic is
      dropped (C25).
  \<^item> Against the docstring requirement.
    \<^item> Trunk rules match the requirement. Tenant rules match nothing it prescribes (C21).
    \<^item> On the requirement's own table, on any switch, the code installs at most one rule,
      a trunk rule (C22).
  \<^item> On the switches.
    \<^item> In every reachable state, a switch's table is empty or holds exactly one entry per
      expected rule. Either way, every packet entering the switch is dropped (C28).
  \<^item> The log.
    \<^item> Logging changes nothing the switches see: without its records, the traced handler
      is the send-only handler (lemma \<open>handler_datapath_io_refines\<close>).
    \<^item> Every message sent is announced by the debug record just before it, which names
      the rule's port. A group that finds no port logs nothing (C27).
    \<^item> Above DEBUG, the log is the banner, plus the closing record exactly when the
      handler did not raise (lemma \<open>handler_datapath_io_log_output\<close>).
  \<^item> In Ryu's connection protocol.
    \<^item> Provisioning happens at most once per connection (C17).
    \<^item> Every step that sends messages is the spec's Unprovisioned-to-Provisioned
      transition, with the handler's messages as its output (C18).
    \<^item> A switch in the configuration phase is provisioned by its features reply (C19).
    \<^item> Only switches that negotiated OpenFlow 1.3 get that far (C24).

  \<^bold>\<open>Bounds and termination.\<close> Every loop of the program runs over a finite list:
  labels, ports, configuration entries and events. Each is modelled by structural recursion
  (\<open>fun\<close>, \<open>find\<close>, \<open>foldl\<close>), needs no fuel, and is total by construction and executable.
  The one non-structural recursion, Mininet's decimal naming \<open>nat_str\<close>, terminates on
  \<open>n div 10 < n\<close>. The only loop that could fail to end is on the switch: the walk of a
  packet through the flow tables. It is defined as a \<open>partial_function (option)\<close>, with
  \<open>None\<close> for "does not return". Lemma \<open>pipeline_total\<close> proves that it returns on
  every table a switch can build, by induction on 256 minus the table id, because the switch accepts a goto-table
  only to a later table. The bound of ten links in C26 is where Mininet's names stop being
  free of substring clashes: \<open>s1-eth1\<close> occurs in \<open>s1-eth10\<close>. Concrete facts are
  evaluated by \<open>simp\<close> or \<open>code_simp\<close>.

  \<^bold>\<open>Not modelled.\<close>
  \<^item> The logger's handlers and formatting beyond the message text (time stamps, the
    logger name): they are set by \<open>ryu-manager\<close>, not by the repository.
  \<^item> The DPSet context \<open>_CONTEXTS\<close> (line 71): declared, never used.
  \<^item> Ryu library code, beyond the version election and the dispatcher phases:
    \<open>app_manager\<close>, the hello without a version bitmap, and message serialisation.
  \<^item> The packet-in handler (lines 192--207): commented out.
  \<^item> Flow-mod commands other than add, flow timeouts and counters: the controller
    sends only adds with zero timeouts.
  \<^item> The path of a packet through several switches. By C28 every switch drops every
    packet, so there is no inter-switch behaviour left to model.

  \<^item> Ryu's OpenFlow 1.3 port-description request between the features reply and the
    main phase: merged into one step of \<open>conn_step\<close>, see \<open>Connection\<close>.

  \<^bold>\<open>Plan for later work.\<close>
  (1) The pre-1.3 hello without a version bitmap.
  (2) Ryu's own exception record (\<open>LOG.exception\<close> in its event loop) in the trace,
  where the controller now keeps the exception in \<open>ctrl_errors\<close>.
\<close>

abbreviation features_of :: "datapath \<Rightarrow> switch_features_event" where
  "features_of dp \<equiv> \<lparr>ev_msg_datapath = dp\<rparr>"

abbreviation s1_dp :: datapath where
  "s1_dp \<equiv> topo_datapath MyTopo ''s1'' 1"

abbreviation s2_dp :: datapath where
  "s2_dp \<equiv> topo_datapath MyTopo ''s2'' 2"

abbreviation s3_dp :: datapath where
  "s3_dp \<equiv> topo_datapath MyTopo ''s3'' 3"

abbreviation tenant_rule :: "32 word \<Rightarrow> int \<Rightarrow> vlan_rule" where
  "tenant_rule p v \<equiv> \<lparr>rule_in_port = p, rule_kind = TenantRule v\<rparr>"

abbreviation trunk_rule :: "32 word \<Rightarrow> vlan_rule" where
  "trunk_rule p \<equiv> \<lparr>rule_in_port = p, rule_kind = TrunkRule\<rparr>"

abbreviation conflict_app :: vlan_app where
  "conflict_app \<equiv> \<lparr>app_value_pair = [(''tenda1'', [''s1-eth1'']), (''trunk'', [''s1-eth1''])]\<rparr>"

abbreviation s1_connected :: conn_state where
  "s1_connected \<equiv> (conn_init VLan_Proactive)
     \<lparr>phase := (phase (conn_init VLan_Proactive))(dp_id s1_dp \<mapsto> CONFIG_DISPATCHER),
      version := (version (conn_init VLan_Proactive))(dp_id s1_dp \<mapsto> OFP_VERSION_1_3),
      runs := (runs (conn_init VLan_Proactive))(dp_id s1_dp := 0)\<rparr>"

abbreviation s1_provisioned :: conn_state where
  "s1_provisioned \<equiv> s1_connected
     \<lparr>phase := (phase s1_connected)(dp_id s1_dp \<mapsto> MAIN_DISPATCHER),
      runs := (runs s1_connected)(dp_id s1_dp := Suc (runs s1_connected (dp_id s1_dp))),
      ctrl := dispatch (ctrl s1_connected) \<lparr>ev_msg_datapath = s1_dp\<rparr>\<rparr>"

section \<open>Lemmas spanning components\<close>

lemma s1_connected_reachable: "conn_reachable VLan_Proactive s1_connected"
  by (rule conn_reachable.step [OF conn_reachable.init conn_step.connect [where vs = "[OFP_VERSION_1_3]"]])
     (simp_all add: conn_init_def OFP_VERSIONS_def negotiate_version_def)

lemma s1_provisioned_step: "conn_step s1_connected (FeaturesReply s1_dp) s1_provisioned"
  by (rule conn_step.features) simp

lemma s1_provisioned_reachable: "conn_reachable VLan_Proactive s1_provisioned"
  using s1_connected_reachable s1_provisioned_step by (rule conn_reachable.step)

lemma s1_ports:
  "switch_port_table MyTopo ''s1'' =
     [\<lparr>port_no = 1, name = ''s1-eth1''\<rparr>, \<lparr>port_no = 2, name = ''s1-eth2''\<rparr>,
      \<lparr>port_no = 3, name = ''s1-eth3''\<rparr>, \<lparr>port_no = 4, name = ''s1-eth4''\<rparr>,
      \<lparr>port_no = OFPP_LOCAL, name = ''s1''\<rparr>]"
  by code_simp

lemma s1_expected:
  "expected_rules (switch_port_table MyTopo ''s1'') (rev value_pair) =
     [trunk_rule 4, tenant_rule 2 2, tenant_rule 1 1]"
  by code_simp

section \<open>Properties spanning components\<close>

text \<open>
  End to end on the test network (spec section 8, scenario 1), for the port tables Mininet
  would report. This assumes a readable \<open>datapath.ofproto.port_no\<close>, which the real
  datapath lacks (C4), and Python 3.8+ dictionary order. When the three switches
  of \<open>src/topo.py\<close> attach, the controller sends each switch its
  trunk rule first, then the rules of \<open>tenda2\<close> and \<open>tenda1\<close>: on \<open>s1\<close> ports 4
  (trunk), 2 (VLAN 2) and 1 (VLAN 1), on \<open>s2\<close> ports 3, 1 and 2, and on \<open>s3\<close> ports 2
  and 1 only, since no label of \<open>tenda1\<close> names a port of \<open>s3\<close>. Port 3 of \<open>s1\<close> and
  port 4 of \<open>s2\<close> get no rule.
\<close>

theorem mininet_provisioning:
  "handler_datapath VLan_Proactive (features_of s1_dp) =
     (Inr (), to_msgs s1_dp [trunk_rule 4, tenant_rule 2 2, tenant_rule 1 1])
   \<and> handler_datapath VLan_Proactive (features_of s2_dp) =
     (Inr (), to_msgs s2_dp [trunk_rule 3, tenant_rule 1 2, tenant_rule 2 1])
   \<and> handler_datapath VLan_Proactive (features_of s3_dp) =
     (Inr (), to_msgs s3_dp [trunk_rule 2, tenant_rule 1 2])"
  by code_simp

text \<open>
  C13. Tenant VLAN ids are 1 or 2 and come from the key. Every VLAN id matched by a rule
  the handler sends is 1 or 2, whatever the configuration, and the configuration has a
  group whose key the code's \<open>if\<close>/\<open>elif\<close> chain maps to that id (\<open>tenda1\<close> to 1,
  \<open>tenda2\<close> to 2). So a third tenant, or a tenant declared in another position, never gets
  id 3 or an id by table order, as spec section 4.2 asks. The id is a valid 802.1Q id: its
  16-bit wire form carries the present bit and gives the id back from its low 12 bits.
\<close>

theorem handler_vlan_ids_bounded:
  assumes "m \<in> set (sent (handler_datapath self ev))"
    and "match_vlan_vid (fm_match (snd m)) = Some v"
  shows "(v = 1 \<or> v = 2)
    \<and> (\<exists>(key, labels) \<in> set (app_value_pair self). key_kind key = Some (TenantRule v))
    \<and> vid_of_oxm (oxm_vlan_vid v) = v \<and> oxm_vlan_vid v AND OFPVID_PRESENT = OFPVID_PRESENT"
proof -
  from assms(1) obtain ports r where r: "r \<in> set (expected_rules ports (rev (app_value_pair self)))"
      and m: "m = (dp_id (ev_msg_datapath ev), rule_flow_mod r)"
    by (rule handler_datapath_sent_rule)
  from assms(2) m have k: "rule_kind r = TenantRule v"
    by (cases "rule_kind r") (simp_all add: rule_flow_mod_def)
  from expected_rules_key [OF r] k obtain key labels where g: "(key, labels) \<in> set (app_value_pair self)"
      and kk: "key_kind key = Some (TenantRule v)"
    by auto
  from kk have "v = 1 \<or> v = 2"
    by (auto simp: key_kind_def split: if_splits)
  with g kk show ?thesis by (auto simp: oxm_vlan_vid_def vid_of_oxm_def)
qed

text \<open>
  The configuration fits the test network: every label of \<open>value_pair\<close> names an
  interface of a switch of \<open>MyTopo\<close>, and it faces another switch exactly when its group
  is the trunk; tenant labels name host-facing interfaces.
\<close>

theorem value_pair_matches_topology:
  "\<forall>(key, labels) \<in> set value_pair. \<forall>l \<in> set labels.
     \<exists>sw \<in> set (topo_switches MyTopo).
       (case port_peer MyTopo sw l of
          None \<Rightarrow> False
        | Some peer \<Rightarrow> (peer \<in> set (topo_switches MyTopo) \<longleftrightarrow> key_kind key = Some TrunkRule))"
  by code_simp

text \<open>
  C22. The code does not implement the requirement's own table. Run on the docstring's
  \<open>value_pair\<close>, on any switch, the handler recognises none of the keys \<open>cust1\<close>,
  \<open>cust2\<close>, \<open>cust3\<close> (it looks for \<open>tenda1\<close> and \<open>tenda2\<close>). It sends at most one rule,
  and that rule is a trunk rule, with no VLAN match and exactly the instructions the
  pseudocode prescribes for a trunk key. The pseudocode itself asks for three customer
  rules.
\<close>

theorem requirement_table_only_trunk:
  assumes "m \<in> set (sent (handler_datapath \<lparr>app_value_pair = req_value_pair\<rparr> ev))"
  shows "match_vlan_vid (fm_match (snd m)) = None \<and> instructions (snd m) = req_trunk_instructions
    \<and> length (sent (handler_datapath \<lparr>app_value_pair = req_value_pair\<rparr> ev)) \<le> 1"
proof -
  from assms obtain ports r where r: "r \<in> set (expected_rules ports (rev req_value_pair))"
      and m: "m = (dp_id (ev_msg_datapath ev), rule_flow_mod r)"
    by (rule handler_datapath_sent_rule) simp
  have kinds: "\<forall>(key, labels) \<in> set req_value_pair. key_kind key \<in> {None, Some TrunkRule}"
    by code_simp
  from expected_rules_key [OF r] kinds have "rule_kind r = TrunkRule"
    by auto
  with m have shape: "match_vlan_vid (fm_match (snd m)) = None \<and> instructions (snd m) = req_trunk_instructions"
    by (simp add: rule_flow_mod_def req_trunk_instructions_def)
  have "length (filter (\<lambda>(key, labels). key_kind key \<noteq> None) req_value_pair) = 1"
    by code_simp
  with handler_datapath_sent_bound [of "\<lparr>app_value_pair = req_value_pair\<rparr>" ev] shape
  show ?thesis by simp
qed

text \<open>
  The log of the test network's switch \<open>s1\<close> at DEBUG level. Each tagging record names
  the port number and the port's own name (not the label that matched it), and the trunk
  record reports \<open>TRUNK_ID => 2\<close>, an id the installed trunk rule does not carry (C10).
\<close>

lemma s1_debug_log:
  "log_output DEBUG (sent (handler_datapath_io VLan_Proactive (features_of s1_dp))) =
     [''++++++ Installing VLAN ++++++'',
      ''--- Tagging port=> 4 with TRUNK_ID => 2 with Label => s1-eth4'',
      ''--- Tagging port=> 2 with VLAN ID => 2 with Label => s1-eth2'',
      ''--- Tagging port=> 1 with VLAN ID => 1 with Label => s1-eth1'',
      '''']"
  by code_simp

section \<open>Witnesses\<close>

theorem handler_datapath_refines_witness:
  "ofproto_port_no (ev_msg_datapath (features_of s1_dp)) = Some (switch_port_table MyTopo ''s1'')
   \<and> handler_datapath VLan_Proactive (features_of s1_dp) =
       (Inr (), to_msgs s1_dp [trunk_rule 4, tenant_rule 2 2, tenant_rule 1 1])"
proof -
  have h: "ofproto_port_no (ev_msg_datapath (features_of s1_dp)) = Some (switch_port_table MyTopo ''s1'')"
    by (simp add: topo_datapath_def)
  show ?thesis
    using handler_datapath_refines [OF h, of VLan_Proactive] h s1_expected
    by (simp add: VLan_Proactive_def)
qed

theorem handler_datapath_distinct_ports_witness:
  "ofproto_port_no (ev_msg_datapath (features_of s1_dp)) = Some (switch_port_table MyTopo ''s1'')
   \<and> distinct (map port_no (switch_port_table MyTopo ''s1''))
   \<and> ports_unambiguous (switch_port_table MyTopo ''s1'') (app_value_pair VLan_Proactive)
   \<and> distinct (map (\<lambda>m. match_in_port (fm_match (snd m)))
        (sent (handler_datapath VLan_Proactive (features_of s1_dp))))"
proof -
  have h1: "ofproto_port_no (ev_msg_datapath (features_of s1_dp)) = Some (switch_port_table MyTopo ''s1'')"
    by (simp add: topo_datapath_def)
  have h2: "distinct (map port_no (switch_port_table MyTopo ''s1''))"
    by (simp add: s1_ports)
  have h3: "ports_unambiguous (switch_port_table MyTopo ''s1'') (app_value_pair VLan_Proactive)"
    by code_simp
  show ?thesis using handler_datapath_distinct_ports [OF h1 h2 h3] h1 h2 h3 by simp
qed

theorem get_port_number_first_label_witness:
  "ofproto_port_no s1_dp = Some (switch_port_table MyTopo ''s1'')
   \<and> get_port_number [''s1-eth1'', ''s1-eth3'', ''s2-eth2''] s1_dp
       = Inr (Some \<lparr>port_no = 1, name = ''s1-eth1''\<rparr>)"
proof -
  have h: "ofproto_port_no s1_dp = Some (switch_port_table MyTopo ''s1'')"
    by (simp add: topo_datapath_def)
  have "\<exists>pre l post. [''s1-eth1'', ''s1-eth3'', ''s2-eth2''] = pre @ l # post
      \<and> (\<forall>l' \<in> set pre. \<forall>q \<in> set (switch_port_table MyTopo ''s1''). \<not> sublist l' (name q))
      \<and> find (\<lambda>q. sublist l (name q)) (switch_port_table MyTopo ''s1'')
          = Some \<lparr>port_no = 1, name = ''s1-eth1''\<rparr>"
    by (intro exI [of _ "[]"] exI [of _ "''s1-eth1''"] exI [of _ "[''s1-eth3'', ''s2-eth2'']"])
       (simp add: s1_ports sublist_code prefix_code)
  with get_port_number_first_label [OF h] h show ?thesis by blast
qed

theorem handler_datapath_attribute_error_witness:
  "ofproto_port_no (ev_msg_datapath (features_of \<lparr>dp_id = 1, ofproto_port_no = None\<rparr>)) = None
   \<and> handler_datapath VLan_Proactive (features_of \<lparr>dp_id = 1, ofproto_port_no = None\<rparr>)
       = (Inl (AttributeError ''port_no''), [])"
proof -
  have h: "ofproto_port_no (ev_msg_datapath (features_of \<lparr>dp_id = 1, ofproto_port_no = None\<rparr>)) = None"
    by simp
  have c: "\<exists>(key, labels) \<in> set (app_value_pair VLan_Proactive). key_kind key \<noteq> None \<and> labels \<noteq> []"
    by code_simp
  show ?thesis using handler_datapath_attribute_error [OF h, of VLan_Proactive] c h by simp
qed

theorem handler_datapath_order_independent_witness:
  "mset value_pair = mset (rev value_pair)
   \<and> mset (sent (handler_datapath \<lparr>app_value_pair = value_pair\<rparr> (features_of s1_dp)))
     = mset (sent (handler_datapath \<lparr>app_value_pair = rev value_pair\<rparr> (features_of s1_dp)))"
proof -
  have h: "mset value_pair = mset (rev value_pair)" by simp
  show ?thesis using handler_datapath_order_independent [OF h, of "features_of s1_dp"] h by simp
qed

theorem reachable_sent_own_port_witness:
  "reachable [s1_dp, s2_dp] VLan_Proactive (dispatch (ctrl_init VLan_Proactive) (features_of s1_dp))
   \<and> distinct (map dp_id [s1_dp, s2_dp])
   \<and> (1, rule_flow_mod (trunk_rule 4)) \<in> set (ctrl_sent (dispatch (ctrl_init VLan_Proactive) (features_of s1_dp)))
   \<and> on_own_port s1_dp (rule_flow_mod (trunk_rule 4))"
proof -
  have r: "reachable [s1_dp, s2_dp] VLan_Proactive (dispatch (ctrl_init VLan_Proactive) (features_of s1_dp))"
    by (rule reachable.attach [OF reachable.init]) simp
  have d: "distinct (map dp_id [s1_dp, s2_dp])" by (simp add: topo_datapath_def)
  have m: "(1, rule_flow_mod (trunk_rule 4)) \<in> set (ctrl_sent (dispatch (ctrl_init VLan_Proactive) (features_of s1_dp)))"
    by code_simp
  have i: "s1_dp \<in> set [s1_dp, s2_dp]" by simp
  have e: "dp_id s1_dp = fst (1 :: dpid, rule_flow_mod (trunk_rule 4))" by (simp add: topo_datapath_def)
  from reachable_sent_own_port [OF r d m i e] r d m show ?thesis by simp
qed

theorem tag_trunk_vlan_ignores_trunk_id_witness:
  "tag_trunk_vlan [''s1-eth4''] 2 s1_dp = tag_trunk_vlan [''s1-eth4''] 7 s1_dp"
  using tag_trunk_vlan_ignores_trunk_id [of "[''s1-eth4'']" 2 s1_dp 7] by (rule conjunct1)

theorem get_port_number_attribute_error_witness:
  "ofproto_port_no \<lparr>dp_id = 1, ofproto_port_no = None\<rparr> = None
   \<and> get_port_number [''s1-eth1''] \<lparr>dp_id = 1, ofproto_port_no = None\<rparr> = Inl (AttributeError ''port_no'')"
proof -
  have h: "ofproto_port_no \<lparr>dp_id = 1, ofproto_port_no = None\<rparr> = None" by simp
  show ?thesis using get_port_number_attribute_error [OF h, of "[''s1-eth1'']"] h by simp
qed

theorem handler_untagged_only_trunk_witness:
  "(1, rule_flow_mod (trunk_rule 4)) \<in> set (sent (handler_datapath VLan_Proactive (features_of s1_dp)))
   \<and> flow_apply (rule_flow_mod (trunk_rule 4)) \<lparr>pkt_in_port = 4, pkt_eth_type = 0x0800, pkt_tags = []\<rparr>
       = Some \<lparr>pkt_in_port = 4, pkt_eth_type = 0x0800, pkt_tags = [\<lparr>tpid = 0x88A8, vid = 0\<rparr>]\<rparr>
   \<and> pkt_tags \<lparr>pkt_in_port = 4, pkt_eth_type = 0x0800, pkt_tags = [\<lparr>tpid = 0x88A8, vid = 0\<rparr>]\<rparr>
       = [\<lparr>tpid = BRIDGE_TAG_802_1AD, vid = 0\<rparr>]"
proof -
  have m: "(1, rule_flow_mod (trunk_rule 4)) \<in> set (sent (handler_datapath VLan_Proactive (features_of s1_dp)))"
    by code_simp
  have t: "pkt_tags \<lparr>pkt_in_port = 4, pkt_eth_type = 0x0800, pkt_tags = []\<rparr> = []" by simp
  have a: "flow_apply (snd (1 :: dpid, rule_flow_mod (trunk_rule 4)))
      \<lparr>pkt_in_port = 4, pkt_eth_type = 0x0800, pkt_tags = []\<rparr>
    = Some \<lparr>pkt_in_port = 4, pkt_eth_type = 0x0800, pkt_tags = [\<lparr>tpid = 0x88A8, vid = 0\<rparr>]\<rparr>"
    by (simp add: flow_apply_trunk BRIDGE_TAG_802_1AD_def)
  from handler_untagged_only_trunk [OF m t a] m a show ?thesis by simp
qed

theorem tag_vlan_packet_effect_witness:
  "(1, rule_flow_mod (tenant_rule 1 1)) \<in> set (sent (tag_vlan 1 1 s1_dp))
   \<and> flow_apply (rule_flow_mod (tenant_rule 1 1))
       \<lparr>pkt_in_port = 1, pkt_eth_type = 0x0800, pkt_tags = [\<lparr>tpid = 0x8100, vid = 1\<rparr>]\<rparr>
     = Some \<lparr>pkt_in_port = 1, pkt_eth_type = 0x0800,
             pkt_tags = [\<lparr>tpid = 0x8100, vid = 1\<rparr>, \<lparr>tpid = 0x8100, vid = 1\<rparr>]\<rparr>"
proof -
  have m: "(1, rule_flow_mod (tenant_rule 1 1)) \<in> set (sent (tag_vlan 1 1 s1_dp))"
    by (simp add: tag_vlan_eq topo_datapath_def)
  show ?thesis
    using tag_vlan_packet_effect [OF m, of "\<lparr>pkt_in_port = 1, pkt_eth_type = 0x0800,
      pkt_tags = [\<lparr>tpid = 0x8100, vid = 1\<rparr>]\<rparr>"] m by simp
qed

theorem handler_rules_deterministic_witness:
  "ofproto_port_no (ev_msg_datapath (features_of s1_dp)) = Some (switch_port_table MyTopo ''s1'')
   \<and> distinct (map port_no (switch_port_table MyTopo ''s1''))
   \<and> ports_unambiguous (switch_port_table MyTopo ''s1'') (app_value_pair VLan_Proactive)
   \<and> length (filter (\<lambda>m. flow_apply (snd m) \<lparr>pkt_in_port = 4, pkt_eth_type = 0x0800, pkt_tags = []\<rparr> \<noteq> None)
        (sent (handler_datapath VLan_Proactive (features_of s1_dp)))) \<le> 1"
proof -
  have h1: "ofproto_port_no (ev_msg_datapath (features_of s1_dp)) = Some (switch_port_table MyTopo ''s1'')"
    by (simp add: topo_datapath_def)
  have h2: "distinct (map port_no (switch_port_table MyTopo ''s1''))"
    by (simp add: s1_ports)
  have h3: "ports_unambiguous (switch_port_table MyTopo ''s1'') (app_value_pair VLan_Proactive)"
    by code_simp
  show ?thesis using handler_rules_deterministic [OF h1 h2 h3] h1 h2 h3 by simp
qed

theorem provision_once_per_connection_witness:
  "conn_reachable VLan_Proactive s1_provisioned
   \<and> conn_step s1_provisioned (FeaturesReply s1_dp) s1_provisioned
   \<and> provisioned s1_provisioned (dp_id s1_dp)
   \<and> runs s1_provisioned (dp_id s1_dp) \<le> 1"
proof -
  have st: "conn_step s1_provisioned (FeaturesReply s1_dp) s1_provisioned"
    by (rule conn_step.features_ignored) simp
  have pr: "provisioned s1_provisioned (dp_id s1_dp)"
    by (simp add: provisioned_def conn_init_def)
  from provision_once_per_connection [OF s1_provisioned_reachable st] st pr s1_provisioned_reachable
  show ?thesis by blast
qed

theorem conn_step_sends_only_when_provisioning_witness:
  "conn_reachable VLan_Proactive s1_connected
   \<and> conn_step s1_connected (FeaturesReply s1_dp) s1_provisioned
   \<and> ctrl_sent (ctrl s1_provisioned) \<noteq> ctrl_sent (ctrl s1_connected)
   \<and> ctrl_sent (ctrl s1_provisioned)
       = ctrl_sent (ctrl s1_connected) @ sent (handler_datapath VLan_Proactive (features_of s1_dp))"
proof -
  have ne: "ctrl_sent (ctrl s1_provisioned) \<noteq> ctrl_sent (ctrl s1_connected)"
    by code_simp
  from conn_step_sends_only_when_provisioning [OF s1_connected_reachable s1_provisioned_step ne]
  obtain dp where "FeaturesReply s1_dp = FeaturesReply dp"
      and "ctrl_sent (ctrl s1_provisioned)
        = ctrl_sent (ctrl s1_connected) @ sent (handler_datapath VLan_Proactive \<lparr>ev_msg_datapath = dp\<rparr>)"
    by blast
  with s1_connected_reachable s1_provisioned_step ne show ?thesis by simp
qed

theorem features_reply_provisions_witness:
  "conn_reachable VLan_Proactive s1_connected
   \<and> phase s1_connected (dp_id s1_dp) = Some CONFIG_DISPATCHER
   \<and> (\<exists>t. conn_step s1_connected (FeaturesReply s1_dp) t \<and> provisioned t (dp_id s1_dp))"
proof -
  have ph: "phase s1_connected (dp_id s1_dp) = Some CONFIG_DISPATCHER" by simp
  from features_reply_provisions [OF s1_connected_reachable ph] s1_connected_reachable ph
  show ?thesis by blast
qed

theorem mininet_label_resolves_witness:
  "CHR ''-'' \<notin> set ''s1'' \<and> (1::nat) \<le> 3 \<and> 3 \<le> length (node_peers MyTopo ''s1'')
   \<and> get_port_number [''s1-eth3''] s1_dp = Inr (Some \<lparr>port_no = 3, name = ''s1-eth3''\<rparr>)
   \<and> get_port_number [''s1''] s1_dp = Inr (Some \<lparr>port_no = 1, name = ''s1-eth1''\<rparr>)"
proof -
  have h1: "CHR ''-'' \<notin> set ''s1''" by simp
  have h2: "(1::nat) \<le> 3" by simp
  have h3: "3 \<le> length (node_peers MyTopo ''s1'')" by code_simp
  have n: "nat_str 3 = ''3''" by code_simp
  from mininet_label_resolves [OF h1 h2 h3, of 1] n h1 h2 h3 show ?thesis by simp
qed

theorem handler_vs_requirement_witness:
  "(1, rule_flow_mod (trunk_rule 4)) \<in> set (sent (handler_datapath VLan_Proactive (features_of s1_dp)))
   \<and> instructions (rule_flow_mod (trunk_rule 4)) = req_trunk_instructions"
proof -
  have m: "(1, rule_flow_mod (trunk_rule 4)) \<in> set (sent (handler_datapath VLan_Proactive (features_of s1_dp)))"
    by code_simp
  have v: "match_vlan_vid (fm_match (rule_flow_mod (trunk_rule 4))) = None"
    by (simp add: rule_flow_mod_def)
  from handler_vs_requirement [OF m] m v show ?thesis by simp
qed

theorem reachable_sent_wf_witness:
  "reachable [s1_dp, s2_dp] VLan_Proactive (dispatch (ctrl_init VLan_Proactive) (features_of s1_dp))
   \<and> list_all valid_port_table [s1_dp, s2_dp]
   \<and> list_all (\<lambda>m. flow_mod_wf (snd m)) (ctrl_sent (dispatch (ctrl_init VLan_Proactive) (features_of s1_dp)))"
proof -
  have r: "reachable [s1_dp, s2_dp] VLan_Proactive (dispatch (ctrl_init VLan_Proactive) (features_of s1_dp))"
    by (rule reachable.attach [OF reachable.init]) simp
  have v: "list_all valid_port_table [s1_dp, s2_dp]" by code_simp
  from reachable_sent_wf [OF r v] r v show ?thesis by simp
qed

theorem connected_only_1_3_witness:
  "conn_reachable VLan_Proactive s1_connected
   \<and> phase s1_connected (dp_id s1_dp) = Some CONFIG_DISPATCHER
   \<and> version s1_connected (dp_id s1_dp) = Some OFP_VERSION_1_3
   \<and> OFP_VERSION_1_3 \<notin> set [0x01]
   \<and> conn_step s1_connected (Connect s2_dp [0x01]) s1_connected"
proof -
  have ph: "phase s1_connected (dp_id s1_dp) = Some CONFIG_DISPATCHER" by simp
  have v: "OFP_VERSION_1_3 \<notin> set [0x01]" by simp
  have st: "conn_step s1_connected (Connect s2_dp [0x01]) s1_connected"
    by (rule conn_step.hello_failed) (simp_all add: topo_datapath_def conn_init_def OFP_VERSIONS_def negotiate_version_def)
  from connected_only_1_3 [OF s1_connected_reachable, of "dp_id s1_dp" "[0x01]" s2_dp s1_connected]
    s1_connected_reachable ph v st
  show ?thesis by simp
qed

theorem handler_rules_drop_witness:
  "(1, rule_flow_mod (trunk_rule 4)) \<in> set (sent (handler_datapath VLan_Proactive (features_of s1_dp)))
   \<and> match_packet (fm_match (rule_flow_mod (trunk_rule 4))) \<lparr>pkt_in_port = 4, pkt_eth_type = 0x0800, pkt_tags = []\<rparr>
   \<and> flow_fate (rule_flow_mod (trunk_rule 4)) \<lparr>pkt_in_port = 4, pkt_eth_type = 0x0800, pkt_tags = []\<rparr>
       = Some (Emitted [])"
proof -
  have m: "(1, rule_flow_mod (trunk_rule 4)) \<in> set (sent (handler_datapath VLan_Proactive (features_of s1_dp)))"
    by code_simp
  have p: "match_packet (fm_match (snd (1 :: dpid, rule_flow_mod (trunk_rule 4))))
      \<lparr>pkt_in_port = 4, pkt_eth_type = 0x0800, pkt_tags = []\<rparr>"
    by (simp add: match_rule_flow_mod)
  from handler_rules_drop [OF m p] m p show ?thesis by simp
qed

theorem mininet_handler_distinct_ports_witness:
  "CHR ''-'' \<notin> set ''s1'' \<and> length (node_peers MyTopo ''s1'') < 10
   \<and> mininet_config_for ''s1'' (app_value_pair VLan_Proactive)
   \<and> config_conflict_free (app_value_pair VLan_Proactive)
   \<and> distinct (map (\<lambda>m. match_in_port (fm_match (snd m)))
        (sent (handler_datapath VLan_Proactive (features_of s1_dp))))"
proof -
  have h1: "CHR ''-'' \<notin> set ''s1''" by simp
  have h2: "length (node_peers MyTopo ''s1'') < 10" by code_simp
  have h3: "mininet_config_for ''s1'' (app_value_pair VLan_Proactive)" by code_simp
  have h4: "config_conflict_free (app_value_pair VLan_Proactive)" by code_simp
  from mininet_handler_distinct_ports [OF h1 h2 h3 h4, of 1] h1 h2 h3 h4 show ?thesis by simp
qed

theorem reachable_switch_tables_witness:
  "reachable [s1_dp] VLan_Proactive
     (dispatch (dispatch (ctrl_init VLan_Proactive) (features_of s1_dp)) (features_of s1_dp))
   \<and> distinct (map dp_id [s1_dp]) \<and> s1_dp \<in> set [s1_dp]
   \<and> ofproto_port_no s1_dp = Some (switch_port_table MyTopo ''s1'') \<and> valid_port_table s1_dp
   \<and> distinct (map port_no (switch_port_table MyTopo ''s1''))
   \<and> ports_unambiguous (switch_port_table MyTopo ''s1'') (app_value_pair VLan_Proactive)
   \<and> switch_table (ctrl_sent (dispatch (dispatch (ctrl_init VLan_Proactive) (features_of s1_dp))
        (features_of s1_dp))) 1
       = map (entry_of \<circ> rule_flow_mod) [trunk_rule 4, tenant_rule 2 2, tenant_rule 1 1]
   \<and> pipeline (switch_table (ctrl_sent (dispatch (dispatch (ctrl_init VLan_Proactive) (features_of s1_dp))
        (features_of s1_dp))) 1) 0 \<lparr>pkt_in_port = 4, pkt_eth_type = 0x0800, pkt_tags = []\<rparr> [] = Some []"
proof -
  let ?s = "dispatch (dispatch (ctrl_init VLan_Proactive) (features_of s1_dp)) (features_of s1_dp)"
  have r: "reachable [s1_dp] VLan_Proactive ?s"
    by (intro reachable.attach reachable.init) simp_all
  have d: "distinct (map dp_id [s1_dp])" by simp
  have i: "s1_dp \<in> set [s1_dp]" by simp
  have p: "ofproto_port_no s1_dp = Some (switch_port_table MyTopo ''s1'')" by (simp add: topo_datapath_def)
  have v: "valid_port_table s1_dp" by code_simp
  have dn: "distinct (map port_no (switch_port_table MyTopo ''s1''))" by (simp add: s1_ports)
  have u: "ports_unambiguous (switch_port_table MyTopo ''s1'') (app_value_pair VLan_Proactive)" by code_simp
  have ne: "switch_table (ctrl_sent ?s) 1 \<noteq> []" by code_simp
  have dp1: "dp_id s1_dp = 1" by (simp add: topo_datapath_def)
  have ex: "expected_rules (switch_port_table MyTopo ''s1'') (rev (app_value_pair VLan_Proactive))
      = [trunk_rule 4, tenant_rule 2 2, tenant_rule 1 1]"
    using s1_expected by (simp add: VLan_Proactive_def)
  have "switch_table (ctrl_sent ?s) 1 = map (entry_of \<circ> rule_flow_mod) [trunk_rule 4, tenant_rule 2 2, tenant_rule 1 1]
     \<and> pipeline (switch_table (ctrl_sent ?s) 1) 0 \<lparr>pkt_in_port = 4, pkt_eth_type = 0x0800, pkt_tags = []\<rparr> [] = Some []"
    using reachable_switch_tables [OF r d i p v dn u, of "\<lparr>pkt_in_port = 4, pkt_eth_type = 0x0800, pkt_tags = []\<rparr>"] ne
    by (simp only: dp1 ex) blast
  with r d i p v dn u show ?thesis by blast
qed

theorem handler_vlan_ids_bounded_witness:
  "(1, rule_flow_mod (tenant_rule 1 1)) \<in> set (sent (handler_datapath VLan_Proactive (features_of s1_dp)))
   \<and> match_vlan_vid (fm_match (rule_flow_mod (tenant_rule 1 1))) = Some 1
   \<and> (\<exists>(key, labels) \<in> set (app_value_pair VLan_Proactive). key_kind key = Some (TenantRule 1))"
proof -
  have m: "(1, rule_flow_mod (tenant_rule 1 1)) \<in> set (sent (handler_datapath VLan_Proactive (features_of s1_dp)))"
    by code_simp
  have v: "match_vlan_vid (fm_match (snd (1 :: dpid, rule_flow_mod (tenant_rule 1 1)))) = Some 1"
    by (simp add: rule_flow_mod_def)
  from handler_vlan_ids_bounded [OF m v] m v show ?thesis by simp
qed

theorem requirement_table_only_trunk_witness:
  "(1, rule_flow_mod (trunk_rule 4)) \<in> set (sent (handler_datapath \<lparr>app_value_pair = req_value_pair\<rparr> (features_of s1_dp)))
   \<and> instructions (rule_flow_mod (trunk_rule 4)) = req_trunk_instructions
   \<and> length (sent (handler_datapath \<lparr>app_value_pair = req_value_pair\<rparr> (features_of s1_dp))) \<le> 1"
proof -
  have m: "(1, rule_flow_mod (trunk_rule 4)) \<in> set (sent (handler_datapath \<lparr>app_value_pair = req_value_pair\<rparr> (features_of s1_dp)))"
    by code_simp
  from requirement_table_only_trunk [OF m] m show ?thesis by simp
qed

theorem handler_conflict_overlap_witness:
  "outcome (handler_datapath conflict_app (features_of s1_dp)) = Inr ()
   \<and> (\<exists>m1 m2. m1 \<in> set (sent (handler_datapath conflict_app (features_of s1_dp)))
        \<and> m2 \<in> set (sent (handler_datapath conflict_app (features_of s1_dp)))
        \<and> m1 \<noteq> m2 \<and> priority (snd m1) = priority (snd m2)
        \<and> flow_apply (snd m1) \<lparr>pkt_in_port = 1, pkt_eth_type = 0x0800, pkt_tags = [\<lparr>tpid = 0x8100, vid = 1\<rparr>]\<rparr> \<noteq> None
        \<and> flow_apply (snd m2) \<lparr>pkt_in_port = 1, pkt_eth_type = 0x0800, pkt_tags = [\<lparr>tpid = 0x8100, vid = 1\<rparr>]\<rparr> \<noteq> None)"
proof -
  have g1: "(''tenda1'', [''s1-eth1'']) \<in> set (app_value_pair conflict_app)" by simp
  have k1: "key_kind ''tenda1'' = Some (TenantRule 1)" by code_simp
  have g2: "(''trunk'', [''s1-eth1'']) \<in> set (app_value_pair conflict_app)" by simp
  have k2: "key_kind ''trunk'' = Some TrunkRule" by code_simp
  have r: "get_port_number [''s1-eth1''] (ev_msg_datapath (features_of s1_dp))
      = Inr (Some \<lparr>port_no = 1, name = ''s1-eth1''\<rparr>)"
    by code_simp
  have p: "pkt_in_port \<lparr>pkt_in_port = 1, pkt_eth_type = 0x0800, pkt_tags = [\<lparr>tpid = 0x8100, vid = 1\<rparr>]\<rparr>
      = port_no \<lparr>port_no = 1, name = ''s1-eth1''\<rparr>"
    by simp
  have e: "pkt_eth_type \<lparr>pkt_in_port = 1, pkt_eth_type = 0x0800, pkt_tags = [\<lparr>tpid = 0x8100, vid = 1\<rparr>]\<rparr> = ETH_TYPE_IP"
    by simp
  have n: "pkt_tags \<lparr>pkt_in_port = 1, pkt_eth_type = 0x0800, pkt_tags = [\<lparr>tpid = 0x8100, vid = 1\<rparr>]\<rparr> \<noteq> []"
    by simp
  have u: "uint (vid (hd (pkt_tags \<lparr>pkt_in_port = 1, pkt_eth_type = 0x0800, pkt_tags = [\<lparr>tpid = 0x8100, vid = 1\<rparr>]\<rparr>))) = 1"
    by simp
  show ?thesis by (rule handler_conflict_overlap [OF g1 k1 g2 k2 r r p e n u])
qed

end
